theory Spec2Isabelle
  imports Main "HOL-Library.AList"
begin

section \<open>The ceph-fuse task of teuthology: mount and unmount ceph-fuse clients\<close>

text \<open>
  This theory embeds \<^verbatim>\<open>teuthology/task/ceph-fuse.py\<close>. The task is a context manager:
  it starts one \<^verbatim>\<open>ceph-fuse\<close> daemon per client on the client's remote host, waits until
  every mount is visible, hands control to the enclosed workload (\<^verbatim>\<open>yield\<close>) and, in
  its \<^verbatim>\<open>finally\<close> block, unmounts, waits for the daemons and removes the mount points.

  Everything the task does is a call on a collaborator (\<^verbatim>\<open>remote.run\<close>,
  \<^verbatim>\<open>run.wait\<close>, \<^verbatim>\<open>teuthology.wait_until_fuse_mounted\<close>, the logger). The model
  makes those calls explicit: the program threads a trace of the calls made so far, and an
  environment decides, from the trace and the call, whether the call returns, raises or
  never comes back.
\<close>

subsection \<open>Python values and the configuration dictionaries\<close>

text \<open>The values a YAML configuration entry can hold, as far as the task reads them.\<close>

datatype pyval = PyNone | PyBool bool | PyInt int | PyStr string | PyList "pyval list"

text \<open>Python's truth value of an object (\<^verbatim>\<open>if x\<close>, \<^verbatim>\<open>x or y\<close>, \<^verbatim>\<open>not x\<close>).\<close>

fun truthy :: "pyval \<Rightarrow> bool" where
  "truthy PyNone = False"
| "truthy (PyBool b) = b"
| "truthy (PyInt n) = (n \<noteq> 0)"
| "truthy (PyStr s) = (s \<noteq> [])"
| "truthy (PyList xs) = (xs \<noteq> [])"

text \<open>
  A per-client configuration is a dictionary from option names to values; the task's
  configuration is a dictionary from role names (\<^verbatim>\<open>client.0\<close>) to per-client
  configurations or \<^verbatim>\<open>None\<close>. Dictionaries are association lists read with
  \<^const>\<open>map_of\<close>.
\<close>

type_synonym client_config = "(string \<times> pyval) list"

type_synonym config_dict = "(string \<times> client_config option) list"

text \<open>\<^verbatim>\<open>d.get(k, default)\<close>; \<^verbatim>\<open>d.get(k)\<close> is \<^verbatim>\<open>d.get(k, None)\<close>.\<close>

definition dict_get :: "client_config \<Rightarrow> string \<Rightarrow> pyval \<Rightarrow> pyval" where
  "dict_get d k dflt = (case map_of d k of None \<Rightarrow> dflt | Some v \<Rightarrow> v)"

text \<open>The \<^verbatim>\<open>config\<close> argument of the task: absent, a list of role names, or a dictionary.\<close>

datatype config_arg = CfgNone | CfgList "string list" | CfgDict config_dict

text \<open>\<^verbatim>\<open>dict(pairs)\<close>: a later pair with the same key replaces the earlier value.\<close>

definition dict_of :: "(string \<times> 'v) list \<Rightarrow> (string \<times> 'v) list" where
  "dict_of ps = fold (\<lambda>(k, v) d. AList.update k v d) ps []"

subsection \<open>Collaborators: commands, process handles, exceptions\<close>

type_synonym remote = string

type_synonym handle = nat

text \<open>A command-line argument: a quoted string, or \<^verbatim>\<open>run.Raw\<close> text passed to the shell as is.\<close>

datatype arg = Str string | Raw string

text \<open>
  The exceptions the task distinguishes: \<^verbatim>\<open>run.CommandFailedError\<close>, gevent's
  \<^verbatim>\<open>Timeout\<close>, and every other exception, which the task never catches.
\<close>

datatype exn = CommandFailedError | Timeout | OtherError string

text \<open>What a call on a collaborator does: return a value, raise, or never return.\<close>

datatype 'a reply = Returns 'a | Raises exn | Blocks

datatype action =
    RemoteRun remote "arg list"
  | RemoteSpawn remote "arg list" string
  | WaitUntilFuseMounted remote handle string
  | RunWait "handle list" pyval
  | Yield

datatype outcome = Fine | Proc handle | Threw exn

datatype level = INFO | ERROR

datatype fmtarg = FStr string | FVal pyval | FDict client_config

text \<open>
  An event of the trace: a completed call with what it gave, or a log record (the format
  string and its arguments, unrendered).
\<close>

datatype event = Did action outcome | Logged level string "fmtarg list"

type_synonym trace = "event list"

text \<open>
  The environment answers each call from the trace of what happened before it:
  \<^item> \<open>remote_run\<close>: \<^verbatim>\<open>remote.run(args=...)\<close>, which waits for the command;
  \<^item> \<open>remote_spawn\<close>: \<^verbatim>\<open>remote.run(args=..., logger=..., stdin=run.PIPE, wait=False)\<close>,
    which returns the process;
  \<^item> \<open>wait_until_fuse_mounted\<close>: \<^verbatim>\<open>teuthology.wait_until_fuse_mounted(remote, fuse, mountpoint)\<close>;
  \<^item> \<open>run_wait\<close>: \<^verbatim>\<open>run.wait(processes, timeout=...)\<close>.
\<close>

record env =
  remote_run :: "trace \<Rightarrow> remote \<Rightarrow> arg list \<Rightarrow> unit reply"
  remote_spawn :: "trace \<Rightarrow> remote \<Rightarrow> arg list \<Rightarrow> string \<Rightarrow> handle reply"
  wait_until_fuse_mounted :: "trace \<Rightarrow> remote \<Rightarrow> handle \<Rightarrow> string \<Rightarrow> unit reply"
  run_wait :: "trace \<Rightarrow> handle list \<Rightarrow> pyval \<Rightarrow> unit reply"

text \<open>
  The test context \<^verbatim>\<open>ctx\<close>: the cluster (remotes with their roles) and the
  \<^verbatim>\<open>overrides\<close> entry of \<^verbatim>\<open>ctx.config\<close> (\<open>None\<close> when the key is absent), a
  dictionary from task names to configuration dictionaries.
\<close>

record ctx =
  cluster :: "(remote \<times> string list) list"
  overrides :: "(string \<times> config_dict) list option"

text \<open>
  The pure helpers of \<^verbatim>\<open>teuthology.misc\<close> the task calls. Their code is not part of
  the sources at hand, so they are parameters of the model.
\<close>

record misc =
  all_roles_of_type :: "(remote \<times> string list) list \<Rightarrow> string \<Rightarrow> string list"
  deep_merge :: "config_dict \<Rightarrow> config_dict \<Rightarrow> config_dict"
  get_clients :: "ctx \<Rightarrow> string list \<Rightarrow> (string \<times> remote) list"
  get_valgrind_args :: "string \<Rightarrow> pyval \<Rightarrow> arg list"

text \<open>
  A run of a piece of the program from a trace: \<open>None\<close> when it never returns, otherwise
  its result (a value or the exception that leaves it) and the trace extended by what it did.
\<close>

datatype 'a result = Ok 'a | Exc exn

type_synonym 'a run = "('a result \<times> trace) option"

definition call_remote_run :: "env \<Rightarrow> remote \<Rightarrow> arg list \<Rightarrow> trace \<Rightarrow> unit run" where
  "call_remote_run env remote args tr =
     (case remote_run env tr remote args of
        Returns _ \<Rightarrow> Some (Ok (), tr @ [Did (RemoteRun remote args) Fine])
      | Raises e \<Rightarrow> Some (Exc e, tr @ [Did (RemoteRun remote args) (Threw e)])
      | Blocks \<Rightarrow> None)"

definition call_remote_spawn :: "env \<Rightarrow> remote \<Rightarrow> arg list \<Rightarrow> string \<Rightarrow> trace \<Rightarrow> handle run" where
  "call_remote_spawn env remote args logger tr =
     (case remote_spawn env tr remote args logger of
        Returns proc \<Rightarrow> Some (Ok proc, tr @ [Did (RemoteSpawn remote args logger) (Proc proc)])
      | Raises e \<Rightarrow> Some (Exc e, tr @ [Did (RemoteSpawn remote args logger) (Threw e)])
      | Blocks \<Rightarrow> None)"

definition call_wait_until_fuse_mounted ::
  "env \<Rightarrow> remote \<Rightarrow> handle \<Rightarrow> string \<Rightarrow> trace \<Rightarrow> unit run" where
  "call_wait_until_fuse_mounted env remote fuse mountpoint tr =
     (case wait_until_fuse_mounted env tr remote fuse mountpoint of
        Returns _ \<Rightarrow> Some (Ok (), tr @ [Did (WaitUntilFuseMounted remote fuse mountpoint) Fine])
      | Raises e \<Rightarrow> Some (Exc e, tr @ [Did (WaitUntilFuseMounted remote fuse mountpoint) (Threw e)])
      | Blocks \<Rightarrow> None)"

definition call_run_wait :: "env \<Rightarrow> handle list \<Rightarrow> pyval \<Rightarrow> trace \<Rightarrow> unit run" where
  "call_run_wait env procs timeout tr =
     (case run_wait env tr procs timeout of
        Returns _ \<Rightarrow> Some (Ok (), tr @ [Did (RunWait procs timeout) Fine])
      | Raises e \<Rightarrow> Some (Exc e, tr @ [Did (RunWait procs timeout) (Threw e)])
      | Blocks \<Rightarrow> None)"

subsection \<open>The helpers of the task\<close>

text \<open>\<^verbatim>\<open>os.path.join('/tmp/cephtest', 'mnt.{id}'.format(id=id_))\<close>\<close>

definition mnt :: "string \<Rightarrow> string" where
  "mnt id' = ''/tmp/cephtest'' @ ''/'' @ ''mnt.'' @ id'"

text \<open>
  \<^verbatim>\<open>client_config = config.get("client.%s" % id_)\<close>, and \<^verbatim>\<open>{}\<close> when that is
  \<^verbatim>\<open>None\<close>.
\<close>

definition client_config_of :: "config_dict \<Rightarrow> string \<Rightarrow> client_config" where
  "client_config_of config id' =
     (case map_of config (''client.'' @ id') of
        None \<Rightarrow> []
      | Some None \<Rightarrow> []
      | Some (Some client_config) \<Rightarrow> client_config)"

definition fusermount_args :: "string \<Rightarrow> arg list" where
  "fusermount_args m = [Str ''fusermount'', Str ''-u'', Str m]"

definition abort_args :: "arg list" where
  "abort_args = [Str ''echo'', Str ''1'', Raw ''>'', Raw ''/sys/fs/fuse/connections/*/abort'']"

definition umount_args :: "string \<Rightarrow> arg list" where
  "umount_args m = [Str ''sudo'', Str ''umount'', Str ''-l'', Str ''-f'', Str m]"

definition killall_args :: "arg list" where
  "killall_args = [Str ''sudo'', Str ''killall'', Str ''-9'', Str ''ceph-fuse'']"

definition mkdir_args :: "string \<Rightarrow> arg list" where
  "mkdir_args m = [Str ''mkdir'', Str ''--'', Str m]"

definition rmdir_args :: "string \<Rightarrow> arg list" where
  "rmdir_args m = [Str ''rmdir'', Str ''--'', Str m]"

text \<open>\<^verbatim>\<open>_fuse_unmount(remote, mnt)\<close>\<close>

definition fuse_unmount :: "env \<Rightarrow> remote \<Rightarrow> string \<Rightarrow> trace \<Rightarrow> unit run" where
  "fuse_unmount env remote m tr = call_remote_run env remote (fusermount_args m) tr"

text \<open>
  \<^verbatim>\<open>_abort_fuse_mount(remote, mnt)\<close>: abort the fuse connections, then make sure the
  mount point is unmounted. An exception of the first command skips the second.
\<close>

definition abort_fuse_mount :: "env \<Rightarrow> remote \<Rightarrow> string \<Rightarrow> trace \<Rightarrow> unit run" where
  "abort_fuse_mount env remote m tr =
     (case call_remote_run env remote abort_args tr of
        None \<Rightarrow> None
      | Some (Exc e, tr1) \<Rightarrow> Some (Exc e, tr1)
      | Some (Ok _, tr1) \<Rightarrow> call_remote_run env remote (umount_args m) tr1)"

definition timeout_logs :: "pyval \<Rightarrow> trace" where
  "timeout_logs timeout =
     [Logged ERROR ''fuse client did not exit after {timeout} seconds'' [FVal timeout],
      Logged ERROR ''sending SIGKILL to ceph-fuse process'' []]"

text \<open>
  \<^verbatim>\<open>_wait_for_daemons(remote, fuse_daemons, timeout=None)\<close>: wait for all the daemons
  of the registry; on \<^verbatim>\<open>Timeout\<close> log, kill every \<^verbatim>\<open>ceph-fuse\<close> process on
  \<open>remote\<close> and wait again. The loop has no bound, so the function is partial: \<open>None\<close>
  when it never returns.
\<close>

partial_function (option) wait_for_daemons ::
  "env \<Rightarrow> remote \<Rightarrow> (string \<times> handle) list \<Rightarrow> pyval \<Rightarrow> trace \<Rightarrow> unit run" where
  "wait_for_daemons env remote fuse_daemons timeout tr =
     (case call_run_wait env (map snd fuse_daemons) timeout tr of
        None \<Rightarrow> None
      | Some (Ok _, tr1) \<Rightarrow> Some (Ok (), tr1)
      | Some (Exc e, tr1) \<Rightarrow>
          if e = Timeout then
            (case call_remote_run env remote killall_args (tr1 @ timeout_logs timeout) of
               None \<Rightarrow> None
             | Some (Exc e', tr2) \<Rightarrow> Some (Exc e', tr2)
             | Some (Ok _, tr2) \<Rightarrow> wait_for_daemons env remote fuse_daemons timeout tr2)
          else Some (Exc e, tr1))"

subsection \<open>Teardown: the \<^verbatim>\<open>finally\<close> block\<close>

text \<open>
  The first \<^verbatim>\<open>try\<close> of the unmount loop: the graceful unmount; a
  \<^verbatim>\<open>CommandFailedError\<close> is re-raised unless \<^verbatim>\<open>cleanup_on_failure\<close> is true, in which
  case it is logged and the mount is aborted, outside any handler.
\<close>

definition try_unmount :: "env \<Rightarrow> remote \<Rightarrow> string \<Rightarrow> pyval \<Rightarrow> trace \<Rightarrow> unit run" where
  "try_unmount env remote m cleanup_on_failure tr =
     (case fuse_unmount env remote m tr of
        None \<Rightarrow> None
      | Some (Ok _, tr1) \<Rightarrow> Some (Ok (), tr1)
      | Some (Exc e, tr1) \<Rightarrow>
          if e = CommandFailedError then
            if \<not> truthy cleanup_on_failure then Some (Exc e, tr1)
            else abort_fuse_mount env remote m
                   (tr1 @ [Logged ERROR ''fuse failed to unmount, cleaning up anyway'' []])
          else Some (Exc e, tr1))"

text \<open>
  The second \<^verbatim>\<open>try\<close>: wait for the daemons; a \<^verbatim>\<open>CommandFailedError\<close> is re-raised
  unless \<^verbatim>\<open>cleanup_on_failure\<close> is true, in which case it is logged and the loop goes on.
\<close>

definition try_wait ::
  "env \<Rightarrow> remote \<Rightarrow> (string \<times> handle) list \<Rightarrow> pyval \<Rightarrow> pyval \<Rightarrow> trace \<Rightarrow> unit run" where
  "try_wait env remote fuse_daemons fuse_timeout cleanup_on_failure tr =
     (case wait_for_daemons env remote fuse_daemons fuse_timeout tr of
        None \<Rightarrow> None
      | Some (Ok _, tr1) \<Rightarrow> Some (Ok (), tr1)
      | Some (Exc e, tr1) \<Rightarrow>
          if e = CommandFailedError then
            if \<not> truthy cleanup_on_failure then Some (Exc e, tr1)
            else Some (Ok (), tr1 @ [Logged INFO ''ceph-fuse process failed, cleaning up anyway'' []])
          else Some (Exc e, tr1))"

text \<open>The body of the unmount loop for one client \<^verbatim>\<open>(id_, remote)\<close>.\<close>

definition teardown_client ::
  "env \<Rightarrow> config_dict \<Rightarrow> (string \<times> handle) list \<Rightarrow> string \<times> remote \<Rightarrow> trace \<Rightarrow> unit run" where
  "teardown_client env config fuse_daemons client tr =
     (case client of (id', remote) \<Rightarrow>
        (let client_config = client_config_of config id';
             fuse_timeout = dict_get client_config ''timeout'' PyNone;
             cleanup_on_failure = dict_get client_config ''cleanup_on_failure'' (PyBool False);
             m = mnt id'
         in (case try_unmount env remote m cleanup_on_failure tr of
               None \<Rightarrow> None
             | Some (Exc e, tr1) \<Rightarrow> Some (Exc e, tr1)
             | Some (Ok _, tr1) \<Rightarrow>
                 try_wait env remote fuse_daemons fuse_timeout cleanup_on_failure tr1)))"

text \<open>The unmount loop: \<^verbatim>\<open>for id_, remote in clients\<close>, left by the first exception.\<close>

fun unmount_loop ::
  "env \<Rightarrow> config_dict \<Rightarrow> (string \<times> handle) list \<Rightarrow> (string \<times> remote) list \<Rightarrow> trace \<Rightarrow> unit run"
  where
  "unmount_loop env config fuse_daemons [] tr = Some (Ok (), tr)"
| "unmount_loop env config fuse_daemons (client # clients) tr =
     (case teardown_client env config fuse_daemons client tr of
        None \<Rightarrow> None
      | Some (Exc e, tr1) \<Rightarrow> Some (Exc e, tr1)
      | Some (Ok _, tr1) \<Rightarrow> unmount_loop env config fuse_daemons clients tr1)"

text \<open>The last loop: remove every mount point; no handler around \<^verbatim>\<open>remote.run\<close>.\<close>

fun rmdir_loop :: "env \<Rightarrow> (string \<times> remote) list \<Rightarrow> trace \<Rightarrow> unit run" where
  "rmdir_loop env [] tr = Some (Ok (), tr)"
| "rmdir_loop env ((id', remote) # clients) tr =
     (case call_remote_run env remote (rmdir_args (mnt id')) tr of
        None \<Rightarrow> None
      | Some (Exc e, tr1) \<Rightarrow> Some (Exc e, tr1)
      | Some (Ok _, tr1) \<Rightarrow> rmdir_loop env clients tr1)"

definition teardown ::
  "env \<Rightarrow> config_dict \<Rightarrow> (string \<times> handle) list \<Rightarrow> (string \<times> remote) list \<Rightarrow> trace \<Rightarrow> unit run"
  where
  "teardown env config fuse_daemons clients tr =
     (case unmount_loop env config fuse_daemons clients
             (tr @ [Logged INFO ''Unmounting ceph-fuse clients...'' []]) of
        None \<Rightarrow> None
      | Some (Exc e, tr1) \<Rightarrow> Some (Exc e, tr1)
      | Some (Ok _, tr1) \<Rightarrow> rmdir_loop env clients tr1)"

subsection \<open>Launch\<close>

text \<open>
  \<^verbatim>\<open>daemon_signal = 'kill'\<close>, replaced by \<^verbatim>\<open>'term'\<close> when
  \<^verbatim>\<open>client_config.get('coverage') or client_config.get('valgrind') is not None\<close>.
\<close>

definition daemon_signal :: "client_config \<Rightarrow> string" where
  "daemon_signal client_config =
     (if truthy (dict_get client_config ''coverage'' PyNone)
         \<or> dict_get client_config ''valgrind'' PyNone \<noteq> PyNone
      then ''term'' else ''kill'')"

text \<open>
  The command line of the daemon: \<^verbatim>\<open>run_cmd\<close>, extended by the valgrind arguments
  when \<^verbatim>\<open>client_config.get('valgrind') is not None\<close>, then by \<^verbatim>\<open>run_cmd_tail\<close>.
\<close>

definition run_cmd :: "misc \<Rightarrow> client_config \<Rightarrow> string \<Rightarrow> arg list" where
  "run_cmd misc client_config id' =
     (let cmd = [Str ''/tmp/cephtest/enable-coredump'',
                 Str ''/tmp/cephtest/binary/usr/local/bin/ceph-coverage'',
                 Str ''/tmp/cephtest/archive/coverage'',
                 Str ''/tmp/cephtest/daemon-helper'',
                 Str (daemon_signal client_config)];
          run_cmd_tail = [Str ''/tmp/cephtest/binary/usr/local/bin/ceph-fuse'',
                          Str ''-f'',
                          Str ''--name'', Str (''client.'' @ id'),
                          Str ''-c'', Str ''/tmp/cephtest/ceph.conf'',
                          Str (mnt id')];
          cmd = (if dict_get client_config ''valgrind'' PyNone \<noteq> PyNone
                 then cmd @ get_valgrind_args misc (''client.'' @ id')
                              (dict_get client_config ''valgrind'' PyNone)
                 else cmd)
      in cmd @ run_cmd_tail)"

text \<open>
  The body of the launch loop for one client: log, make the mount point, start the daemon
  without waiting for it, and store the process under the client's id.
\<close>

definition launch_client ::
  "env \<Rightarrow> misc \<Rightarrow> config_dict \<Rightarrow> string \<times> remote \<Rightarrow> (string \<times> handle) list \<Rightarrow> trace
     \<Rightarrow> (string \<times> handle) list run" where
  "launch_client env misc config client fuse_daemons tr =
     (case client of (id', remote) \<Rightarrow>
        (let m = mnt id';
             tr = tr @ [Logged INFO ''Mounting ceph-fuse client.{id} at {remote} {mnt}...''
                          [FStr id', FStr remote, FStr m]];
             client_config = client_config_of config id';
             tr = tr @ [Logged INFO ''Client client.%s config is %s''
                          [FStr id', FDict client_config]]
         in (case call_remote_run env remote (mkdir_args m) tr of
               None \<Rightarrow> None
             | Some (Exc e, tr1) \<Rightarrow> Some (Exc e, tr1)
             | Some (Ok _, tr1) \<Rightarrow>
                 (case call_remote_spawn env remote (run_cmd misc client_config id')
                         (''ceph-fuse.'' @ id') tr1 of
                    None \<Rightarrow> None
                  | Some (Exc e, tr2) \<Rightarrow> Some (Exc e, tr2)
                  | Some (Ok proc, tr2) \<Rightarrow>
                      Some (Ok (AList.update id' proc fuse_daemons), tr2)))))"

fun launch_loop ::
  "env \<Rightarrow> misc \<Rightarrow> config_dict \<Rightarrow> (string \<times> remote) list \<Rightarrow> (string \<times> handle) list \<Rightarrow> trace
     \<Rightarrow> (string \<times> handle) list run" where
  "launch_loop env misc config [] fuse_daemons tr = Some (Ok fuse_daemons, tr)"
| "launch_loop env misc config (client # clients) fuse_daemons tr =
     (case launch_client env misc config client fuse_daemons tr of
        None \<Rightarrow> None
      | Some (Exc e, tr1) \<Rightarrow> Some (Exc e, tr1)
      | Some (Ok fuse_daemons1, tr1) \<Rightarrow> launch_loop env misc config clients fuse_daemons1 tr1)"

text \<open>
  The second loop: wait for each mount in turn. \<^verbatim>\<open>fuse_daemons[id_]\<close> raises
  \<^verbatim>\<open>KeyError\<close> on a missing key.
\<close>

fun mount_wait_loop ::
  "env \<Rightarrow> (string \<times> handle) list \<Rightarrow> (string \<times> remote) list \<Rightarrow> trace \<Rightarrow> unit run" where
  "mount_wait_loop env fuse_daemons [] tr = Some (Ok (), tr)"
| "mount_wait_loop env fuse_daemons ((id', remote) # clients) tr =
     (case map_of fuse_daemons id' of
        None \<Rightarrow> Some (Exc (OtherError ''KeyError''), tr)
      | Some fuse \<Rightarrow>
          (case call_wait_until_fuse_mounted env remote fuse (mnt id') tr of
             None \<Rightarrow> None
           | Some (Exc e, tr1) \<Rightarrow> Some (Exc e, tr1)
           | Some (Ok _, tr1) \<Rightarrow> mount_wait_loop env fuse_daemons clients tr1))"

subsection \<open>The task\<close>

text \<open>
  The configuration the loops read: \<^verbatim>\<open>None\<close> becomes an entry for every client role
  of the cluster, a list becomes a dictionary of its names, and the \<^verbatim>\<open>ceph-fuse\<close>
  overrides are merged in. \<^verbatim>\<open>deep_merge\<close> changes \<^verbatim>\<open>config\<close> in place (the task
  drops what it returns): \<open>deep_merge misc a b\<close> is \<open>a\<close> after the call.
\<close>

definition merged_config :: "misc \<Rightarrow> ctx \<Rightarrow> config_arg \<Rightarrow> config_dict" where
  "merged_config misc ctx config =
     (let config =
            (case config of
               CfgNone \<Rightarrow>
                 dict_of (map (\<lambda>id'. (''client.'' @ id', None))
                            (all_roles_of_type misc (cluster ctx) ''client''))
             | CfgList names \<Rightarrow> dict_of (map (\<lambda>name. (name, None)) names)
             | CfgDict d \<Rightarrow> d);
          overrides = (case overrides ctx of None \<Rightarrow> [] | Some ov \<Rightarrow> ov)
      in deep_merge misc config
           (case map_of overrides ''ceph-fuse'' of None \<Rightarrow> [] | Some d \<Rightarrow> d))"

text \<open>
  What the caller of the context manager sees once the \<^verbatim>\<open>finally\<close> block has run: an
  exception of the block replaces the outcome of the workload; otherwise the workload's
  own exception, if any, goes on.
\<close>

definition after_finally :: "unit reply \<Rightarrow> unit run \<Rightarrow> unit run" where
  "after_finally w fin =
     (case fin of
        None \<Rightarrow> None
      | Some (Exc e, tr) \<Rightarrow> Some (Exc e, tr)
      | Some (Ok _, tr) \<Rightarrow>
          (case w of Raises e \<Rightarrow> Some (Exc e, tr) | Returns _ \<Rightarrow> Some (Ok (), tr) | Blocks \<Rightarrow> None))"

text \<open>
  \<^verbatim>\<open>task(ctx, config)\<close> used as \<^verbatim>\<open>with task(ctx, config): body\<close>. An exception
  before the \<^verbatim>\<open>yield\<close> leaves the task at once: the workload and the \<^verbatim>\<open>finally\<close>
  block are not run.
\<close>

definition task ::
  "env \<Rightarrow> misc \<Rightarrow> ctx \<Rightarrow> config_arg \<Rightarrow> (trace \<Rightarrow> unit reply) \<Rightarrow> trace \<Rightarrow> unit run" where
  "task env misc ctx config body tr =
     (let tr = tr @ [Logged INFO ''Mounting ceph-fuse clients...'' []];
          config = merged_config misc ctx config;
          clients = get_clients misc ctx (map fst config)
      in case launch_loop env misc config clients [] tr of
           None \<Rightarrow> None
         | Some (Exc e, tr1) \<Rightarrow> Some (Exc e, tr1)
         | Some (Ok fuse_daemons, tr1) \<Rightarrow>
             (case mount_wait_loop env fuse_daemons clients tr1 of
                None \<Rightarrow> None
              | Some (Exc e, tr2) \<Rightarrow> Some (Exc e, tr2)
              | Some (Ok _, tr2) \<Rightarrow>
                  (case body tr2 of
                     Blocks \<Rightarrow> None
                   | Returns _ \<Rightarrow>
                       after_finally (Returns ())
                         (teardown env config fuse_daemons clients (tr2 @ [Did Yield Fine]))
                   | Raises w \<Rightarrow>
                       after_finally (Raises w)
                         (teardown env config fuse_daemons clients
                            (tr2 @ [Did Yield (Threw w)])))))"

subsection \<open>Shapes of traces\<close>

text \<open>One round of the kill-and-wait-again loop: the wait times out, two error records, the kill returns.\<close>

definition kill_round :: "remote \<Rightarrow> handle list \<Rightarrow> pyval \<Rightarrow> trace" where
  "kill_round remote procs timeout =
     [Did (RunWait procs timeout) (Threw Timeout)] @ timeout_logs timeout
       @ [Did (RemoteRun remote killall_args) Fine]"

text \<open>
  How the loop of \<open>wait_for_daemons\<close> ends: the wait returns; or the wait raises something
  other than \<^verbatim>\<open>Timeout\<close>; or, after a timeout, the kill command raises.
\<close>

definition wait_end :: "remote \<Rightarrow> handle list \<Rightarrow> pyval \<Rightarrow> unit result \<Rightarrow> trace \<Rightarrow> bool" where
  "wait_end remote procs timeout res fin =
     (case res of
        Ok _ \<Rightarrow> fin = [Did (RunWait procs timeout) Fine]
      | Exc e \<Rightarrow>
          (e \<noteq> Timeout \<and> fin = [Did (RunWait procs timeout) (Threw e)])
          \<or> fin = [Did (RunWait procs timeout) (Threw Timeout)] @ timeout_logs timeout
                   @ [Did (RemoteRun remote killall_args) (Threw e)])"

text \<open>The events the launch loop can produce for one client.\<close>

fun launch_event :: "misc \<Rightarrow> config_dict \<Rightarrow> string \<times> remote \<Rightarrow> event \<Rightarrow> bool" where
  "launch_event misc config (id', remote) (Logged lv fmt args) =
     (lv = INFO \<and>
      ((fmt = ''Mounting ceph-fuse client.{id} at {remote} {mnt}...''
          \<and> args = [FStr id', FStr remote, FStr (mnt id')])
       \<or> (fmt = ''Client client.%s config is %s''
          \<and> args = [FStr id', FDict (client_config_of config id')])))"
| "launch_event misc config (id', remote) (Did a out) =
     (a = RemoteRun remote (mkdir_args (mnt id'))
      \<or> a = RemoteSpawn remote (run_cmd misc (client_config_of config id') id')
              (''ceph-fuse.'' @ id'))"

text \<open>The events of the mount-wait loop for one client.\<close>

fun mount_wait_event :: "(string \<times> handle) list \<Rightarrow> string \<times> remote \<Rightarrow> event \<Rightarrow> bool" where
  "mount_wait_event fuse_daemons (id', remote) (Did a out) =
     (case map_of fuse_daemons id' of
        None \<Rightarrow> False
      | Some fuse \<Rightarrow> a = WaitUntilFuseMounted remote fuse (mnt id'))"
| "mount_wait_event fuse_daemons (id', remote) (Logged lv fmt args) = False"

text \<open>
  The events of steps 1 and 2 of the teardown of one client: the graceful unmount, the
  forced abort, the wait on the daemons with the client's own timeout, the kill, and
  their log records.
\<close>

fun teardown_event ::
  "config_dict \<Rightarrow> (string \<times> handle) list \<Rightarrow> string \<times> remote \<Rightarrow> event \<Rightarrow> bool" where
  "teardown_event config fuse_daemons (id', remote) (Did a out) =
     (a = RemoteRun remote (fusermount_args (mnt id'))
      \<or> a = RemoteRun remote abort_args
      \<or> a = RemoteRun remote (umount_args (mnt id'))
      \<or> a = RunWait (map snd fuse_daemons)
              (dict_get (client_config_of config id') ''timeout'' PyNone)
      \<or> a = RemoteRun remote killall_args)"
| "teardown_event config fuse_daemons (id', remote) (Logged lv fmt args) =
     (Logged lv fmt args \<in> set (timeout_logs (dict_get (client_config_of config id') ''timeout'' PyNone))
      \<or> Logged lv fmt args = Logged ERROR ''fuse failed to unmount, cleaning up anyway'' []
      \<or> Logged lv fmt args = Logged INFO ''ceph-fuse process failed, cleaning up anyway'' [])"

text \<open>The event of the final pass for one client.\<close>

fun rmdir_event :: "string \<times> remote \<Rightarrow> event \<Rightarrow> bool" where
  "rmdir_event (id', remote) (Did a out) = (a = RemoteRun remote (rmdir_args (mnt id')))"
| "rmdir_event (id', remote) (Logged lv fmt args) = False"

text \<open>\<^verbatim>\<open>cleanup_on_failure = client_config.get('cleanup_on_failure', False)\<close> of a client.\<close>

abbreviation cleanup_on_failure :: "config_dict \<Rightarrow> string \<Rightarrow> pyval" where
  "cleanup_on_failure config id' \<equiv>
     dict_get (client_config_of config id') ''cleanup_on_failure'' (PyBool False)"

text \<open>\<^verbatim>\<open>fuse_timeout = client_config.get('timeout')\<close> of a client.\<close>

abbreviation fuse_timeout :: "config_dict \<Rightarrow> string \<Rightarrow> pyval" where
  "fuse_timeout config id' \<equiv> dict_get (client_config_of config id') ''timeout'' PyNone"

subsection \<open>Scripted environments\<close>

text \<open>
  An environment for worked examples: \<open>rr\<close> answers the commands and \<open>rw\<close> the waits on
  the daemons; a daemon starts at once, with the length of the trace as its handle, and
  every mount appears.
\<close>

definition scripted_env ::
  "(trace \<Rightarrow> remote \<Rightarrow> arg list \<Rightarrow> unit reply) \<Rightarrow> (trace \<Rightarrow> handle list \<Rightarrow> pyval \<Rightarrow> unit reply) \<Rightarrow> env"
  where
  "scripted_env rr rw =
     \<lparr>remote_run = rr,
      remote_spawn = (\<lambda>tr remote args lg. Returns (length tr)),
      wait_until_fuse_mounted = (\<lambda>tr remote fuse m. Returns ()),
      run_wait = rw\<rparr>"

text \<open>
  Stand-ins for the helpers of \<^verbatim>\<open>teuthology.misc\<close> in worked examples: the client roles
  of a cluster, a merge in which the entries of the overrides replace those of the
  configuration, the remote that holds each role, and valgrind arguments that start with
  \<^verbatim>\<open>valgrind\<close> and go on with the strings of the configured list.
\<close>

definition example_misc :: misc where
  "example_misc =
     \<lparr>all_roles_of_type =
        (\<lambda>cl type. [drop (length type + 1) role.
                      (r, roles) \<leftarrow> cl, role \<leftarrow> roles, take (length type + 1) role = type @ ''.'']),
      deep_merge = (\<lambda>a b. fold (\<lambda>(k, v) d. AList.update k v d) b a),
      get_clients =
        (\<lambda>ctx roles. [(drop 7 role, r). role \<leftarrow> roles, (r, rs) \<leftarrow> cluster ctx, role \<in> set rs]),
      get_valgrind_args =
        (\<lambda>name v. Str ''valgrind'' #
           (case v of PyList vs \<Rightarrow> concat (map (\<lambda>x. case x of PyStr s \<Rightarrow> [Str s] | _ \<Rightarrow> []) vs)
            | _ \<Rightarrow> []))\<rparr>"

text \<open>A cluster of three hosts with one client role each, and no overrides.\<close>

definition example_ctx :: ctx where
  "example_ctx =
     \<lparr>cluster = [(''a'', [''mon.a'', ''client.0'']), (''b'', [''client.1'']),
                 (''c'', [''osd.0'', ''client.2''])],
      overrides = None\<rparr>"

text \<open>The environment in which every command, every mount and every wait succeeds.\<close>

definition example_env :: env where
  "example_env = scripted_env (\<lambda>tr remote args. Returns ()) (\<lambda>tr procs timeout. Returns ())"

text \<open>
  The trace of the launch loop and of the mount-wait loop of the task on that cluster in
  that environment, with no configuration: the daemons get the handles 4, 8 and 12.
\<close>

definition example_launch_trace :: trace where
  "example_launch_trace =
     Logged INFO ''Mounting ceph-fuse clients...'' []
     # concat (map (\<lambda>(id', remote, proc).
         [Logged INFO ''Mounting ceph-fuse client.{id} at {remote} {mnt}...''
            [FStr id', FStr remote, FStr (mnt id')],
          Logged INFO ''Client client.%s config is %s'' [FStr id', FDict []],
          Did (RemoteRun remote (mkdir_args (mnt id'))) Fine,
          Did (RemoteSpawn remote (run_cmd example_misc [] id') (''ceph-fuse.'' @ id')) (Proc proc)])
         [(''0'', ''a'', 4), (''1'', ''b'', 8), (''2'', ''c'', 12)])"

definition example_mount_trace :: trace where
  "example_mount_trace =
     example_launch_trace
     @ map (\<lambda>(id', remote, proc). Did (WaitUntilFuseMounted remote proc (mnt id')) Fine)
         [(''0'', ''a'', 4), (''1'', ''b'', 8), (''2'', ''c'', 12)]"

text \<open>
  An environment with live daemons. Every command returns, a daemon starts at once and
  every mount appears. A daemon runs until its mount point is unmounted
  (\<^verbatim>\<open>fusermount -u\<close> or \<^verbatim>\<open>sudo umount -l -f\<close> of the last argument of its command,
  on its remote) or \<^verbatim>\<open>ceph-fuse\<close> is killed on its remote. A wait returns when all its
  processes have exited; otherwise it raises \<^verbatim>\<open>Timeout\<close> when it has a timeout and never
  returns when it has none.
\<close>

definition daemon_exited :: "trace \<Rightarrow> handle \<Rightarrow> bool" where
  "daemon_exited tr proc =
     list_ex (\<lambda>ev. case ev of
         Did (RemoteSpawn remote args lg) (Proc p) \<Rightarrow>
           p = proc \<and> args \<noteq> [] \<and>
           (case last args of
              Str m \<Rightarrow>
                Did (RemoteRun remote [Str ''fusermount'', Str ''-u'', Str m]) Fine \<in> set tr
                \<or> Did (RemoteRun remote [Str ''sudo'', Str ''umount'', Str ''-l'', Str ''-f'', Str m])
                      Fine \<in> set tr
                \<or> Did (RemoteRun remote [Str ''sudo'', Str ''killall'', Str ''-9'', Str ''ceph-fuse''])
                      Fine \<in> set tr
            | Raw _ \<Rightarrow> False)
       | _ \<Rightarrow> False) tr"

definition daemon_env :: env where
  "daemon_env =
     scripted_env (\<lambda>tr remote args. Returns ())
       (\<lambda>tr procs timeout.
           if list_all (daemon_exited tr) procs then Returns ()
           else if timeout = PyNone then Blocks else Raises Timeout)"

subsection \<open>The launch command in the words of the specification\<close>

text \<open>
  The fixed wrapper prefix (core-dump enabler, coverage wrapper with its archive argument,
  daemon helper with the signal), the instrumentation arguments, the daemon binary with
  its identity and configuration file, and the mount point last.
\<close>

definition spec_launch_command :: "string \<Rightarrow> arg list \<Rightarrow> string \<Rightarrow> string \<Rightarrow> arg list" where
  "spec_launch_command signal instrumentation id' mount_point =
     [Str ''/tmp/cephtest/enable-coredump'',
      Str ''/tmp/cephtest/binary/usr/local/bin/ceph-coverage'',
      Str ''/tmp/cephtest/archive/coverage'',
      Str ''/tmp/cephtest/daemon-helper'',
      Str signal]
     @ instrumentation
     @ [Str ''/tmp/cephtest/binary/usr/local/bin/ceph-fuse'', Str ''-f'',
        Str ''--name'', Str (''client.'' @ id'),
        Str ''-c'', Str ''/tmp/cephtest/ceph.conf'']
     @ [Str mount_point]"

subsection \<open>The configuration and the clients of a run of the task\<close>

abbreviation task_config :: "misc \<Rightarrow> ctx \<Rightarrow> config_arg \<Rightarrow> config_dict" where
  "task_config misc ctx config \<equiv> merged_config misc ctx config"

abbreviation task_clients :: "misc \<Rightarrow> ctx \<Rightarrow> config_arg \<Rightarrow> (string \<times> remote) list" where
  "task_clients misc ctx config \<equiv> get_clients misc ctx (map fst (merged_config misc ctx config))"

subsection \<open>What one call adds to the trace\<close>

lemma call_remote_run_cases:
  "call_remote_run env remote args tr = Some (res, tr') \<Longrightarrow>
     (res = Ok () \<and> remote_run env tr remote args = Returns ()
        \<and> tr' = tr @ [Did (RemoteRun remote args) Fine])
     \<or> (\<exists>e. res = Exc e \<and> remote_run env tr remote args = Raises e
           \<and> tr' = tr @ [Did (RemoteRun remote args) (Threw e)])"
  by (auto simp: call_remote_run_def split: reply.splits)

lemma call_run_wait_cases:
  "call_run_wait env procs timeout tr = Some (res, tr') \<Longrightarrow>
     (res = Ok () \<and> run_wait env tr procs timeout = Returns ()
        \<and> tr' = tr @ [Did (RunWait procs timeout) Fine])
     \<or> (\<exists>e. res = Exc e \<and> run_wait env tr procs timeout = Raises e
           \<and> tr' = tr @ [Did (RunWait procs timeout) (Threw e)])"
  by (auto simp: call_run_wait_def split: reply.splits)

lemma call_remote_spawn_cases:
  "call_remote_spawn env remote args lg tr = Some (res, tr') \<Longrightarrow>
     (\<exists>proc. res = Ok proc \<and> remote_spawn env tr remote args lg = Returns proc
        \<and> tr' = tr @ [Did (RemoteSpawn remote args lg) (Proc proc)])
     \<or> (\<exists>e. res = Exc e \<and> remote_spawn env tr remote args lg = Raises e
           \<and> tr' = tr @ [Did (RemoteSpawn remote args lg) (Threw e)])"
  by (auto simp: call_remote_spawn_def split: reply.splits)

lemma call_wait_until_fuse_mounted_cases:
  "call_wait_until_fuse_mounted env remote fuse m tr = Some (res, tr') \<Longrightarrow>
     (res = Ok () \<and> tr' = tr @ [Did (WaitUntilFuseMounted remote fuse m) Fine])
     \<or> (\<exists>e. res = Exc e \<and> tr' = tr @ [Did (WaitUntilFuseMounted remote fuse m) (Threw e)])"
  by (auto simp: call_wait_until_fuse_mounted_def split: reply.splits)

lemma abort_fuse_mount_cases:
  assumes "abort_fuse_mount env remote m tr = Some (res, tr')"
  shows "(\<exists>e. res = Exc e \<and> tr' = tr @ [Did (RemoteRun remote abort_args) (Threw e)])
       \<or> (\<exists>e. res = Exc e \<and> tr' = tr @ [Did (RemoteRun remote abort_args) Fine,
                                           Did (RemoteRun remote (umount_args m)) (Threw e)])
       \<or> (res = Ok () \<and> tr' = tr @ [Did (RemoteRun remote abort_args) Fine,
                                     Did (RemoteRun remote (umount_args m)) Fine])"
proof -
  from assms obtain r1 tr1 where c1: "call_remote_run env remote abort_args tr = Some (r1, tr1)"
    by (auto simp: abort_fuse_mount_def split: option.splits)
  show ?thesis
  proof (cases r1)
    case (Exc e)
    with c1 assms call_remote_run_cases[OF c1] show ?thesis
      by (auto simp: abort_fuse_mount_def)
  next
    case (Ok u)
    with c1 assms have c2: "call_remote_run env remote (umount_args m) tr1 = Some (res, tr')"
      by (simp add: abort_fuse_mount_def)
    from Ok call_remote_run_cases[OF c1] have "tr1 = tr @ [Did (RemoteRun remote abort_args) Fine]"
      by auto
    with call_remote_run_cases[OF c2] show ?thesis by auto
  qed
qed

text \<open>The first \<^verbatim>\<open>try\<close>: every way it can end, with the trace it leaves.\<close>

lemma try_unmount_cases:
  assumes "try_unmount env remote m c tr = Some (res, tr')"
  shows "(res = Ok () \<and> tr' = tr @ [Did (RemoteRun remote (fusermount_args m)) Fine])
       \<or> (\<exists>e. res = Exc e \<and> (e = CommandFailedError \<longrightarrow> \<not> truthy c)
             \<and> tr' = tr @ [Did (RemoteRun remote (fusermount_args m)) (Threw e)])
       \<or> (truthy c \<and>
           (\<exists>ab. tr' = tr @ [Did (RemoteRun remote (fusermount_args m)) (Threw CommandFailedError),
                             Logged ERROR ''fuse failed to unmount, cleaning up anyway'' []] @ ab
              \<and> ((\<exists>e. res = Exc e \<and> ab = [Did (RemoteRun remote abort_args) (Threw e)])
                 \<or> (\<exists>e. res = Exc e \<and> ab = [Did (RemoteRun remote abort_args) Fine,
                                              Did (RemoteRun remote (umount_args m)) (Threw e)])
                 \<or> (res = Ok () \<and> ab = [Did (RemoteRun remote abort_args) Fine,
                                        Did (RemoteRun remote (umount_args m)) Fine]))))"
proof -
  from assms obtain r1 tr1 where c1: "call_remote_run env remote (fusermount_args m) tr = Some (r1, tr1)"
    by (auto simp: try_unmount_def fuse_unmount_def split: option.splits)
  show ?thesis
  proof (cases r1)
    case (Ok u)
    with c1 assms call_remote_run_cases[OF c1] show ?thesis
      by (auto simp: try_unmount_def fuse_unmount_def)
  next
    case (Exc e)
    with call_remote_run_cases[OF c1]
    have tr1: "tr1 = tr @ [Did (RemoteRun remote (fusermount_args m)) (Threw e)]" by auto
    show ?thesis
    proof (cases "e = CommandFailedError \<and> truthy c")
      case False
      with c1 Exc assms have "res = Exc e \<and> tr' = tr1"
        by (auto simp: try_unmount_def fuse_unmount_def split: if_splits)
      with tr1 False show ?thesis by auto
    next
      case True
      with c1 Exc assms have
        "abort_fuse_mount env remote m
           (tr1 @ [Logged ERROR ''fuse failed to unmount, cleaning up anyway'' []]) = Some (res, tr')"
        by (auto simp: try_unmount_def fuse_unmount_def)
      from abort_fuse_mount_cases[OF this] tr1 True show ?thesis by auto
    qed
  qed
qed

lemma wait_for_daemons_shape:
  assumes "wait_for_daemons env remote fuse_daemons timeout tr = Some y"
  shows "\<exists>n fin. snd y = tr @ concat (replicate n (kill_round remote (map snd fuse_daemons) timeout)) @ fin
            \<and> wait_end remote (map snd fuse_daemons) timeout (fst y) fin"
proof (rule wait_for_daemons.raw_induct
    [where P = "\<lambda>env remote fuse_daemons timeout tr y. \<exists>n fin.
       snd y = tr @ concat (replicate n (kill_round remote (map snd fuse_daemons) timeout)) @ fin
       \<and> wait_end remote (map snd fuse_daemons) timeout (fst y) fin", OF _ assms], goal_cases)
  case (1 w env remote fuse_daemons timeout tr y)
  note IH = 1(1) and eq = 1(2)
  let ?hs = "map snd fuse_daemons"
  let ?round = "kill_round remote ?hs timeout"
  from eq obtain r1 tr1 where c1: "call_run_wait env ?hs timeout tr = Some (r1, tr1)"
    by (auto split: option.splits)
  show ?case
  proof (cases r1)
    case (Ok u)
    with c1 eq call_run_wait_cases[OF c1] have "y = (Ok (), tr @ [Did (RunWait ?hs timeout) Fine])"
      by auto
    then have "snd y = tr @ concat (replicate 0 ?round) @ [Did (RunWait ?hs timeout) Fine]
        \<and> wait_end remote ?hs timeout (fst y) [Did (RunWait ?hs timeout) Fine]"
      by (simp add: wait_end_def)
    then show ?thesis by blast
  next
    case (Exc e)
    with call_run_wait_cases[OF c1] have tr1: "tr1 = tr @ [Did (RunWait ?hs timeout) (Threw e)]"
      by auto
    show ?thesis
    proof (cases "e = Timeout")
      case False
      with c1 Exc eq tr1 have "y = (Exc e, tr @ [Did (RunWait ?hs timeout) (Threw e)])"
        by auto
      with False have "snd y = tr @ concat (replicate 0 ?round) @ [Did (RunWait ?hs timeout) (Threw e)]
        \<and> wait_end remote ?hs timeout (fst y) [Did (RunWait ?hs timeout) (Threw e)]"
        by (simp add: wait_end_def)
      then show ?thesis by blast
    next
      case True
      with c1 Exc eq obtain r2 tr2 where
        c2: "call_remote_run env remote killall_args (tr1 @ timeout_logs timeout) = Some (r2, tr2)"
        by (auto split: option.splits)
      show ?thesis
      proof (cases r2)
        case (Exc e')
        with call_remote_run_cases[OF c2] tr1 True
        have tr2: "tr2 = tr @ [Did (RunWait ?hs timeout) (Threw Timeout)] @ timeout_logs timeout
                       @ [Did (RemoteRun remote killall_args) (Threw e')]"
          by auto
        from c1 c2 \<open>r1 = Exc e\<close> True Exc eq have "y = (Exc e', tr2)" by auto
        with tr2 have "snd y = tr @ concat (replicate 0 ?round) @
            ([Did (RunWait ?hs timeout) (Threw Timeout)] @ timeout_logs timeout
                       @ [Did (RemoteRun remote killall_args) (Threw e')])
          \<and> wait_end remote ?hs timeout (fst y) ([Did (RunWait ?hs timeout) (Threw Timeout)] @ timeout_logs timeout
                       @ [Did (RemoteRun remote killall_args) (Threw e')])"
          by (simp add: wait_end_def)
        then show ?thesis by blast
      next
        case (Ok u)
        with call_remote_run_cases[OF c2] tr1 True
        have tr2: "tr2 = tr @ ?round" by (auto simp: kill_round_def)
        from c1 c2 \<open>r1 = Exc e\<close> True Ok eq
        have "w env remote fuse_daemons timeout tr2 = Some y" by auto
        from IH[OF this] obtain n fin where
          "snd y = tr2 @ concat (replicate n ?round) @ fin" "wait_end remote ?hs timeout (fst y) fin"
          by blast
        with tr2 have "snd y = tr @ concat (replicate (Suc n) ?round) @ fin
           \<and> wait_end remote ?hs timeout (fst y) fin" by simp
        then show ?thesis by blast
      qed
    qed
  qed
qed

text \<open>The loop returns as soon as a wait returns, after any number of rounds.\<close>

lemma wait_for_daemons_returns:
  assumes "\<forall>i<n. run_wait env (tr @ concat (replicate i (kill_round remote (map snd fuse_daemons) timeout)))
                     (map snd fuse_daemons) timeout = Raises Timeout
                \<and> remote_run env
                     (tr @ concat (replicate i (kill_round remote (map snd fuse_daemons) timeout))
                        @ [Did (RunWait (map snd fuse_daemons) timeout) (Threw Timeout)]
                        @ timeout_logs timeout) remote killall_args = Returns ()"
    and "run_wait env (tr @ concat (replicate n (kill_round remote (map snd fuse_daemons) timeout)))
           (map snd fuse_daemons) timeout = Returns ()"
  shows "wait_for_daemons env remote fuse_daemons timeout tr =
           Some (Ok (), tr @ concat (replicate n (kill_round remote (map snd fuse_daemons) timeout))
                          @ [Did (RunWait (map snd fuse_daemons) timeout) Fine])"
  using assms
proof (induction n arbitrary: tr)
  case 0
  then show ?case
    by (subst wait_for_daemons.simps) (simp add: call_run_wait_def)
next
  case (Suc n)
  let ?hs = "map snd fuse_daemons"
  let ?round = "kill_round remote ?hs timeout"
  from Suc.prems(1) have w0: "run_wait env tr ?hs timeout = Raises Timeout"
    and k0: "remote_run env (tr @ [Did (RunWait ?hs timeout) (Threw Timeout)] @ timeout_logs timeout)
               remote killall_args = Returns ()"
    by force+
  have step: "wait_for_daemons env remote fuse_daemons timeout tr =
      wait_for_daemons env remote fuse_daemons timeout (tr @ ?round)"
    using w0 k0
    by (subst wait_for_daemons.simps) (simp add: call_run_wait_def call_remote_run_def kill_round_def)
  have "\<forall>i<n. run_wait env ((tr @ ?round) @ concat (replicate i ?round)) ?hs timeout = Raises Timeout
                \<and> remote_run env ((tr @ ?round) @ concat (replicate i ?round)
                        @ [Did (RunWait ?hs timeout) (Threw Timeout)]
                        @ timeout_logs timeout) remote killall_args = Returns ()"
  proof (intro allI impI)
    fix i assume "i < n"
    then have "Suc i < Suc n" by simp
    with Suc.prems(1) show "run_wait env ((tr @ ?round) @ concat (replicate i ?round)) ?hs timeout = Raises Timeout
                \<and> remote_run env ((tr @ ?round) @ concat (replicate i ?round)
                        @ [Did (RunWait ?hs timeout) (Threw Timeout)]
                        @ timeout_logs timeout) remote killall_args = Returns ()"
      by (metis append.assoc concat.simps(2) replicate_Suc)
  qed
  moreover from Suc.prems(2)
  have "run_wait env ((tr @ ?round) @ concat (replicate n ?round)) ?hs timeout = Returns ()"
    by simp
  ultimately have "wait_for_daemons env remote fuse_daemons timeout (tr @ ?round) =
      Some (Ok (), (tr @ ?round) @ concat (replicate n ?round) @ [Did (RunWait ?hs timeout) Fine])"
    by (rule Suc.IH)
  with step show ?case by simp
qed

lemma in_concat_replicate: "x \<in> set (concat (replicate n xs)) \<Longrightarrow> x \<in> set xs"
  by (induction n) auto

lemma kill_round_event:
  assumes "ev \<in> set (kill_round remote (map snd fuse_daemons) (fuse_timeout config id'))"
  shows "teardown_event config fuse_daemons (id', remote) ev"
proof -
  from assms have "ev = Did (RunWait (map snd fuse_daemons) (fuse_timeout config id')) (Threw Timeout)
      \<or> ev \<in> set (timeout_logs (fuse_timeout config id'))
      \<or> ev = Did (RemoteRun remote killall_args) Fine"
    by (auto simp: kill_round_def)
  then show ?thesis
    by (elim disjE) (simp_all, auto simp: timeout_logs_def)
qed

lemma kill_round_events:
  "ev \<in> set (concat (replicate n (kill_round remote (map snd fuse_daemons) (fuse_timeout config id')))) \<Longrightarrow>
     teardown_event config fuse_daemons (id', remote) ev"
  by (rule kill_round_event) (rule in_concat_replicate)

lemma wait_end_events:
  assumes "wait_end remote (map snd fuse_daemons) (fuse_timeout config id') res fin" and "ev \<in> set fin"
  shows "teardown_event config fuse_daemons (id', remote) ev"
proof -
  from assms have "(\<exists>out. ev = Did (RunWait (map snd fuse_daemons) (fuse_timeout config id')) out)
      \<or> ev \<in> set (timeout_logs (fuse_timeout config id'))
      \<or> (\<exists>out. ev = Did (RemoteRun remote killall_args) out)"
    by (auto simp: wait_end_def split: result.splits)
  then show ?thesis
    by (elim disjE exE) (simp_all, auto simp: timeout_logs_def)
qed

lemma wait_end_last:
  "wait_end remote procs timeout (Exc e) fin \<Longrightarrow>
     fin \<noteq> [] \<and> (\<exists>a. last fin = Did a (Threw e)
        \<and> (a = RunWait procs timeout \<and> e \<noteq> Timeout \<or> a = RemoteRun remote killall_args))"
  by (auto simp: wait_end_def timeout_logs_def)

lemma wait_end_first:
  "wait_end remote procs timeout res fin \<Longrightarrow> \<exists>out fin'. fin = Did (RunWait procs timeout) out # fin'"
  by (auto simp: wait_end_def split: result.splits)

text \<open>The second \<^verbatim>\<open>try\<close>: rounds of the loop, its end, and the log record of a tolerated failure.\<close>

lemma try_wait_cases:
  assumes "try_wait env remote fuse_daemons timeout c tr = Some (res, tr')"
  shows "\<exists>n fin r0 lg. tr' = tr @ concat (replicate n (kill_round remote (map snd fuse_daemons) timeout)) @ fin @ lg
           \<and> wait_end remote (map snd fuse_daemons) timeout r0 fin
           \<and> ((r0 = res \<and> lg = [] \<and> (res = Exc CommandFailedError \<longrightarrow> \<not> truthy c))
              \<or> (r0 = Exc CommandFailedError \<and> truthy c \<and> res = Ok ()
                  \<and> lg = [Logged INFO ''ceph-fuse process failed, cleaning up anyway'' []]))"
proof -
  from assms obtain r0 tr0 where w: "wait_for_daemons env remote fuse_daemons timeout tr = Some (r0, tr0)"
    by (auto simp: try_wait_def split: option.splits)
  from wait_for_daemons_shape[OF w] obtain n fin where
    sh: "tr0 = tr @ concat (replicate n (kill_round remote (map snd fuse_daemons) timeout)) @ fin"
      "wait_end remote (map snd fuse_daemons) timeout r0 fin"
    by auto
  show ?thesis
  proof (cases "r0 = Exc CommandFailedError \<and> truthy c")
    case True
    with w assms have "res = Ok ()"
      "tr' = tr0 @ [Logged INFO ''ceph-fuse process failed, cleaning up anyway'' []]"
      by (auto simp: try_wait_def)
    with sh True show ?thesis by auto
  next
    case False
    with w assms have "res = r0 \<and> tr' = tr0"
      by (cases r0) (auto simp: try_wait_def split: if_splits)
    with sh False have "tr' = tr @ concat (replicate n (kill_round remote (map snd fuse_daemons) timeout)) @ fin @ []
           \<and> wait_end remote (map snd fuse_daemons) timeout r0 fin
           \<and> (r0 = res \<and> [] = ([]::trace) \<and> (res = Exc CommandFailedError \<longrightarrow> \<not> truthy c))"
      by auto
    then show ?thesis by blast
  qed
qed

lemma teardown_client_cases:
  assumes "teardown_client env config fuse_daemons (id', remote) tr = Some (res, tr')"
  shows "\<exists>ru tru. try_unmount env remote (mnt id') (cleanup_on_failure config id') tr = Some (ru, tru)
           \<and> ((\<exists>e. ru = Exc e \<and> res = Exc e \<and> tr' = tru)
              \<or> (ru = Ok () \<and> try_wait env remote fuse_daemons (fuse_timeout config id')
                                  (cleanup_on_failure config id') tru = Some (res, tr')))"
  using assms
  by (auto simp: teardown_client_def Let_def split: option.splits result.splits)

text \<open>What try_unmount appends: it starts with the graceful unmount and holds teardown events only.\<close>

lemma try_unmount_appends:
  assumes "try_unmount env remote (mnt id') (cleanup_on_failure config id') tr = Some (ru, tru)"
  shows "\<exists>out us. tru = tr @ Did (RemoteRun remote (fusermount_args (mnt id'))) out # us
           \<and> (\<forall>ev\<in>set us. teardown_event config fuse_daemons (id', remote) ev)"
  using try_unmount_cases[OF assms] by (elim disjE conjE exE) auto

lemma try_unmount_fails:
  assumes "try_unmount env remote m c tr = Some (Exc e, tru)"
  shows "tru \<noteq> [] \<and> (\<exists>a. last tru = Did a (Threw e)
           \<and> (a = RemoteRun remote (fusermount_args m) \<and> (e = CommandFailedError \<longrightarrow> \<not> truthy c)
              \<or> a = RemoteRun remote abort_args \<or> a = RemoteRun remote (umount_args m)))"
  using try_unmount_cases[OF assms] by (elim disjE conjE exE) auto

lemma try_wait_appends:
  assumes "try_wait env remote fuse_daemons (fuse_timeout config id') c tr = Some (res, tr')"
  shows "\<exists>out ws. tr' = tr @ Did (RunWait (map snd fuse_daemons) (fuse_timeout config id')) out # ws
           \<and> (\<forall>ev\<in>set ws. teardown_event config fuse_daemons (id', remote) ev)"
proof -
  let ?hs = "map snd fuse_daemons" and ?t = "fuse_timeout config id'"
  from try_wait_cases[OF assms] obtain n fin r0 lg where
    tr': "tr' = tr @ concat (replicate n (kill_round remote ?hs ?t)) @ fin @ lg"
    and we: "wait_end remote ?hs ?t r0 fin"
    and lg: "lg = [] \<or> lg = [Logged INFO ''ceph-fuse process failed, cleaning up anyway'' []]"
    by auto
  have all: "\<forall>ev\<in>set (concat (replicate n (kill_round remote ?hs ?t)) @ fin @ lg).
               teardown_event config fuse_daemons (id', remote) ev"
    using kill_round_events[of _ n remote fuse_daemons config id'] wait_end_events[OF we] lg
    by auto
  from wait_end_first[OF we] obtain out fin' where fin: "fin = Did (RunWait ?hs ?t) out # fin'"
    by auto
  have "\<exists>out ws. concat (replicate n (kill_round remote ?hs ?t)) @ fin @ lg
          = Did (RunWait ?hs ?t) out # ws"
  proof (cases n)
    case 0
    with fin show ?thesis by simp
  next
    case (Suc k)
    then show ?thesis by (simp add: kill_round_def)
  qed
  then obtain out ws where eq: "concat (replicate n (kill_round remote ?hs ?t)) @ fin @ lg
          = Did (RunWait ?hs ?t) out # ws" by blast
  with all have "\<forall>ev\<in>set ws. teardown_event config fuse_daemons (id', remote) ev"
    by (metis list.set_intros(2))
  moreover from tr' eq have "tr' = tr @ Did (RunWait ?hs ?t) out # ws" by simp
  ultimately show ?thesis by blast
qed

lemma try_wait_fails:
  assumes "try_wait env remote fuse_daemons timeout c tr = Some (Exc e, tr')"
  shows "tr' \<noteq> [] \<and> (\<exists>a. last tr' = Did a (Threw e)
           \<and> (a = RunWait (map snd fuse_daemons) timeout \<and> e \<noteq> Timeout
              \<or> a = RemoteRun remote killall_args)
           \<and> (e = CommandFailedError \<longrightarrow> \<not> truthy c))"
proof -
  from try_wait_cases[OF assms] obtain n fin where
    tr': "tr' = tr @ concat (replicate n (kill_round remote (map snd fuse_daemons) timeout)) @ fin"
    and we: "wait_end remote (map snd fuse_daemons) timeout (Exc e) fin"
    and c: "e = CommandFailedError \<longrightarrow> \<not> truthy c"
    by auto
  from wait_end_last[OF we] tr' c show ?thesis by auto
qed

text \<open>The segment of the trace one client's steps 1 and 2 leave.\<close>

lemma teardown_client_segment:
  assumes "teardown_client env config fuse_daemons (id', remote) tr = Some (res, tr')"
  shows "\<exists>out seg. tr' = tr @ Did (RemoteRun remote (fusermount_args (mnt id'))) out # seg
           \<and> (\<forall>ev\<in>set seg. teardown_event config fuse_daemons (id', remote) ev)
           \<and> (res = Ok () \<longrightarrow>
                (\<exists>out'. Did (RunWait (map snd fuse_daemons) (fuse_timeout config id')) out' \<in> set seg))"
proof -
  from teardown_client_cases[OF assms] obtain ru tru where
    u: "try_unmount env remote (mnt id') (cleanup_on_failure config id') tr = Some (ru, tru)"
    and alt: "(\<exists>e. ru = Exc e \<and> res = Exc e \<and> tr' = tru)
              \<or> (ru = Ok () \<and> try_wait env remote fuse_daemons (fuse_timeout config id')
                                  (cleanup_on_failure config id') tru = Some (res, tr'))"
    by blast
  from try_unmount_appends[OF u] obtain out us where
    tru: "tru = tr @ Did (RemoteRun remote (fusermount_args (mnt id'))) out # us"
    and us: "\<forall>ev\<in>set us. teardown_event config fuse_daemons (id', remote) ev"
    by blast
  from alt show ?thesis
  proof
    assume "\<exists>e. ru = Exc e \<and> res = Exc e \<and> tr' = tru"
    with tru us show ?thesis by auto
  next
    assume "ru = Ok () \<and> try_wait env remote fuse_daemons (fuse_timeout config id')
                                  (cleanup_on_failure config id') tru = Some (res, tr')"
    then have w: "try_wait env remote fuse_daemons (fuse_timeout config id')
                                  (cleanup_on_failure config id') tru = Some (res, tr')" by simp
    from try_wait_appends[OF w] obtain out' ws where
      tr': "tr' = tru @ Did (RunWait (map snd fuse_daemons) (fuse_timeout config id')) out' # ws"
      and ws: "\<forall>ev\<in>set ws. teardown_event config fuse_daemons (id', remote) ev"
      by blast
    let ?seg = "us @ Did (RunWait (map snd fuse_daemons) (fuse_timeout config id')) out' # ws"
    have "tr' = tr @ Did (RemoteRun remote (fusermount_args (mnt id'))) out # ?seg"
      using tr' tru by simp
    moreover have "\<forall>ev\<in>set ?seg. teardown_event config fuse_daemons (id', remote) ev"
      using us ws by auto
    moreover have "Did (RunWait (map snd fuse_daemons) (fuse_timeout config id')) out' \<in> set ?seg"
      by simp
    ultimately show ?thesis by blast
  qed
qed

text \<open>An exception that leaves the steps of one client is the one its last call raised.\<close>

lemma teardown_client_fails:
  assumes "teardown_client env config fuse_daemons (id', remote) tr = Some (Exc e, tr')"
  shows "tr' \<noteq> [] \<and> (\<exists>a. last tr' = Did a (Threw e)
           \<and> (truthy (cleanup_on_failure config id') \<longrightarrow>
                 e \<noteq> CommandFailedError \<or> a = RemoteRun remote abort_args
                 \<or> a = RemoteRun remote (umount_args (mnt id'))))"
proof -
  from teardown_client_cases[OF assms] obtain ru tru where
    u: "try_unmount env remote (mnt id') (cleanup_on_failure config id') tr = Some (ru, tru)"
    and alt: "(ru = Exc e \<and> tr' = tru)
              \<or> (ru = Ok () \<and> try_wait env remote fuse_daemons (fuse_timeout config id')
                                  (cleanup_on_failure config id') tru = Some (Exc e, tr'))"
    by blast
  from alt show ?thesis
  proof
    assume "ru = Exc e \<and> tr' = tru"
    with u try_unmount_fails[of env remote "mnt id'" "cleanup_on_failure config id'" tr e tr']
    show ?thesis by auto
  next
    assume "ru = Ok () \<and> try_wait env remote fuse_daemons (fuse_timeout config id')
                                  (cleanup_on_failure config id') tru = Some (Exc e, tr')"
    then have "try_wait env remote fuse_daemons (fuse_timeout config id')
                                  (cleanup_on_failure config id') tru = Some (Exc e, tr')" by simp
    from try_wait_fails[OF this] show ?thesis by auto
  qed
qed

subsection \<open>The loops\<close>

lemma unmount_loop_append:
  "unmount_loop env config fuse_daemons (cs1 @ cs2) tr =
     (case unmount_loop env config fuse_daemons cs1 tr of
        None \<Rightarrow> None
      | Some (Exc e, tr1) \<Rightarrow> Some (Exc e, tr1)
      | Some (Ok _, tr1) \<Rightarrow> unmount_loop env config fuse_daemons cs2 tr1)"
  by (induction cs1 arbitrary: tr) (auto split: option.splits result.splits)

lemma rmdir_loop_append:
  "rmdir_loop env (cs1 @ cs2) tr =
     (case rmdir_loop env cs1 tr of
        None \<Rightarrow> None
      | Some (Exc e, tr1) \<Rightarrow> Some (Exc e, tr1)
      | Some (Ok _, tr1) \<Rightarrow> rmdir_loop env cs2 tr1)"
  by (induction cs1 arbitrary: tr) (auto split: option.splits result.splits)

text \<open>
  The trace of the unmount loop is one segment per client, in the order of the list; the
  loop reaches the end of the list exactly when it returns.
\<close>

lemma unmount_loop_segments:
  assumes "unmount_loop env config fuse_daemons cs tr = Some (res, tr')"
  shows "\<exists>segs. tr' = tr @ concat segs \<and> length segs \<le> length cs
           \<and> (res = Ok () \<longrightarrow> length segs = length cs)
           \<and> (\<forall>i<length segs.
                 (\<exists>out seg. segs ! i = Did (RemoteRun (snd (cs ! i)) (fusermount_args (mnt (fst (cs ! i))))) out # seg)
                 \<and> (\<forall>ev\<in>set (segs ! i). teardown_event config fuse_daemons (cs ! i) ev)
                 \<and> ((res = Ok () \<or> Suc i < length segs) \<longrightarrow>
                      (\<exists>out'. Did (RunWait (map snd fuse_daemons) (fuse_timeout config (fst (cs ! i)))) out'
                          \<in> set (segs ! i))))"
  using assms
proof (induction cs arbitrary: tr)
  case Nil
  then have "tr' = tr @ concat []" by simp
  then show ?case by (intro exI[of _ "[]"]) simp
next
  case (Cons c cs)
  obtain id' remote where c: "c = (id', remote)" by (cases c)
  from Cons.prems obtain r1 tr1 where
    t1: "teardown_client env config fuse_daemons (id', remote) tr = Some (r1, tr1)"
    by (auto simp: c split: option.splits)
  from teardown_client_segment[OF t1] obtain out seg where
    tr1: "tr1 = tr @ Did (RemoteRun remote (fusermount_args (mnt id'))) out # seg"
    and seg: "\<forall>ev\<in>set seg. teardown_event config fuse_daemons (id', remote) ev"
    and wt: "r1 = Ok () \<longrightarrow>
                (\<exists>out'. Did (RunWait (map snd fuse_daemons) (fuse_timeout config id')) out' \<in> set seg)"
    by blast
  let ?s = "Did (RemoteRun remote (fusermount_args (mnt id'))) out # seg"
  have s_ev: "\<forall>ev\<in>set ?s. teardown_event config fuse_daemons (id', remote) ev"
    using seg by simp
  show ?case
  proof (cases r1)
    case (Exc e)
    with t1 Cons.prems c have "res = Exc e" "tr' = tr1" by auto
    with tr1 s_ev c have "tr' = tr @ concat [?s] \<and> length [?s] \<le> length (c # cs)
           \<and> (res = Ok () \<longrightarrow> length [?s] = length (c # cs))
           \<and> (\<forall>i<length [?s].
                 (\<exists>out seg. [?s] ! i = Did (RemoteRun (snd ((c # cs) ! i)) (fusermount_args (mnt (fst ((c # cs) ! i))))) out # seg)
                 \<and> (\<forall>ev\<in>set ([?s] ! i). teardown_event config fuse_daemons ((c # cs) ! i) ev)
                 \<and> ((res = Ok () \<or> Suc i < length [?s]) \<longrightarrow>
                      (\<exists>out'. Did (RunWait (map snd fuse_daemons) (fuse_timeout config (fst ((c # cs) ! i)))) out'
                          \<in> set ([?s] ! i))))"
      by simp
    then show ?thesis by blast
  next
    case (Ok u)
    with t1 Cons.prems c have rest: "unmount_loop env config fuse_daemons cs tr1 = Some (res, tr')"
      by auto
    from Cons.IH[OF rest] obtain segs where
      tr': "tr' = tr1 @ concat segs" and len: "length segs \<le> length cs"
      and full: "res = Ok () \<longrightarrow> length segs = length cs"
      and each: "\<forall>i<length segs.
                 (\<exists>out seg. segs ! i = Did (RemoteRun (snd (cs ! i)) (fusermount_args (mnt (fst (cs ! i))))) out # seg)
                 \<and> (\<forall>ev\<in>set (segs ! i). teardown_event config fuse_daemons (cs ! i) ev)
                 \<and> ((res = Ok () \<or> Suc i < length segs) \<longrightarrow>
                      (\<exists>out'. Did (RunWait (map snd fuse_daemons) (fuse_timeout config (fst (cs ! i)))) out'
                          \<in> set (segs ! i)))"
      by blast
    from Ok wt have wt': "\<exists>out'. Did (RunWait (map snd fuse_daemons) (fuse_timeout config id')) out' \<in> set ?s"
      by auto
    have "\<forall>i<length (?s # segs).
                 (\<exists>out seg. (?s # segs) ! i = Did (RemoteRun (snd ((c # cs) ! i)) (fusermount_args (mnt (fst ((c # cs) ! i))))) out # seg)
                 \<and> (\<forall>ev\<in>set ((?s # segs) ! i). teardown_event config fuse_daemons ((c # cs) ! i) ev)
                 \<and> ((res = Ok () \<or> Suc i < length (?s # segs)) \<longrightarrow>
                      (\<exists>out'. Did (RunWait (map snd fuse_daemons) (fuse_timeout config (fst ((c # cs) ! i)))) out'
                          \<in> set ((?s # segs) ! i)))"
    proof (intro allI impI)
      fix i assume i: "i < length (?s # segs)"
      show "(\<exists>out seg. (?s # segs) ! i = Did (RemoteRun (snd ((c # cs) ! i)) (fusermount_args (mnt (fst ((c # cs) ! i))))) out # seg)
                 \<and> (\<forall>ev\<in>set ((?s # segs) ! i). teardown_event config fuse_daemons ((c # cs) ! i) ev)
                 \<and> ((res = Ok () \<or> Suc i < length (?s # segs)) \<longrightarrow>
                      (\<exists>out'. Did (RunWait (map snd fuse_daemons) (fuse_timeout config (fst ((c # cs) ! i)))) out'
                          \<in> set ((?s # segs) ! i)))"
      proof (cases i)
        case 0
        with c s_ev wt' show ?thesis by simp
      next
        case (Suc j)
        with i have "j < length segs" by simp
        with each Suc show ?thesis by simp
      qed
    qed
    moreover have "tr' = tr @ concat (?s # segs)" using tr' tr1 by simp
    moreover have "length (?s # segs) \<le> length (c # cs)" using len by simp
    moreover have "res = Ok () \<longrightarrow> length (?s # segs) = length (c # cs)" using full by simp
    ultimately show ?thesis by blast
  qed
qed

lemma unmount_loop_fails:
  assumes "unmount_loop env config fuse_daemons cs tr = Some (Exc e, tr')"
  shows "tr' \<noteq> [] \<and> (\<exists>a. last tr' = Did a (Threw e)
           \<and> ((\<forall>c\<in>set cs. truthy (cleanup_on_failure config (fst c))) \<longrightarrow>
                 e \<noteq> CommandFailedError \<or> (\<exists>r. a = RemoteRun r abort_args)
                 \<or> (\<exists>r m. a = RemoteRun r (umount_args m))))"
  using assms
proof (induction cs arbitrary: tr)
  case Nil
  then show ?case by simp
next
  case (Cons c cs)
  obtain id' remote where c: "c = (id', remote)" by (cases c)
  from Cons.prems obtain r1 tr1 where
    t1: "teardown_client env config fuse_daemons (id', remote) tr = Some (r1, tr1)"
    by (auto simp: c split: option.splits)
  show ?case
  proof (cases r1)
    case (Exc e1)
    with t1 Cons.prems c have "e1 = e" "tr' = tr1" by auto
    with t1 Exc teardown_client_fails[of env config fuse_daemons id' remote tr e tr'] c
    show ?thesis by auto
  next
    case (Ok u)
    with t1 Cons.prems c have "unmount_loop env config fuse_daemons cs tr1 = Some (Exc e, tr')"
      by auto
    from Cons.IH[OF this] show ?thesis by auto
  qed
qed

text \<open>The trace of the final pass: one removal per client, in order, up to the first that raises.\<close>

lemma rmdir_loop_shape:
  assumes "rmdir_loop env cs tr = Some (res, tr')"
  shows "\<exists>k. k \<le> length cs
           \<and> (res = Ok () \<longrightarrow> k = length cs \<and>
                 tr' = tr @ map (\<lambda>c. Did (RemoteRun (snd c) (rmdir_args (mnt (fst c)))) Fine) cs)
           \<and> (\<forall>e. res = Exc e \<longrightarrow> k < length cs \<and>
                 tr' = tr @ map (\<lambda>c. Did (RemoteRun (snd c) (rmdir_args (mnt (fst c)))) Fine) (take k cs)
                          @ [Did (RemoteRun (snd (cs ! k)) (rmdir_args (mnt (fst (cs ! k))))) (Threw e)])"
  using assms
proof (induction cs arbitrary: tr)
  case Nil
  then have "res = Ok ()" "tr' = tr" by auto
  then show ?case by simp
next
  case (Cons c cs)
  obtain id' remote where c: "c = (id', remote)" by (cases c)
  from Cons.prems obtain r1 tr1 where
    c1: "call_remote_run env remote (rmdir_args (mnt id')) tr = Some (r1, tr1)"
    by (auto simp: c split: option.splits)
  show ?case
  proof (cases r1)
    case (Exc e)
    with c1 Cons.prems c call_remote_run_cases[OF c1]
    have "res = Exc e" "tr' = tr @ [Did (RemoteRun remote (rmdir_args (mnt id'))) (Threw e)]"
      by auto
    with c show ?thesis
      by (intro exI[of _ 0]) simp
  next
    case (Ok u)
    with c1 call_remote_run_cases[OF c1]
    have tr1: "tr1 = tr @ [Did (RemoteRun remote (rmdir_args (mnt id'))) Fine]" by auto
    from Ok c1 Cons.prems c have "rmdir_loop env cs tr1 = Some (res, tr')" by auto
    from Cons.IH[OF this] obtain k where
      k: "k \<le> length cs"
         "res = Ok () \<longrightarrow> k = length cs \<and>
                 tr' = tr1 @ map (\<lambda>c. Did (RemoteRun (snd c) (rmdir_args (mnt (fst c)))) Fine) cs"
         "\<forall>e. res = Exc e \<longrightarrow> k < length cs \<and>
                 tr' = tr1 @ map (\<lambda>c. Did (RemoteRun (snd c) (rmdir_args (mnt (fst c)))) Fine) (take k cs)
                          @ [Did (RemoteRun (snd (cs ! k)) (rmdir_args (mnt (fst (cs ! k))))) (Threw e)]"
      by blast
    with tr1 c show ?thesis
      by (intro exI[of _ "Suc k"]) simp
  qed
qed

subsection \<open>Evaluating the model on a scripted environment\<close>

lemma scripted_env_simps:
  "remote_run (scripted_env rr rw) = rr"
  "run_wait (scripted_env rr rw) = rw"
  "remote_spawn (scripted_env rr rw) = (\<lambda>tr remote args lg. Returns (length tr))"
  "wait_until_fuse_mounted (scripted_env rr rw) = (\<lambda>tr remote fuse m. Returns ())"
  by (simp_all add: scripted_env_def)

lemma wait_for_daemons_ok:
  "run_wait env tr (map snd fuse_daemons) timeout = Returns () \<Longrightarrow>
     wait_for_daemons env remote fuse_daemons timeout tr =
       Some (Ok (), tr @ [Did (RunWait (map snd fuse_daemons) timeout) Fine])"
  by (subst wait_for_daemons.simps) (simp add: call_run_wait_def)

lemma wait_for_daemons_raises:
  "run_wait env tr (map snd fuse_daemons) timeout = Raises e \<Longrightarrow> e \<noteq> Timeout \<Longrightarrow>
     wait_for_daemons env remote fuse_daemons timeout tr =
       Some (Exc e, tr @ [Did (RunWait (map snd fuse_daemons) timeout) (Threw e)])"
  by (subst wait_for_daemons.simps) (simp add: call_run_wait_def)

lemma wait_for_daemons_kill_raises:
  "run_wait env tr (map snd fuse_daemons) timeout = Raises Timeout \<Longrightarrow>
   remote_run env (tr @ [Did (RunWait (map snd fuse_daemons) timeout) (Threw Timeout)]
                      @ timeout_logs timeout) remote killall_args = Raises e \<Longrightarrow>
     wait_for_daemons env remote fuse_daemons timeout tr =
       Some (Exc e, tr @ [Did (RunWait (map snd fuse_daemons) timeout) (Threw Timeout)]
                      @ timeout_logs timeout @ [Did (RemoteRun remote killall_args) (Threw e)])"
  by (subst wait_for_daemons.simps) (simp add: call_run_wait_def call_remote_run_def)

subsection \<open>The launch loop\<close>

text \<open>Every way the launch of one client can end, with the trace it leaves.\<close>

lemma launch_client_cases:
  assumes "launch_client env misc config (id', remote) fuse_daemons tr = Some (res, tr')"
  shows "\<exists>tl. tr' = tr @ [Logged INFO ''Mounting ceph-fuse client.{id} at {remote} {mnt}...''
                            [FStr id', FStr remote, FStr (mnt id')],
                         Logged INFO ''Client client.%s config is %s''
                            [FStr id', FDict (client_config_of config id')]] @ tl
          \<and> ((\<exists>e. res = Exc e \<and> tl = [Did (RemoteRun remote (mkdir_args (mnt id'))) (Threw e)])
             \<or> (\<exists>e. res = Exc e \<and>
                    tl = [Did (RemoteRun remote (mkdir_args (mnt id'))) Fine,
                          Did (RemoteSpawn remote (run_cmd misc (client_config_of config id') id')
                                 (''ceph-fuse.'' @ id')) (Threw e)])
             \<or> (\<exists>proc. res = Ok (AList.update id' proc fuse_daemons) \<and>
                    tl = [Did (RemoteRun remote (mkdir_args (mnt id'))) Fine,
                          Did (RemoteSpawn remote (run_cmd misc (client_config_of config id') id')
                                 (''ceph-fuse.'' @ id')) (Proc proc)]))"
proof -
  let ?tr0 = "tr @ [Logged INFO ''Mounting ceph-fuse client.{id} at {remote} {mnt}...''
                            [FStr id', FStr remote, FStr (mnt id')],
                    Logged INFO ''Client client.%s config is %s''
                            [FStr id', FDict (client_config_of config id')]]"
  from assms obtain r1 tr1 where
    c1: "call_remote_run env remote (mkdir_args (mnt id')) ?tr0 = Some (r1, tr1)"
    by (auto simp: launch_client_def Let_def split: option.splits)
  show ?thesis
  proof (cases r1)
    case (Exc e)
    with c1 assms call_remote_run_cases[OF c1] show ?thesis
      by (auto simp: launch_client_def Let_def)
  next
    case (Ok u)
    with call_remote_run_cases[OF c1]
    have tr1: "tr1 = ?tr0 @ [Did (RemoteRun remote (mkdir_args (mnt id'))) Fine]" by auto
    from Ok c1 assms obtain r2 tr2 where
      c2: "call_remote_spawn env remote (run_cmd misc (client_config_of config id') id')
             (''ceph-fuse.'' @ id') tr1 = Some (r2, tr2)"
      by (auto simp: launch_client_def Let_def split: option.splits)
    show ?thesis
    proof (cases r2)
      case (Exc e)
      with c1 c2 \<open>r1 = Ok u\<close> assms call_remote_spawn_cases[OF c2] tr1 show ?thesis
        by (auto simp: launch_client_def Let_def)
    next
      case (Ok proc)
      with c1 c2 \<open>r1 = Ok u\<close> assms call_remote_spawn_cases[OF c2] tr1 show ?thesis
        by (auto simp: launch_client_def Let_def)
    qed
  qed
qed

lemma launch_client_events:
  assumes "launch_client env misc config (id', remote) fuse_daemons tr = Some (res, tr')"
  shows "\<exists>L. tr' = tr @ L \<and> (\<forall>ev\<in>set L. launch_event misc config (id', remote) ev)
           \<and> (\<forall>fd'. res = Ok fd' \<longrightarrow>
                 (\<exists>proc. fd' = AList.update id' proc fuse_daemons
                    \<and> Did (RemoteRun remote (mkdir_args (mnt id'))) Fine \<in> set L
                    \<and> Did (RemoteSpawn remote (run_cmd misc (client_config_of config id') id')
                             (''ceph-fuse.'' @ id')) (Proc proc) \<in> set L))"
  using launch_client_cases[OF assms]
  by (elim exE conjE disjE) (rule exI, rule conjI, assumption, simp)+

text \<open>
  The trace of the launch loop holds launch events of the clients of the list only; when
  the loop returns, every client's directory was made, every client's daemon was started,
  and the registry has a process for every client.
\<close>

lemma launch_loop_events:
  assumes "launch_loop env misc config cs fuse_daemons tr = Some (res, tr')"
  shows "\<exists>L. tr' = tr @ L \<and> (\<forall>ev\<in>set L. \<exists>c\<in>set cs. launch_event misc config c ev)
           \<and> (\<forall>fd'. res = Ok fd' \<longrightarrow>
                 fst ` set fd' = fst ` set fuse_daemons \<union> fst ` set cs
                 \<and> (\<forall>c\<in>set cs.
                       Did (RemoteRun (snd c) (mkdir_args (mnt (fst c)))) Fine \<in> set L
                       \<and> (\<exists>proc. Did (RemoteSpawn (snd c) (run_cmd misc (client_config_of config (fst c)) (fst c))
                             (''ceph-fuse.'' @ fst c)) (Proc proc) \<in> set L)))"
  using assms
proof (induction cs arbitrary: fuse_daemons tr)
  case Nil
  then have "res = Ok fuse_daemons" "tr' = tr" by auto
  then show ?case by simp
next
  case (Cons c cs)
  obtain id' remote where c: "c = (id', remote)" by (cases c)
  from Cons.prems obtain r1 tr1 where
    l1: "launch_client env misc config (id', remote) fuse_daemons tr = Some (r1, tr1)"
    by (auto simp: c split: option.splits)
  from launch_client_events[OF l1] obtain L1 where
    L1: "tr1 = tr @ L1" "\<forall>ev\<in>set L1. launch_event misc config (id', remote) ev"
    and ok1: "\<forall>fd'. r1 = Ok fd' \<longrightarrow>
                 (\<exists>proc. fd' = AList.update id' proc fuse_daemons
                    \<and> Did (RemoteRun remote (mkdir_args (mnt id'))) Fine \<in> set L1
                    \<and> Did (RemoteSpawn remote (run_cmd misc (client_config_of config id') id')
                             (''ceph-fuse.'' @ id')) (Proc proc) \<in> set L1)"
    by blast
  show ?case
  proof (cases r1)
    case (Exc e)
    with l1 Cons.prems c have "res = Exc e" "tr' = tr1" by auto
    with L1 c show ?thesis by auto
  next
    case (Ok fd1)
    with l1 Cons.prems c have rest: "launch_loop env misc config cs fd1 tr1 = Some (res, tr')"
      by auto
    from ok1 Ok obtain proc where
      fd1: "fd1 = AList.update id' proc fuse_daemons"
      and mk: "Did (RemoteRun remote (mkdir_args (mnt id'))) Fine \<in> set L1"
      and sp: "Did (RemoteSpawn remote (run_cmd misc (client_config_of config id') id')
                             (''ceph-fuse.'' @ id')) (Proc proc) \<in> set L1"
      by blast
    from Cons.IH[OF rest] obtain L2 where
      L2: "tr' = tr1 @ L2" "\<forall>ev\<in>set L2. \<exists>c\<in>set cs. launch_event misc config c ev"
      and ok2: "\<forall>fd'. res = Ok fd' \<longrightarrow>
                 fst ` set fd' = fst ` set fd1 \<union> fst ` set cs
                 \<and> (\<forall>c\<in>set cs.
                       Did (RemoteRun (snd c) (mkdir_args (mnt (fst c)))) Fine \<in> set L2
                       \<and> (\<exists>proc. Did (RemoteSpawn (snd c) (run_cmd misc (client_config_of config (fst c)) (fst c))
                             (''ceph-fuse.'' @ fst c)) (Proc proc) \<in> set L2))"
      by blast
    have dom1: "fst ` set fd1 = insert id' (fst ` set fuse_daemons)"
      by (simp add: fd1 dom_update)
    have "tr' = tr @ (L1 @ L2)" using L1(1) L2(1) by simp
    moreover have "\<forall>ev\<in>set (L1 @ L2). \<exists>c\<in>set (c # cs). launch_event misc config c ev"
      using L1(2) L2(2) c by auto
    moreover have "\<forall>fd'. res = Ok fd' \<longrightarrow>
                 fst ` set fd' = fst ` set fuse_daemons \<union> fst ` set (c # cs)
                 \<and> (\<forall>c\<in>set (c # cs).
                       Did (RemoteRun (snd c) (mkdir_args (mnt (fst c)))) Fine \<in> set (L1 @ L2)
                       \<and> (\<exists>proc. Did (RemoteSpawn (snd c) (run_cmd misc (client_config_of config (fst c)) (fst c))
                             (''ceph-fuse.'' @ fst c)) (Proc proc) \<in> set (L1 @ L2)))"
    proof (intro allI impI)
      fix fd' assume r: "res = Ok fd'"
      with ok2 have d: "fst ` set fd' = fst ` set fd1 \<union> fst ` set cs"
        and e: "\<forall>c\<in>set cs.
                       Did (RemoteRun (snd c) (mkdir_args (mnt (fst c)))) Fine \<in> set L2
                       \<and> (\<exists>proc. Did (RemoteSpawn (snd c) (run_cmd misc (client_config_of config (fst c)) (fst c))
                             (''ceph-fuse.'' @ fst c)) (Proc proc) \<in> set L2)"
        by auto
      have "fst ` set fd' = fst ` set fuse_daemons \<union> fst ` set (c # cs)"
        using d dom1 c by auto
      moreover have "\<forall>c\<in>set (c # cs).
                       Did (RemoteRun (snd c) (mkdir_args (mnt (fst c)))) Fine \<in> set (L1 @ L2)
                       \<and> (\<exists>proc. Did (RemoteSpawn (snd c) (run_cmd misc (client_config_of config (fst c)) (fst c))
                             (''ceph-fuse.'' @ fst c)) (Proc proc) \<in> set (L1 @ L2))"
      proof
        fix x assume "x \<in> set (c # cs)"
        then consider "x = c" | "x \<in> set cs" by auto
        then show "Did (RemoteRun (snd x) (mkdir_args (mnt (fst x)))) Fine \<in> set (L1 @ L2)
                       \<and> (\<exists>proc. Did (RemoteSpawn (snd x) (run_cmd misc (client_config_of config (fst x)) (fst x))
                             (''ceph-fuse.'' @ fst x)) (Proc proc) \<in> set (L1 @ L2))"
        proof cases
          case 1
          with c mk sp show ?thesis by auto
        next
          case 2
          with e show ?thesis by auto
        qed
      qed
      ultimately show "fst ` set fd' = fst ` set fuse_daemons \<union> fst ` set (c # cs)
                 \<and> (\<forall>c\<in>set (c # cs).
                       Did (RemoteRun (snd c) (mkdir_args (mnt (fst c)))) Fine \<in> set (L1 @ L2)
                       \<and> (\<exists>proc. Did (RemoteSpawn (snd c) (run_cmd misc (client_config_of config (fst c)) (fst c))
                             (''ceph-fuse.'' @ fst c)) (Proc proc) \<in> set (L1 @ L2)))"
        by blast
    qed
    ultimately show ?thesis by blast
  qed
qed

lemma run_cmd_spec:
  "run_cmd misc client_config id' =
     spec_launch_command (daemon_signal client_config)
       (if dict_get client_config ''valgrind'' PyNone \<noteq> PyNone
        then get_valgrind_args misc (''client.'' @ id') (dict_get client_config ''valgrind'' PyNone)
        else [])
       id' (mnt id')"
  by (simp add: run_cmd_def spec_launch_command_def Let_def)

lemma launch_event_spawn:
  "launch_event misc config c (Did (RemoteSpawn remote args lg) out) \<Longrightarrow>
     remote = snd c \<and> args = run_cmd misc (client_config_of config (fst c)) (fst c)
       \<and> lg = ''ceph-fuse.'' @ fst c"
  by (cases c) auto

subsection \<open>The mount-wait loop and the whole teardown\<close>

lemma mount_wait_loop_events:
  assumes "mount_wait_loop env fuse_daemons cs tr = Some (res, tr')"
  shows "\<exists>M. tr' = tr @ M \<and> (\<forall>ev\<in>set M. \<exists>c\<in>set cs. mount_wait_event fuse_daemons c ev)"
  using assms
proof (induction cs arbitrary: tr)
  case Nil
  then have "tr' = tr @ []" by simp
  then show ?case by (intro exI[of _ "[]"]) simp
next
  case (Cons c cs)
  obtain id' remote where c: "c = (id', remote)" by (cases c)
  show ?case
  proof (cases "map_of fuse_daemons id'")
    case None
    with Cons.prems c have "tr' = tr @ []" by simp
    then show ?thesis by (intro exI[of _ "[]"]) simp
  next
    case (Some fuse)
    with Cons.prems c obtain r1 tr1 where
      c1: "call_wait_until_fuse_mounted env remote fuse (mnt id') tr = Some (r1, tr1)"
      by (auto split: option.splits)
    from call_wait_until_fuse_mounted_cases[OF c1] obtain out where
      tr1: "tr1 = tr @ [Did (WaitUntilFuseMounted remote fuse (mnt id')) out]"
      by auto
    have e1: "mount_wait_event fuse_daemons c (Did (WaitUntilFuseMounted remote fuse (mnt id')) out)"
      using Some c by simp
    show ?thesis
    proof (cases r1)
      case (Exc e)
      with c1 Some Cons.prems c have "tr' = tr1" by auto
      with tr1 e1 show ?thesis
        by (intro exI[of _ "[Did (WaitUntilFuseMounted remote fuse (mnt id')) out]"]) simp
    next
      case (Ok u)
      with c1 Some Cons.prems c have "mount_wait_loop env fuse_daemons cs tr1 = Some (res, tr')"
        by auto
      from Cons.IH[OF this] obtain M where
        M: "tr' = tr1 @ M" "\<forall>ev\<in>set M. \<exists>c\<in>set cs. mount_wait_event fuse_daemons c ev"
        by (elim exE conjE)
      have "tr' = tr @ (Did (WaitUntilFuseMounted remote fuse (mnt id')) out # M)
          \<and> (\<forall>ev\<in>set (Did (WaitUntilFuseMounted remote fuse (mnt id')) out # M).
                        \<exists>c\<in>set (c # cs). mount_wait_event fuse_daemons c ev)"
        using M e1 tr1 by auto
      then show ?thesis
        by (intro exI[of _ "Did (WaitUntilFuseMounted remote fuse (mnt id')) out # M"])
    qed
  qed
qed

lemma rmdir_event_self:
  "rmdir_event c (Did (RemoteRun (snd c) (rmdir_args (mnt (fst c)))) out)"
  by (cases c) simp

lemma rmdir_loop_events:
  assumes "rmdir_loop env cs tr = Some (res, tr')"
  shows "\<exists>R. tr' = tr @ R \<and> length R \<le> length cs
           \<and> (\<forall>i<length R. rmdir_event (cs ! i) (R ! i))
           \<and> (res = Ok () \<longrightarrow>
                 R = map (\<lambda>c. Did (RemoteRun (snd c) (rmdir_args (mnt (fst c)))) Fine) cs)
           \<and> (\<forall>e. res = Exc e \<longrightarrow>
                 (\<exists>r m. last tr' = Did (RemoteRun r (rmdir_args m)) (Threw e)))"
proof -
  let ?F = "\<lambda>c. Did (RemoteRun (snd c) (rmdir_args (mnt (fst c)))) Fine"
  from rmdir_loop_shape[OF assms] obtain k where
    k: "k \<le> length cs"
    and ok: "res = Ok () \<longrightarrow> k = length cs \<and> tr' = tr @ map ?F cs"
    and ex: "\<forall>e. res = Exc e \<longrightarrow> k < length cs \<and>
                 tr' = tr @ map ?F (take k cs)
                          @ [Did (RemoteRun (snd (cs ! k)) (rmdir_args (mnt (fst (cs ! k))))) (Threw e)]"
    by (elim exE conjE)
  show ?thesis
  proof (cases res)
    case (Ok u)
    with ok have tr': "tr' = tr @ map ?F cs" by simp
    have "\<forall>i<length (map ?F cs). rmdir_event (cs ! i) (map ?F cs ! i)"
    proof (intro allI impI)
      fix i assume "i < length (map ?F cs)"
      then have "map ?F cs ! i = ?F (cs ! i)" by simp
      then show "rmdir_event (cs ! i) (map ?F cs ! i)" by (simp only: rmdir_event_self)
    qed
    then have big: "tr' = tr @ map ?F cs \<and> length (map ?F cs) \<le> length cs
           \<and> (\<forall>i<length (map ?F cs). rmdir_event (cs ! i) (map ?F cs ! i))
           \<and> (res = Ok () \<longrightarrow> map ?F cs = map ?F cs)
           \<and> (\<forall>e. res = Exc e \<longrightarrow>
                 (\<exists>r m. last tr' = Did (RemoteRun r (rmdir_args m)) (Threw e)))"
      using tr' Ok by simp
    show ?thesis by (rule exI[of _ "map ?F cs"]) (rule big)
  next
    case (Exc e)
    let ?last = "Did (RemoteRun (snd (cs ! k)) (rmdir_args (mnt (fst (cs ! k))))) (Threw e)"
    let ?R = "map ?F (take k cs) @ [?last]"
    from Exc ex have kl: "k < length cs" and tr': "tr' = tr @ ?R" by auto
    have len: "length ?R \<le> length cs" using kl by simp
    have each: "\<forall>i<length ?R. rmdir_event (cs ! i) (?R ! i)"
    proof (intro allI impI)
      fix i assume i: "i < length ?R"
      show "rmdir_event (cs ! i) (?R ! i)"
      proof (cases "i < k")
        case True
        with kl have "?R ! i = ?F (cs ! i)" by (simp add: nth_append)
        then show ?thesis by (simp only: rmdir_event_self)
      next
        case False
        with i kl have "i = k" by simp
        with kl have "?R ! i = ?last" by (simp add: nth_append)
        with \<open>i = k\<close> show ?thesis by (simp only: rmdir_event_self)
      qed
    qed
    have l: "last tr' = ?last" using tr' by simp
    have no: "res = Ok () \<longrightarrow> ?R = map ?F cs" using Exc by simp
    have ex': "\<forall>e. res = Exc e \<longrightarrow>
                 (\<exists>r m. last tr' = Did (RemoteRun r (rmdir_args m)) (Threw e))"
    proof (intro allI impI)
      fix e' assume "res = Exc e'"
      with Exc have "e' = e" by simp
      with l show "\<exists>r m. last tr' = Did (RemoteRun r (rmdir_args m)) (Threw e')"
        by (intro exI[of _ "snd (cs ! k)"] exI[of _ "mnt (fst (cs ! k))"]) simp
    qed
    have big: "tr' = tr @ ?R \<and> length ?R \<le> length cs
           \<and> (\<forall>i<length ?R. rmdir_event (cs ! i) (?R ! i))
           \<and> (res = Ok () \<longrightarrow> ?R = map ?F cs)
           \<and> (\<forall>e. res = Exc e \<longrightarrow>
                 (\<exists>r m. last tr' = Did (RemoteRun r (rmdir_args m)) (Threw e)))"
      by (intro conjI) (rule tr' len each no ex')+
    show ?thesis by (rule exI[of _ "?R"]) (rule big)
  qed
qed

text \<open>
  The trace of the \<^verbatim>\<open>finally\<close> block: the log record, one segment of steps 1 and 2 per
  client in the order of the list, then the removals, which start only when every client
  has a segment.
\<close>

lemma teardown_shape:
  assumes "teardown env config fuse_daemons cs tr = Some (res, tr')"
  shows "\<exists>segs R. tr' = tr @ Logged INFO ''Unmounting ceph-fuse clients...'' [] # concat segs @ R
           \<and> length segs \<le> length cs
           \<and> (\<forall>i<length segs.
                 (\<exists>out seg. segs ! i = Did (RemoteRun (snd (cs ! i)) (fusermount_args (mnt (fst (cs ! i))))) out # seg)
                 \<and> (\<forall>ev\<in>set (segs ! i). teardown_event config fuse_daemons (cs ! i) ev)
                 \<and> ((R \<noteq> [] \<or> res = Ok () \<or> Suc i < length segs) \<longrightarrow>
                      (\<exists>out'. Did (RunWait (map snd fuse_daemons) (fuse_timeout config (fst (cs ! i)))) out'
                          \<in> set (segs ! i))))
           \<and> length R \<le> length cs
           \<and> (\<forall>i<length R. rmdir_event (cs ! i) (R ! i))
           \<and> (R \<noteq> [] \<or> res = Ok () \<longrightarrow> length segs = length cs)
           \<and> (res = Ok () \<longrightarrow>
                 R = map (\<lambda>c. Did (RemoteRun (snd c) (rmdir_args (mnt (fst c)))) Fine) cs)"
proof -
  let ?tr0 = "tr @ [Logged INFO ''Unmounting ceph-fuse clients...'' []]"
  from assms obtain ru tru where
    u: "unmount_loop env config fuse_daemons cs ?tr0 = Some (ru, tru)"
    by (auto simp: teardown_def split: option.splits)
  from unmount_loop_segments[OF u] obtain segs where
    tru: "tru = ?tr0 @ concat segs" and len: "length segs \<le> length cs"
    and full: "ru = Ok () \<longrightarrow> length segs = length cs"
    and each: "\<forall>i<length segs.
                 (\<exists>out seg. segs ! i = Did (RemoteRun (snd (cs ! i)) (fusermount_args (mnt (fst (cs ! i))))) out # seg)
                 \<and> (\<forall>ev\<in>set (segs ! i). teardown_event config fuse_daemons (cs ! i) ev)
                 \<and> ((ru = Ok () \<or> Suc i < length segs) \<longrightarrow>
                      (\<exists>out'. Did (RunWait (map snd fuse_daemons) (fuse_timeout config (fst (cs ! i)))) out'
                          \<in> set (segs ! i)))"
    by (elim exE conjE)
  show ?thesis
  proof (cases ru)
    case (Exc e)
    with u assms have r: "res = Exc e" and t: "tr' = tru" by (auto simp: teardown_def)
    have f1: "tr' = tr @ Logged INFO ''Unmounting ceph-fuse clients...'' [] # concat segs @ []"
      using t tru by simp
    have f2: "\<forall>i<length segs.
                 (\<exists>out seg. segs ! i = Did (RemoteRun (snd (cs ! i)) (fusermount_args (mnt (fst (cs ! i))))) out # seg)
                 \<and> (\<forall>ev\<in>set (segs ! i). teardown_event config fuse_daemons (cs ! i) ev)
                 \<and> ((([]::trace) \<noteq> [] \<or> res = Ok () \<or> Suc i < length segs) \<longrightarrow>
                      (\<exists>out'. Did (RunWait (map snd fuse_daemons) (fuse_timeout config (fst (cs ! i)))) out'
                          \<in> set (segs ! i)))"
      using each r by simp
    have f3: "length ([]::trace) \<le> length cs" by simp
    have f4: "\<forall>i<length ([]::trace). rmdir_event (cs ! i) ([] ! i)" by simp
    have f5: "([]::trace) \<noteq> [] \<or> res = Ok () \<longrightarrow> length segs = length cs" using r by simp
    have f6: "res = Ok () \<longrightarrow>
                 [] = map (\<lambda>c. Did (RemoteRun (snd c) (rmdir_args (mnt (fst c)))) Fine) cs"
      using r by simp
    show ?thesis
      by (intro exI[of _ segs] exI[of _ "[]"] conjI) (rule f1 len f2 f3 f4 f5 f6)+
  next
    case (Ok v)
    with u assms have rl: "rmdir_loop env cs tru = Some (res, tr')"
      by (auto simp: teardown_def)
    from rmdir_loop_events[OF rl] obtain R where
      R: "tr' = tru @ R" "length R \<le> length cs" "\<forall>i<length R. rmdir_event (cs ! i) (R ! i)"
         "res = Ok () \<longrightarrow> R = map (\<lambda>c. Did (RemoteRun (snd c) (rmdir_args (mnt (fst c)))) Fine) cs"
      by (elim exE conjE)
    from Ok full have fl: "length segs = length cs" by simp
    have g1: "tr' = tr @ Logged INFO ''Unmounting ceph-fuse clients...'' [] # concat segs @ R"
      using R(1) tru by simp
    have g2: "\<forall>i<length segs.
                 (\<exists>out seg. segs ! i = Did (RemoteRun (snd (cs ! i)) (fusermount_args (mnt (fst (cs ! i))))) out # seg)
                 \<and> (\<forall>ev\<in>set (segs ! i). teardown_event config fuse_daemons (cs ! i) ev)
                 \<and> ((R \<noteq> [] \<or> res = Ok () \<or> Suc i < length segs) \<longrightarrow>
                      (\<exists>out'. Did (RunWait (map snd fuse_daemons) (fuse_timeout config (fst (cs ! i)))) out'
                          \<in> set (segs ! i)))"
      using each Ok by simp
    have g3: "R \<noteq> [] \<or> res = Ok () \<longrightarrow> length segs = length cs" using fl by simp
    show ?thesis
      by (intro exI[of _ segs] exI[of _ R] conjI) (rule g1 len g2 R(2) R(3) g3 R(4))+
  qed
qed

text \<open>An exception that leaves the \<^verbatim>\<open>finally\<close> block is the one its last call raised.\<close>

lemma teardown_fails:
  assumes "teardown env config fuse_daemons cs tr = Some (Exc e, tr')"
  shows "\<exists>a. last tr' = Did a (Threw e)
           \<and> ((\<forall>c\<in>set cs. truthy (cleanup_on_failure config (fst c))) \<longrightarrow>
                 e \<noteq> CommandFailedError \<or> (\<exists>r. a = RemoteRun r abort_args)
                 \<or> (\<exists>r m. a = RemoteRun r (umount_args m))
                 \<or> (\<exists>r m. a = RemoteRun r (rmdir_args m)))"
proof -
  let ?tr0 = "tr @ [Logged INFO ''Unmounting ceph-fuse clients...'' []]"
  from assms obtain ru tru where
    u: "unmount_loop env config fuse_daemons cs ?tr0 = Some (ru, tru)"
    by (auto simp: teardown_def split: option.splits)
  show ?thesis
  proof (cases ru)
    case (Exc e')
    with u assms have "e' = e" "tr' = tru" by (auto simp: teardown_def)
    with u Exc have "unmount_loop env config fuse_daemons cs ?tr0 = Some (Exc e, tr')" by simp
    from unmount_loop_fails[OF this] obtain a where
      a: "last tr' = Did a (Threw e)"
      "(\<forall>c\<in>set cs. truthy (cleanup_on_failure config (fst c))) \<longrightarrow>
                 e \<noteq> CommandFailedError \<or> (\<exists>r. a = RemoteRun r abort_args)
                 \<or> (\<exists>r m. a = RemoteRun r (umount_args m))"
      by (elim exE conjE)
    show ?thesis
    proof (intro exI[of _ a] conjI impI)
      show "last tr' = Did a (Threw e)" by (rule a(1))
    next
      assume "\<forall>c\<in>set cs. truthy (cleanup_on_failure config (fst c))"
      with a(2) show "e \<noteq> CommandFailedError \<or> (\<exists>r. a = RemoteRun r abort_args)
                 \<or> (\<exists>r m. a = RemoteRun r (umount_args m))
                 \<or> (\<exists>r m. a = RemoteRun r (rmdir_args m))" by blast
    qed
  next
    case (Ok v)
    with u assms have rl: "rmdir_loop env cs tru = Some (Exc e, tr')"
      by (auto simp: teardown_def)
    from rmdir_loop_events[OF rl] obtain r m where
      "last tr' = Did (RemoteRun r (rmdir_args m)) (Threw e)" by auto
    then show ?thesis by (intro exI[of _ "RemoteRun r (rmdir_args m)"]) auto
  qed
qed

subsection \<open>The phases of the task\<close>

lemma after_finally_cases:
  assumes "after_finally w fin = Some (res, tr')"
  shows "\<exists>r. fin = Some (r, tr')
           \<and> ((\<exists>e. r = Exc e \<and> res = Exc e)
              \<or> (r = Ok () \<and> (w = Returns () \<and> res = Ok () \<or> (\<exists>e. w = Raises e \<and> res = Exc e))))"
  using assms
  by (auto simp: after_finally_def split: option.splits result.splits reply.splits)

text \<open>
  Every way a run of the task can end: in the launch loop, in the mount-wait loop, or,
  once the workload has come back, in the \<^verbatim>\<open>finally\<close> block.
\<close>

lemma task_cases:
  assumes "task env misc ctx config body tr = Some (res, tr')"
  shows "(\<exists>e. launch_loop env misc (task_config misc ctx config) (task_clients misc ctx config) []
               (tr @ [Logged INFO ''Mounting ceph-fuse clients...'' []]) = Some (Exc e, tr'))
       \<or> (\<exists>fd tr1. launch_loop env misc (task_config misc ctx config) (task_clients misc ctx config) []
               (tr @ [Logged INFO ''Mounting ceph-fuse clients...'' []]) = Some (Ok fd, tr1)
            \<and> ((\<exists>e. mount_wait_loop env fd (task_clients misc ctx config) tr1 = Some (Exc e, tr'))
               \<or> (\<exists>tr2 y r. mount_wait_loop env fd (task_clients misc ctx config) tr1 = Some (Ok (), tr2)
                     \<and> teardown env (task_config misc ctx config) fd (task_clients misc ctx config)
                          (tr2 @ [Did Yield y]) = Some (r, tr'))))"
proof -
  let ?tr0 = "tr @ [Logged INFO ''Mounting ceph-fuse clients...'' []]"
  let ?cfg = "task_config misc ctx config" and ?cl = "task_clients misc ctx config"
  from assms obtain rl trl where l: "launch_loop env misc ?cfg ?cl [] ?tr0 = Some (rl, trl)"
    by (auto simp: task_def Let_def split: option.splits)
  show ?thesis
  proof (cases rl)
    case (Exc e)
    with l assms have "tr' = trl" by (simp add: task_def Let_def)
    with l Exc show ?thesis by simp
  next
    case (Ok fd)
    with l assms obtain rm trm where m: "mount_wait_loop env fd ?cl trl = Some (rm, trm)"
      by (auto simp: task_def Let_def split: option.splits)
    show ?thesis
    proof (cases rm)
      case (Exc e)
      with l Ok m assms have "tr' = trm" by (simp add: task_def Let_def)
      with l Ok m Exc show ?thesis by simp
    next
      case (Ok u)
      have "\<exists>y r. teardown env ?cfg fd ?cl (trm @ [Did Yield y]) = Some (r, tr')"
      proof (cases "body trm")
        case (Returns v)
        with l \<open>rl = Ok fd\<close> m Ok assms
        have "after_finally (Returns ()) (teardown env ?cfg fd ?cl (trm @ [Did Yield Fine])) = Some (res, tr')"
          by (simp add: task_def Let_def)
        from after_finally_cases[OF this] obtain r where
          "teardown env ?cfg fd ?cl (trm @ [Did Yield Fine]) = Some (r, tr')" by (elim exE conjE)
        then show ?thesis by (intro exI[of _ Fine] exI[of _ r])
      next
        case (Raises w)
        with l \<open>rl = Ok fd\<close> m Ok assms
        have "after_finally (Raises w) (teardown env ?cfg fd ?cl (trm @ [Did Yield (Threw w)])) = Some (res, tr')"
          by (simp add: task_def Let_def)
        from after_finally_cases[OF this] obtain r where
          "teardown env ?cfg fd ?cl (trm @ [Did Yield (Threw w)]) = Some (r, tr')" by (elim exE conjE)
        then show ?thesis by (intro exI[of _ "Threw w"] exI[of _ r])
      next
        case Blocks
        with l \<open>rl = Ok fd\<close> m Ok assms show ?thesis by (simp add: task_def Let_def)
      qed
      then obtain y r where t: "teardown env ?cfg fd ?cl (trm @ [Did Yield y]) = Some (r, tr')"
        by (elim exE)
      from m Ok have m': "mount_wait_loop env fd ?cl trl = Some (Ok (), trm)" by simp
      from l \<open>rl = Ok fd\<close> have l': "launch_loop env misc ?cfg ?cl [] ?tr0 = Some (Ok fd, trl)" by simp
      show ?thesis
        by (intro disjI2 exI[of _ fd] exI[of _ trl] conjI exI[of _ trm] exI[of _ y] exI[of _ r])
           (rule l' m' t)+
    qed
  qed
qed

subsection \<open>A teardown in which every command and every wait returns\<close>

lemma teardown_client_all_ok:
  assumes "\<forall>t r a. remote_run env t r a = Returns ()"
    and "\<forall>t ps to. run_wait env t ps to = Returns ()"
  shows "teardown_client env config fuse_daemons (id', remote) tr =
           Some (Ok (), tr @ [Did (RemoteRun remote (fusermount_args (mnt id'))) Fine,
                             Did (RunWait (map snd fuse_daemons) (fuse_timeout config id')) Fine])"
  using assms
  by (simp add: teardown_client_def Let_def try_unmount_def fuse_unmount_def call_remote_run_def
        try_wait_def wait_for_daemons_ok)

lemma unmount_loop_all_ok:
  assumes "\<forall>t r a. remote_run env t r a = Returns ()"
    and "\<forall>t ps to. run_wait env t ps to = Returns ()"
  shows "unmount_loop env config fuse_daemons cs tr =
           Some (Ok (), tr @ concat (map (\<lambda>c.
               [Did (RemoteRun (snd c) (fusermount_args (mnt (fst c)))) Fine,
                Did (RunWait (map snd fuse_daemons) (fuse_timeout config (fst c))) Fine]) cs))"
proof (induction cs arbitrary: tr)
  case Nil
  show ?case by simp
next
  case (Cons c cs)
  obtain id' remote where c: "c = (id', remote)" by (cases c)
  show ?case
    by (simp add: c teardown_client_all_ok[OF assms] Cons.IH)
qed

lemma rmdir_loop_all_ok:
  assumes "\<forall>t r a. remote_run env t r a = Returns ()"
  shows "rmdir_loop env cs tr =
           Some (Ok (), tr @ map (\<lambda>c. Did (RemoteRun (snd c) (rmdir_args (mnt (fst c)))) Fine) cs)"
proof (induction cs arbitrary: tr)
  case Nil
  show ?case by simp
next
  case (Cons c cs)
  obtain id' remote where c: "c = (id', remote)" by (cases c)
  show ?case
    using assms by (simp add: c call_remote_run_def Cons.IH)
qed

lemma teardown_all_ok:
  assumes "\<forall>t r a. remote_run env t r a = Returns ()"
    and "\<forall>t ps to. run_wait env t ps to = Returns ()"
  shows "teardown env config fuse_daemons cs tr =
           Some (Ok (), tr @ Logged INFO ''Unmounting ceph-fuse clients...'' []
              # concat (map (\<lambda>c.
                  [Did (RemoteRun (snd c) (fusermount_args (mnt (fst c)))) Fine,
                   Did (RunWait (map snd fuse_daemons) (fuse_timeout config (fst c))) Fine]) cs)
              @ map (\<lambda>c. Did (RemoteRun (snd c) (rmdir_args (mnt (fst c)))) Fine) cs)"
  by (simp add: teardown_def unmount_loop_all_ok[OF assms] rmdir_loop_all_ok[OF assms(1)])

text \<open>The task, once the launch and the mount-wait loops have returned.\<close>

lemma task_after_setup:
  assumes "launch_loop env misc (task_config misc ctx config) (task_clients misc ctx config) []
             (tr @ [Logged INFO ''Mounting ceph-fuse clients...'' []]) = Some (Ok fd, tr1)"
    and "mount_wait_loop env fd (task_clients misc ctx config) tr1 = Some (Ok (), tr2)"
  shows "task env misc ctx config body tr =
           (case body tr2 of
              Blocks \<Rightarrow> None
            | Returns _ \<Rightarrow>
                after_finally (Returns ())
                  (teardown env (task_config misc ctx config) fd (task_clients misc ctx config)
                     (tr2 @ [Did Yield Fine]))
            | Raises w \<Rightarrow>
                after_finally (Raises w)
                  (teardown env (task_config misc ctx config) fd (task_clients misc ctx config)
                     (tr2 @ [Did Yield (Threw w)])))"
  using assms by (simp add: task_def Let_def)

subsection \<open>The task on three clients\<close>

lemma example_config:
  "task_config example_misc example_ctx CfgNone
     = [(''client.0'', None), (''client.1'', None), (''client.2'', None)]"
  by (simp add: merged_config_def example_misc_def example_ctx_def dict_of_def Let_def)

lemma example_clients:
  "task_clients example_misc example_ctx CfgNone = [(''0'', ''a''), (''1'', ''b''), (''2'', ''c'')]"
  by (simp add: example_config) (simp add: example_misc_def example_ctx_def)

lemma example_client_config:
  "client_config_of [(''client.0'', None), (''client.1'', None), (''client.2'', None)] ''0'' = []"
  "client_config_of [(''client.0'', None), (''client.1'', None), (''client.2'', None)] ''1'' = []"
  "client_config_of [(''client.0'', None), (''client.1'', None), (''client.2'', None)] ''2'' = []"
  by (simp_all add: client_config_of_def)

lemma example_env_all_ok:
  "\<forall>t r a. remote_run example_env t r a = Returns ()"
  "\<forall>t ps to. run_wait example_env t ps to = Returns ()"
  by (simp_all add: example_env_def scripted_env_simps)

lemma example_launch:
  "launch_loop example_env example_misc
     [(''client.0'', None), (''client.1'', None), (''client.2'', None)]
     [(''0'', ''a''), (''1'', ''b''), (''2'', ''c'')] []
     ([] @ [Logged INFO ''Mounting ceph-fuse clients...'' []])
   = Some (Ok [(''0'', 4), (''1'', 8), (''2'', 12)], example_launch_trace)"
  by (simp add: launch_client_def Let_def call_remote_run_def call_remote_spawn_def
        example_env_def scripted_env_simps example_client_config example_launch_trace_def
        eval_nat_numeral)

lemma example_mount:
  "mount_wait_loop example_env [(''0'', 4), (''1'', 8), (''2'', 12)]
     [(''0'', ''a''), (''1'', ''b''), (''2'', ''c'')] example_launch_trace
   = Some (Ok (), example_mount_trace)"
  by (simp add: call_wait_until_fuse_mounted_def example_env_def scripted_env_simps
        example_mount_trace_def)

section \<open>The claims\<close>

text \<open>
  C3. If the graceful unmount of the client at position \<open>k\<close> (after the clients \<open>cs1\<close>,
  before the clients \<open>cs2\<close>) fails and the client's \<^verbatim>\<open>cleanup_on_failure\<close> is false, the
  teardown raises that failure, and its trace ends with the failed unmount: no wait for
  client \<open>k\<close>, no step at all for the clients \<open>cs2\<close>, and no mount point removed.
\<close>

theorem unmount_failure_aborts_teardown:
  assumes "unmount_loop env config fuse_daemons cs1
             (tr @ [Logged INFO ''Unmounting ceph-fuse clients...'' []]) = Some (Ok (), tr1)"
    and "remote_run env tr1 remote (fusermount_args (mnt id')) = Raises CommandFailedError"
    and "\<not> truthy (cleanup_on_failure config id')"
  shows "teardown env config fuse_daemons (cs1 @ (id', remote) # cs2) tr =
           Some (Exc CommandFailedError,
                 tr1 @ [Did (RemoteRun remote (fusermount_args (mnt id'))) (Threw CommandFailedError)])"
proof -
  have "teardown_client env config fuse_daemons (id', remote) tr1 =
          Some (Exc CommandFailedError,
                tr1 @ [Did (RemoteRun remote (fusermount_args (mnt id'))) (Threw CommandFailedError)])"
    using assms(2,3)
    by (simp add: teardown_client_def try_unmount_def fuse_unmount_def call_remote_run_def)
  then show ?thesis
    using assms(1) by (simp add: teardown_def unmount_loop_append)
qed

theorem unmount_failure_aborts_teardown_witness:
  "(let env = scripted_env
        (\<lambda>tr remote args. if args = [Str ''fusermount'', Str ''-u'', Str ''/tmp/cephtest/mnt.1''] then Raises CommandFailedError else Returns ())
        (\<lambda>tr procs timeout. Returns ());
        tr1 = [Logged INFO ''Unmounting ceph-fuse clients...'' [],
               Did (RemoteRun ''a'' [Str ''fusermount'', Str ''-u'', Str ''/tmp/cephtest/mnt.0'']) Fine,
               Did (RunWait [10, 11, 12] PyNone) Fine]
    in unmount_loop env [] [(''0'', 10), (''1'', 11), (''2'', 12)] [(''0'', ''a'')]
         ([] @ [Logged INFO ''Unmounting ceph-fuse clients...'' []]) = Some (Ok (), tr1)
       \<and> remote_run env tr1 ''b'' [Str ''fusermount'', Str ''-u'', Str ''/tmp/cephtest/mnt.1''] = Raises CommandFailedError
       \<and> \<not> truthy (cleanup_on_failure [] ''1'')
       \<and> teardown env [] [(''0'', 10), (''1'', 11), (''2'', 12)]
            ([(''0'', ''a'')] @ (''1'', ''b'') # [(''2'', ''c'')]) [] =
           Some (Exc CommandFailedError,
                 tr1 @ [Did (RemoteRun ''b'' [Str ''fusermount'', Str ''-u'', Str ''/tmp/cephtest/mnt.1'']) (Threw CommandFailedError)]))"
proof -
  let ?env = "scripted_env
        (\<lambda>tr remote args. if args = [Str ''fusermount'', Str ''-u'', Str ''/tmp/cephtest/mnt.1''] then Raises CommandFailedError else Returns ())
        (\<lambda>tr procs timeout. Returns ())"
  let ?tr1 = "[Logged INFO ''Unmounting ceph-fuse clients...'' [],
               Did (RemoteRun ''a'' (fusermount_args (mnt ''0''))) Fine,
               Did (RunWait [10, 11, 12] PyNone) Fine]"
  have h1: "unmount_loop ?env [] [(''0'', 10), (''1'', 11), (''2'', 12)] [(''0'', ''a'')]
         ([] @ [Logged INFO ''Unmounting ceph-fuse clients...'' []]) = Some (Ok (), ?tr1)"
    by (simp add: teardown_client_def try_unmount_def fuse_unmount_def call_remote_run_def
          try_wait_def wait_for_daemons_ok scripted_env_simps client_config_of_def dict_get_def
          fusermount_args_def mnt_def)
  have h2: "remote_run ?env ?tr1 ''b'' (fusermount_args (mnt ''1'')) = Raises CommandFailedError"
    by (simp add: scripted_env_simps fusermount_args_def mnt_def)
  have h3: "\<not> truthy (cleanup_on_failure [] ''1'')"
    by (simp add: client_config_of_def dict_get_def)
  from unmount_failure_aborts_teardown[OF h1 h2 h3, of "[(''2'', ''c'')]"] h1 h2 h3
  show ?thesis by (simp add: Let_def fusermount_args_def mnt_def)
qed

text \<open>
  C10. In the final pass the removal command has no handler: when the command of the
  client at position \<open>k\<close> raises, whatever the configuration says (also with
  \<^verbatim>\<open>cleanup_on_failure\<close> true), the teardown raises that exception and its trace ends
  with the failed removal, so the mount points of the clients \<open>cs2\<close> stay.
\<close>

theorem rmdir_failure_propagates:
  assumes "unmount_loop env config fuse_daemons (cs1 @ (id', remote) # cs2)
             (tr @ [Logged INFO ''Unmounting ceph-fuse clients...'' []]) = Some (Ok (), tr1)"
    and "rmdir_loop env cs1 tr1 = Some (Ok (), tr2)"
    and "remote_run env tr2 remote (rmdir_args (mnt id')) = Raises e"
  shows "teardown env config fuse_daemons (cs1 @ (id', remote) # cs2) tr =
           Some (Exc e, tr2 @ [Did (RemoteRun remote (rmdir_args (mnt id'))) (Threw e)])
         \<and> tr2 = tr1 @ map (\<lambda>c. Did (RemoteRun (snd c) (rmdir_args (mnt (fst c)))) Fine) cs1"
proof -
  have "rmdir_loop env ((id', remote) # cs2) tr2 =
          Some (Exc e, tr2 @ [Did (RemoteRun remote (rmdir_args (mnt id'))) (Threw e)])"
    using assms(3) by (simp add: call_remote_run_def)
  with assms(1,2) have "teardown env config fuse_daemons (cs1 @ (id', remote) # cs2) tr =
           Some (Exc e, tr2 @ [Did (RemoteRun remote (rmdir_args (mnt id'))) (Threw e)])"
    by (simp add: teardown_def rmdir_loop_append)
  moreover from rmdir_loop_shape[OF assms(2)]
  have "tr2 = tr1 @ map (\<lambda>c. Did (RemoteRun (snd c) (rmdir_args (mnt (fst c)))) Fine) cs1"
    by auto
  ultimately show ?thesis by simp
qed

theorem rmdir_failure_propagates_witness:
  "(let env = scripted_env
        (\<lambda>tr remote args. if args = [Str ''rmdir'', Str ''--'', Str ''/tmp/cephtest/mnt.1''] then Raises CommandFailedError else Returns ())
        (\<lambda>tr procs timeout. Returns ());
        config = [(''client.0'', None), (''client.1'', Some [(''cleanup_on_failure'', PyBool True)]),
                  (''client.2'', None)];
        fuse_daemons = [(''0'', 10), (''1'', 11), (''2'', 12)];
        tr1 = [Logged INFO ''Unmounting ceph-fuse clients...'' [],
               Did (RemoteRun ''a'' [Str ''fusermount'', Str ''-u'', Str ''/tmp/cephtest/mnt.0'']) Fine,
               Did (RunWait [10, 11, 12] PyNone) Fine,
               Did (RemoteRun ''b'' [Str ''fusermount'', Str ''-u'', Str ''/tmp/cephtest/mnt.1'']) Fine,
               Did (RunWait [10, 11, 12] PyNone) Fine,
               Did (RemoteRun ''c'' [Str ''fusermount'', Str ''-u'', Str ''/tmp/cephtest/mnt.2'']) Fine,
               Did (RunWait [10, 11, 12] PyNone) Fine];
        tr2 = tr1 @ [Did (RemoteRun ''a'' [Str ''rmdir'', Str ''--'', Str ''/tmp/cephtest/mnt.0'']) Fine]
    in unmount_loop env config fuse_daemons ([(''0'', ''a'')] @ (''1'', ''b'') # [(''2'', ''c'')])
         ([] @ [Logged INFO ''Unmounting ceph-fuse clients...'' []]) = Some (Ok (), tr1)
       \<and> rmdir_loop env [(''0'', ''a'')] tr1 = Some (Ok (), tr2)
       \<and> remote_run env tr2 ''b'' [Str ''rmdir'', Str ''--'', Str ''/tmp/cephtest/mnt.1''] = Raises CommandFailedError
       \<and> truthy (cleanup_on_failure config ''1'')
       \<and> teardown env config fuse_daemons ([(''0'', ''a'')] @ (''1'', ''b'') # [(''2'', ''c'')]) [] =
           Some (Exc CommandFailedError,
                 tr2 @ [Did (RemoteRun ''b'' [Str ''rmdir'', Str ''--'', Str ''/tmp/cephtest/mnt.1'']) (Threw CommandFailedError)]))"
proof -
  let ?env = "scripted_env
        (\<lambda>tr remote args. if args = [Str ''rmdir'', Str ''--'', Str ''/tmp/cephtest/mnt.1''] then Raises CommandFailedError else Returns ())
        (\<lambda>tr procs timeout. Returns ())"
  let ?config = "[(''client.0'', None), (''client.1'', Some [(''cleanup_on_failure'', PyBool True)]),
                  (''client.2'', None)]"
  let ?fd = "[(''0'', 10::nat), (''1'', 11), (''2'', 12)]"
  let ?tr1 = "[Logged INFO ''Unmounting ceph-fuse clients...'' [],
               Did (RemoteRun ''a'' (fusermount_args (mnt ''0''))) Fine,
               Did (RunWait [10, 11, 12] PyNone) Fine,
               Did (RemoteRun ''b'' (fusermount_args (mnt ''1''))) Fine,
               Did (RunWait [10, 11, 12] PyNone) Fine,
               Did (RemoteRun ''c'' (fusermount_args (mnt ''2''))) Fine,
               Did (RunWait [10, 11, 12] PyNone) Fine]"
  let ?tr2 = "?tr1 @ [Did (RemoteRun ''a'' (rmdir_args (mnt ''0''))) Fine]"
  have h1: "unmount_loop ?env ?config ?fd ([(''0'', ''a'')] @ (''1'', ''b'') # [(''2'', ''c'')])
         ([] @ [Logged INFO ''Unmounting ceph-fuse clients...'' []]) = Some (Ok (), ?tr1)"
    by (simp add: teardown_client_def try_unmount_def fuse_unmount_def call_remote_run_def
          try_wait_def wait_for_daemons_ok scripted_env_simps client_config_of_def dict_get_def
          fusermount_args_def rmdir_args_def mnt_def)
  have h2: "rmdir_loop ?env [(''0'', ''a'')] ?tr1 = Some (Ok (), ?tr2)"
    by (simp add: call_remote_run_def scripted_env_simps rmdir_args_def mnt_def)
  have h3: "remote_run ?env ?tr2 ''b'' (rmdir_args (mnt ''1'')) = Raises CommandFailedError"
    by (simp add: scripted_env_simps rmdir_args_def mnt_def)
  have h4: "truthy (cleanup_on_failure ?config ''1'')"
    by (simp add: client_config_of_def dict_get_def)
  from rmdir_failure_propagates[OF h1 h2 h3] h1 h2 h3 h4
  show ?thesis by (simp add: Let_def fusermount_args_def rmdir_args_def mnt_def)
qed

text \<open>
  C5, as amended. A client has \<^verbatim>\<open>cleanup_on_failure\<close> true and its graceful unmount,
  \<^verbatim>\<open>fusermount -u /tmp/cephtest/mnt.id\<close>, raises \<open>e\<close>. If \<open>e\<close> is
  \<^verbatim>\<open>CommandFailedError\<close>, the failure is logged and the forced abort runs on the client's
  remote: first \<^verbatim>\<open>echo 1 > /sys/fs/fuse/connections/*/abort\<close>, which aborts every fuse
  connection of that host, then \<^verbatim>\<open>sudo umount -l -f /tmp/cephtest/mnt.id\<close>. An exception
  of either command leaves the client's steps at once (the second command is not run after
  a failure of the first, the daemons are not waited for); when both return, the steps go on
  with the wait for the daemons. If \<open>e\<close> is any other exception, it leaves the client's
  steps at once: no log record, no forced abort.
\<close>

theorem forced_abort_after_failed_unmount:
  assumes "remote_run env tr remote
             [Str ''fusermount'', Str ''-u'', Str (''/tmp/cephtest/mnt.'' @ id')] = Raises e"
    and "truthy (cleanup_on_failure config id')"
    and "tr1 = tr @ [Did (RemoteRun remote
                            [Str ''fusermount'', Str ''-u'', Str (''/tmp/cephtest/mnt.'' @ id')])
                       (Threw CommandFailedError),
                     Logged ERROR ''fuse failed to unmount, cleaning up anyway'' []]"
    and "tr2 = tr1 @ [Did (RemoteRun remote
                             [Str ''echo'', Str ''1'', Raw ''>'',
                              Raw ''/sys/fs/fuse/connections/*/abort'']) Fine]"
  shows "teardown_client env config fuse_daemons (id', remote) tr =
           (if e = CommandFailedError then
              (case remote_run env tr1 remote
                      [Str ''echo'', Str ''1'', Raw ''>'', Raw ''/sys/fs/fuse/connections/*/abort''] of
                 Blocks \<Rightarrow> None
               | Raises e' \<Rightarrow>
                   Some (Exc e',
                         tr1 @ [Did (RemoteRun remote
                                       [Str ''echo'', Str ''1'', Raw ''>'',
                                        Raw ''/sys/fs/fuse/connections/*/abort'']) (Threw e')])
               | Returns _ \<Rightarrow>
                   (case remote_run env tr2 remote
                           [Str ''sudo'', Str ''umount'', Str ''-l'', Str ''-f'',
                            Str (''/tmp/cephtest/mnt.'' @ id')] of
                      Blocks \<Rightarrow> None
                    | Raises e' \<Rightarrow>
                        Some (Exc e',
                              tr2 @ [Did (RemoteRun remote
                                            [Str ''sudo'', Str ''umount'', Str ''-l'', Str ''-f'',
                                             Str (''/tmp/cephtest/mnt.'' @ id')]) (Threw e')])
                    | Returns _ \<Rightarrow>
                        try_wait env remote fuse_daemons (fuse_timeout config id')
                          (cleanup_on_failure config id')
                          (tr2 @ [Did (RemoteRun remote
                                         [Str ''sudo'', Str ''umount'', Str ''-l'', Str ''-f'',
                                          Str (''/tmp/cephtest/mnt.'' @ id')]) Fine])))
            else Some (Exc e,
                       tr @ [Did (RemoteRun remote
                                    [Str ''fusermount'', Str ''-u'',
                                     Str (''/tmp/cephtest/mnt.'' @ id')]) (Threw e)]))"
proof -
  have m: "mnt id' = ''/tmp/cephtest/mnt.'' @ id'" by (simp add: mnt_def)
  from assms(1) have u: "remote_run env tr remote (fusermount_args (mnt id')) = Raises e"
    by (simp add: fusermount_args_def m)
  show ?thesis
  proof (cases "e = CommandFailedError")
    case False
    with u have "teardown_client env config fuse_daemons (id', remote) tr =
        Some (Exc e, tr @ [Did (RemoteRun remote (fusermount_args (mnt id'))) (Threw e)])"
      by (simp add: teardown_client_def try_unmount_def fuse_unmount_def call_remote_run_def Let_def)
    with False show ?thesis by (simp add: fusermount_args_def m)
  next
    case True
    have t1: "tr1 = tr @ [Did (RemoteRun remote (fusermount_args (mnt id'))) (Threw CommandFailedError),
                     Logged ERROR ''fuse failed to unmount, cleaning up anyway'' []]"
      using assms(3) by (simp add: fusermount_args_def m)
    have t2: "tr2 = tr1 @ [Did (RemoteRun remote abort_args) Fine]"
      using assms(4) by (simp add: abort_args_def)
    have "teardown_client env config fuse_daemons (id', remote) tr =
           (case remote_run env tr1 remote abort_args of
              Blocks \<Rightarrow> None
            | Raises e' \<Rightarrow> Some (Exc e', tr1 @ [Did (RemoteRun remote abort_args) (Threw e')])
            | Returns _ \<Rightarrow>
                (case remote_run env tr2 remote (umount_args (mnt id')) of
                   Blocks \<Rightarrow> None
                 | Raises e' \<Rightarrow>
                     Some (Exc e', tr2 @ [Did (RemoteRun remote (umount_args (mnt id'))) (Threw e')])
                 | Returns _ \<Rightarrow>
                     try_wait env remote fuse_daemons (fuse_timeout config id')
                       (cleanup_on_failure config id')
                       (tr2 @ [Did (RemoteRun remote (umount_args (mnt id'))) Fine])))"
      using u True assms(2) t1 t2
      by (simp add: teardown_client_def try_unmount_def fuse_unmount_def abort_fuse_mount_def
            call_remote_run_def Let_def split: reply.splits)
    with True show ?thesis
      unfolding abort_args_def umount_args_def m by simp
  qed
qed

text \<open>
  The unmount fails with \<^verbatim>\<open>CommandFailedError\<close>, the abort of the connections returns,
  and the forced \<^verbatim>\<open>umount\<close> fails: its \<^verbatim>\<open>CommandFailedError\<close> is not caught, though
  \<^verbatim>\<open>cleanup_on_failure\<close> is true.
\<close>

theorem forced_abort_after_failed_unmount_witness:
  "remote_run
      (scripted_env
         (\<lambda>tr remote args. if hd args = Str ''echo'' then Returns () else Raises CommandFailedError)
         (\<lambda>tr procs timeout. Returns ()))
      [] ''a'' [Str ''fusermount'', Str ''-u'', Str (''/tmp/cephtest/mnt.'' @ ''0'')]
     = Raises CommandFailedError
   \<and> truthy (cleanup_on_failure [(''client.0'', Some [(''cleanup_on_failure'', PyBool True)])] ''0'')
   \<and> teardown_client
        (scripted_env
           (\<lambda>tr remote args. if hd args = Str ''echo'' then Returns () else Raises CommandFailedError)
           (\<lambda>tr procs timeout. Returns ()))
        [(''client.0'', Some [(''cleanup_on_failure'', PyBool True)])] [(''0'', 10)] (''0'', ''a'') []
     = Some (Exc CommandFailedError,
         [Did (RemoteRun ''a'' [Str ''fusermount'', Str ''-u'', Str ''/tmp/cephtest/mnt.0''])
            (Threw CommandFailedError),
          Logged ERROR ''fuse failed to unmount, cleaning up anyway'' [],
          Did (RemoteRun ''a'' [Str ''echo'', Str ''1'', Raw ''>'',
                               Raw ''/sys/fs/fuse/connections/*/abort'']) Fine,
          Did (RemoteRun ''a'' [Str ''sudo'', Str ''umount'', Str ''-l'', Str ''-f'',
                               Str ''/tmp/cephtest/mnt.0'']) (Threw CommandFailedError)])"
proof -
  let ?env = "scripted_env
         (\<lambda>tr remote args. if hd args = Str ''echo'' then Returns () else Raises CommandFailedError)
         (\<lambda>tr procs timeout. Returns ())"
  let ?config = "[(''client.0'', Some [(''cleanup_on_failure'', PyBool True)])]"
  have h1: "remote_run ?env [] ''a'' [Str ''fusermount'', Str ''-u'', Str (''/tmp/cephtest/mnt.'' @ ''0'')]
              = Raises CommandFailedError"
    by (simp add: scripted_env_simps)
  have h2: "truthy (cleanup_on_failure ?config ''0'')"
    by (simp add: client_config_of_def dict_get_def)
  from forced_abort_after_failed_unmount[OF h1 h2 refl refl, of "[(''0'', 10)]"]
  have "teardown_client ?env ?config [(''0'', 10)] (''0'', ''a'') []
     = Some (Exc CommandFailedError,
         [Did (RemoteRun ''a'' [Str ''fusermount'', Str ''-u'', Str ''/tmp/cephtest/mnt.0''])
            (Threw CommandFailedError),
          Logged ERROR ''fuse failed to unmount, cleaning up anyway'' [],
          Did (RemoteRun ''a'' [Str ''echo'', Str ''1'', Raw ''>'',
                               Raw ''/sys/fs/fuse/connections/*/abort'']) Fine,
          Did (RemoteRun ''a'' [Str ''sudo'', Str ''umount'', Str ''-l'', Str ''-f'',
                               Str ''/tmp/cephtest/mnt.0'']) (Threw CommandFailedError)])"
    by (simp add: scripted_env_simps)
  with h1 h2 show ?thesis by (intro conjI)
qed

text \<open>
  The claim as it stands fails when the unmount fails otherwise than by the exit status of
  the command, here by a lost connection: \<^verbatim>\<open>cleanup_on_failure\<close> is true, yet nothing is
  logged and no forced abort is run.
\<close>

theorem unmount_failure_without_abort_counterexample:
  "teardown_client
     (scripted_env (\<lambda>tr remote args. Raises (OtherError ''ConnectionLostError''))
        (\<lambda>tr procs timeout. Returns ()))
     [(''client.0'', Some [(''cleanup_on_failure'', PyBool True)])] [(''0'', 10)] (''0'', ''a'') []
   = Some (Exc (OtherError ''ConnectionLostError''),
       [Did (RemoteRun ''a'' [Str ''fusermount'', Str ''-u'', Str ''/tmp/cephtest/mnt.0''])
          (Threw (OtherError ''ConnectionLostError''))])"
  by (simp add: teardown_client_def Let_def try_unmount_def fuse_unmount_def call_remote_run_def
        scripted_env_simps fusermount_args_def mnt_def)

text \<open>
  C4, as amended. Whenever \<open>wait_for_daemons\<close> returns, its trace is a number of rounds,
  each of them a wait that timed out, the two error records (the first with the timeout)
  and a \<^verbatim>\<open>killall -9 ceph-fuse\<close> on the remote that returned, followed by the end of
  the loop: a wait that returned, a wait that raised something other than \<^verbatim>\<open>Timeout\<close>,
  or a timed-out wait whose kill command raised. So a kill that returns is always followed
  by another wait, and a timeout alone never leaves the loop. Moreover the loop does return
  once a wait returns: after \<open>n\<close> timeouts whose kills return, it returns with \<open>n\<close> rounds.
\<close>

theorem kill_and_wait_again:
  "(wait_for_daemons env remote fuse_daemons timeout tr = Some (res, tr') \<longrightarrow>
      (\<exists>k fin. tr' = tr @ concat (replicate k (kill_round remote (map snd fuse_daemons) timeout)) @ fin
          \<and> wait_end remote (map snd fuse_daemons) timeout res fin))
   \<and> ((\<forall>i<n. run_wait env (tr @ concat (replicate i (kill_round remote (map snd fuse_daemons) timeout)))
                  (map snd fuse_daemons) timeout = Raises Timeout
              \<and> remote_run env
                  (tr @ concat (replicate i (kill_round remote (map snd fuse_daemons) timeout))
                     @ [Did (RunWait (map snd fuse_daemons) timeout) (Threw Timeout)]
                     @ timeout_logs timeout) remote killall_args = Returns ())
        \<and> run_wait env (tr @ concat (replicate n (kill_round remote (map snd fuse_daemons) timeout)))
             (map snd fuse_daemons) timeout = Returns () \<longrightarrow>
       wait_for_daemons env remote fuse_daemons timeout tr =
         Some (Ok (), tr @ concat (replicate n (kill_round remote (map snd fuse_daemons) timeout))
                        @ [Did (RunWait (map snd fuse_daemons) timeout) Fine]))"
proof (intro conjI impI)
  assume "wait_for_daemons env remote fuse_daemons timeout tr = Some (res, tr')"
  from wait_for_daemons_shape[OF this]
  show "\<exists>k fin. tr' = tr @ concat (replicate k (kill_round remote (map snd fuse_daemons) timeout)) @ fin
          \<and> wait_end remote (map snd fuse_daemons) timeout res fin"
    by simp
next
  assume a: "(\<forall>i<n. run_wait env (tr @ concat (replicate i (kill_round remote (map snd fuse_daemons) timeout)))
                  (map snd fuse_daemons) timeout = Raises Timeout
              \<and> remote_run env
                  (tr @ concat (replicate i (kill_round remote (map snd fuse_daemons) timeout))
                     @ [Did (RunWait (map snd fuse_daemons) timeout) (Threw Timeout)]
                     @ timeout_logs timeout) remote killall_args = Returns ())
        \<and> run_wait env (tr @ concat (replicate n (kill_round remote (map snd fuse_daemons) timeout)))
             (map snd fuse_daemons) timeout = Returns ()"
  show "wait_for_daemons env remote fuse_daemons timeout tr =
         Some (Ok (), tr @ concat (replicate n (kill_round remote (map snd fuse_daemons) timeout))
                        @ [Did (RunWait (map snd fuse_daemons) timeout) Fine])"
    by (rule wait_for_daemons_returns) (use a in blast)+
qed

text \<open>
  A daemon that exits after exactly one kill: the first wait times out, the kill returns,
  the second wait returns.
\<close>

theorem kill_and_wait_again_witness:
  "wait_for_daemons
     (scripted_env (\<lambda>tr remote args. Returns ())
        (\<lambda>tr procs timeout.
            if Did (RemoteRun ''a'' [Str ''sudo'', Str ''killall'', Str ''-9'', Str ''ceph-fuse'']) Fine \<in> set tr then Returns () else Raises Timeout))
     ''a'' [(''0'', 10)] (PyInt 5) []
   = Some (Ok (), [Did (RunWait [10] (PyInt 5)) (Threw Timeout),
                   Logged ERROR ''fuse client did not exit after {timeout} seconds'' [FVal (PyInt 5)],
                   Logged ERROR ''sending SIGKILL to ceph-fuse process'' [],
                   Did (RemoteRun ''a'' [Str ''sudo'', Str ''killall'', Str ''-9'', Str ''ceph-fuse'']) Fine,
                   Did (RunWait [10] (PyInt 5)) Fine])"
  using kill_and_wait_again[of
     "scripted_env (\<lambda>tr remote args. Returns ())
        (\<lambda>tr procs timeout.
            if Did (RemoteRun ''a'' [Str ''sudo'', Str ''killall'', Str ''-9'', Str ''ceph-fuse'']) Fine \<in> set tr then Returns () else Raises Timeout)"
     "''a''" "[(''0'', 10)]" "PyInt 5" "[]" _ _ 1]
  by (simp add: scripted_env_simps kill_round_def timeout_logs_def killall_args_def)

text \<open>
  The claim as it stands fails when the kill command itself fails (as \<^verbatim>\<open>killall\<close> does
  when it finds no process): the wait timed out, the kill was sent, and the loop is left
  by the kill's exception without another wait.
\<close>

theorem kill_failure_ends_wait_counterexample:
  "wait_for_daemons
     (scripted_env (\<lambda>tr remote args. Raises CommandFailedError) (\<lambda>tr procs timeout. Raises Timeout))
     ''a'' [(''0'', 10)] (PyInt 5) []
   = Some (Exc CommandFailedError,
           [Did (RunWait [10] (PyInt 5)) (Threw Timeout),
            Logged ERROR ''fuse client did not exit after {timeout} seconds'' [FVal (PyInt 5)],
            Logged ERROR ''sending SIGKILL to ceph-fuse process'' [],
            Did (RemoteRun ''a'' [Str ''sudo'', Str ''killall'', Str ''-9'', Str ''ceph-fuse'']) (Threw CommandFailedError)])"
  by (subst wait_for_daemons_kill_raises[where e = CommandFailedError])
     (simp_all add: scripted_env_simps timeout_logs_def killall_args_def)

text \<open>
  C6. Every command the launch loop starts is, for a client \<open>(id, remote)\<close> of the list and
  on that client's remote, the wrapper prefix with the client's \<^verbatim>\<open>daemon_signal\<close>, then
  the valgrind arguments exactly when the client's configuration has a \<^verbatim>\<open>valgrind\<close>
  entry that is not \<^verbatim>\<open>None\<close>, then the daemon binary with \<^verbatim>\<open>--name client.id\<close> and
  \<^verbatim>\<open>-c /tmp/cephtest/ceph.conf\<close>, and the client's mount point as the last argument.
  When the loop returns, such a command was started for every client of the list.
\<close>

theorem launch_command_shape:
  assumes "launch_loop env misc config clients fuse_daemons tr = Some (res, tr')"
  shows "(\<forall>remote args lg out.
            Did (RemoteSpawn remote args lg) out \<in> set (drop (length tr) tr') \<longrightarrow>
            (\<exists>id'. (id', remote) \<in> set clients
               \<and> args = spec_launch_command (daemon_signal (client_config_of config id'))
                          (if dict_get (client_config_of config id') ''valgrind'' PyNone \<noteq> PyNone
                           then get_valgrind_args misc (''client.'' @ id')
                                  (dict_get (client_config_of config id') ''valgrind'' PyNone)
                           else [])
                          id' (mnt id')
               \<and> last args = Str (mnt id')))
       \<and> (\<forall>fd'. res = Ok fd' \<longrightarrow>
            (\<forall>(id', remote)\<in>set clients. \<exists>proc.
               Did (RemoteSpawn remote
                      (spec_launch_command (daemon_signal (client_config_of config id'))
                          (if dict_get (client_config_of config id') ''valgrind'' PyNone \<noteq> PyNone
                           then get_valgrind_args misc (''client.'' @ id')
                                  (dict_get (client_config_of config id') ''valgrind'' PyNone)
                           else [])
                          id' (mnt id'))
                      (''ceph-fuse.'' @ id')) (Proc proc) \<in> set (drop (length tr) tr')))"
proof -
  from launch_loop_events[OF assms] obtain L where
    L: "tr' = tr @ L" and ev: "\<forall>ev\<in>set L. \<exists>c\<in>set clients. launch_event misc config c ev"
    and ok0: "\<forall>fd'. res = Ok fd' \<longrightarrow>
                 fst ` set fd' = fst ` set fuse_daemons \<union> fst ` set clients
                 \<and> (\<forall>c\<in>set clients.
                       Did (RemoteRun (snd c) (mkdir_args (mnt (fst c)))) Fine \<in> set L
                       \<and> (\<exists>proc. Did (RemoteSpawn (snd c) (run_cmd misc (client_config_of config (fst c)) (fst c))
                             (''ceph-fuse.'' @ fst c)) (Proc proc) \<in> set L))"
    by (elim exE conjE)
  have ok: "\<forall>fd'. res = Ok fd' \<longrightarrow>
                 (\<forall>c\<in>set clients.
                       (\<exists>proc. Did (RemoteSpawn (snd c) (run_cmd misc (client_config_of config (fst c)) (fst c))
                             (''ceph-fuse.'' @ fst c)) (Proc proc) \<in> set L))"
  proof (intro allI impI ballI)
    fix fd' c assume "res = Ok fd'" "c \<in> set clients"
    with ok0 show "\<exists>proc. Did (RemoteSpawn (snd c) (run_cmd misc (client_config_of config (fst c)) (fst c))
                             (''ceph-fuse.'' @ fst c)) (Proc proc) \<in> set L"
      by simp
  qed
  have new: "drop (length tr) tr' = L" using L by simp
  show ?thesis
  proof (intro conjI allI impI)
    fix remote args lg out
    assume "Did (RemoteSpawn remote args lg) out \<in> set (drop (length tr) tr')"
    with new ev obtain c where c: "c \<in> set clients"
      and le: "launch_event misc config c (Did (RemoteSpawn remote args lg) out)" by auto
    from launch_event_spawn[OF le] have r: "remote = snd c"
      and a: "args = run_cmd misc (client_config_of config (fst c)) (fst c)" by auto
    have m: "(fst c, remote) \<in> set clients" using c r by simp
    have a': "args = spec_launch_command (daemon_signal (client_config_of config (fst c)))
                          (if dict_get (client_config_of config (fst c)) ''valgrind'' PyNone \<noteq> PyNone
                           then get_valgrind_args misc (''client.'' @ fst c)
                                  (dict_get (client_config_of config (fst c)) ''valgrind'' PyNone)
                           else [])
                          (fst c) (mnt (fst c))"
      using a by (simp only: run_cmd_spec)
    have l: "last args = Str (mnt (fst c))"
      by (subst a') (simp add: spec_launch_command_def)
    show "\<exists>id'. (id', remote) \<in> set clients
               \<and> args = spec_launch_command (daemon_signal (client_config_of config id'))
                          (if dict_get (client_config_of config id') ''valgrind'' PyNone \<noteq> PyNone
                           then get_valgrind_args misc (''client.'' @ id')
                                  (dict_get (client_config_of config id') ''valgrind'' PyNone)
                           else [])
                          id' (mnt id')
               \<and> last args = Str (mnt id')"
      by (intro exI[of _ "fst c"] conjI) (fact m, fact a', fact l)
  next
    fix fd' assume "res = Ok fd'"
    with ok have "\<forall>c\<in>set clients.
                       (\<exists>proc. Did (RemoteSpawn (snd c) (run_cmd misc (client_config_of config (fst c)) (fst c))
                             (''ceph-fuse.'' @ fst c)) (Proc proc) \<in> set L)" by blast
    then have ok': "\<forall>c\<in>set clients. \<exists>proc.
               Did (RemoteSpawn (snd c)
                      (spec_launch_command (daemon_signal (client_config_of config (fst c)))
                          (if dict_get (client_config_of config (fst c)) ''valgrind'' PyNone \<noteq> PyNone
                           then get_valgrind_args misc (''client.'' @ fst c)
                                  (dict_get (client_config_of config (fst c)) ''valgrind'' PyNone)
                           else [])
                          (fst c) (mnt (fst c)))
                      (''ceph-fuse.'' @ fst c)) (Proc proc) \<in> set L"
      by (simp only: run_cmd_spec)
    show "\<forall>(id', remote)\<in>set clients. \<exists>proc.
               Did (RemoteSpawn remote
                      (spec_launch_command (daemon_signal (client_config_of config id'))
                          (if dict_get (client_config_of config id') ''valgrind'' PyNone \<noteq> PyNone
                           then get_valgrind_args misc (''client.'' @ id')
                                  (dict_get (client_config_of config id') ''valgrind'' PyNone)
                           else [])
                          id' (mnt id'))
                      (''ceph-fuse.'' @ id')) (Proc proc) \<in> set (drop (length tr) tr')"
      unfolding new case_prod_beta by (rule ok')
  qed
qed

text \<open>
  The scenario of the specification: \<^verbatim>\<open>client.0\<close> has \<^verbatim>\<open>valgrind: [--tool=memcheck]\<close>.
\<close>

theorem launch_command_shape_witness:
  "launch_loop (scripted_env (\<lambda>tr remote args. Returns ()) (\<lambda>tr procs timeout. Returns ()))
      example_misc [(''client.0'', Some [(''valgrind'', PyList [PyStr ''--tool=memcheck''])])]
      [(''0'', ''a'')] [] []
    = Some (Ok [(''0'', 3)],
        [Logged INFO ''Mounting ceph-fuse client.{id} at {remote} {mnt}...''
           [FStr ''0'', FStr ''a'', FStr ''/tmp/cephtest/mnt.0''],
         Logged INFO ''Client client.%s config is %s''
           [FStr ''0'', FDict [(''valgrind'', PyList [PyStr ''--tool=memcheck''])]],
         Did (RemoteRun ''a'' [Str ''mkdir'', Str ''--'', Str ''/tmp/cephtest/mnt.0'']) Fine,
         Did (RemoteSpawn ''a''
                [Str ''/tmp/cephtest/enable-coredump'',
                 Str ''/tmp/cephtest/binary/usr/local/bin/ceph-coverage'',
                 Str ''/tmp/cephtest/archive/coverage'',
                 Str ''/tmp/cephtest/daemon-helper'',
                 Str ''term'',
                 Str ''valgrind'', Str ''--tool=memcheck'',
                 Str ''/tmp/cephtest/binary/usr/local/bin/ceph-fuse'', Str ''-f'',
                 Str ''--name'', Str ''client.0'',
                 Str ''-c'', Str ''/tmp/cephtest/ceph.conf'',
                 Str ''/tmp/cephtest/mnt.0'']
                ''ceph-fuse.0'') (Proc 3)])"
proof -
  let ?env = "scripted_env (\<lambda>tr remote args. Returns ()) (\<lambda>tr procs timeout. Returns ())"
  let ?config = "[(''client.0'', Some [(''valgrind'', PyList [PyStr ''--tool=memcheck''])])]"
  have cc: "client_config_of ?config ''0'' = [(''valgrind'', PyList [PyStr ''--tool=memcheck''])]"
    by (simp add: client_config_of_def)
  have v: "dict_get [(''valgrind'', PyList [PyStr ''--tool=memcheck''])] ''valgrind'' PyNone
             = PyList [PyStr ''--tool=memcheck'']"
    by (simp add: dict_get_def)
  have s: "daemon_signal [(''valgrind'', PyList [PyStr ''--tool=memcheck''])] = ''term''"
    by (simp add: daemon_signal_def v)
  have g: "get_valgrind_args example_misc ''client.0'' (PyList [PyStr ''--tool=memcheck''])
             = [Str ''valgrind'', Str ''--tool=memcheck'']"
    by (simp add: example_misc_def)
  have h: "launch_loop ?env example_misc ?config [(''0'', ''a'')] [] []
    = Some (Ok [(''0'', 3)],
        [Logged INFO ''Mounting ceph-fuse client.{id} at {remote} {mnt}...''
           [FStr ''0'', FStr ''a'', FStr ''/tmp/cephtest/mnt.0''],
         Logged INFO ''Client client.%s config is %s''
           [FStr ''0'', FDict [(''valgrind'', PyList [PyStr ''--tool=memcheck''])]],
         Did (RemoteRun ''a'' [Str ''mkdir'', Str ''--'', Str ''/tmp/cephtest/mnt.0'']) Fine,
         Did (RemoteSpawn ''a''
                [Str ''/tmp/cephtest/enable-coredump'',
                 Str ''/tmp/cephtest/binary/usr/local/bin/ceph-coverage'',
                 Str ''/tmp/cephtest/archive/coverage'',
                 Str ''/tmp/cephtest/daemon-helper'',
                 Str ''term'',
                 Str ''valgrind'', Str ''--tool=memcheck'',
                 Str ''/tmp/cephtest/binary/usr/local/bin/ceph-fuse'', Str ''-f'',
                 Str ''--name'', Str ''client.0'',
                 Str ''-c'', Str ''/tmp/cephtest/ceph.conf'',
                 Str ''/tmp/cephtest/mnt.0'']
                ''ceph-fuse.0'') (Proc 3)])"
    by (simp add: launch_client_def Let_def call_remote_run_def call_remote_spawn_def
          scripted_env_simps cc v s g run_cmd_spec spec_launch_command_def mkdir_args_def mnt_def
          eval_nat_numeral)
  from launch_command_shape[OF h] h show ?thesis
    by simp
qed

text \<open>
  C9. The signal the daemon helper is started with, the argument after
  \<^verbatim>\<open>/tmp/cephtest/daemon-helper\<close> in the launch command of a client, is \<^verbatim>\<open>term\<close> if and
  only if the client's \<^verbatim>\<open>coverage\<close> entry is true in Python's sense or its
  \<^verbatim>\<open>valgrind\<close> entry is not \<^verbatim>\<open>None\<close>, and \<^verbatim>\<open>kill\<close> otherwise.
\<close>

theorem daemon_signal_variant:
  assumes "launch_client env misc config (id', remote) fuse_daemons tr = Some (res, tr')"
    and "Did (RemoteSpawn r args lg) out \<in> set (drop (length tr) tr')"
  shows "args ! 3 = Str ''/tmp/cephtest/daemon-helper''
       \<and> args ! 4 = Str (if truthy (dict_get (client_config_of config id') ''coverage'' PyNone)
                             \<or> dict_get (client_config_of config id') ''valgrind'' PyNone \<noteq> PyNone
                          then ''term'' else ''kill'')"
proof -
  from launch_client_events[OF assms(1)] obtain L where
    L: "tr' = tr @ L" and ev: "\<forall>ev\<in>set L. launch_event misc config (id', remote) ev"
    by (elim exE conjE)
  from assms(2) L have "Did (RemoteSpawn r args lg) out \<in> set L" by simp
  with ev have "launch_event misc config (id', remote) (Did (RemoteSpawn r args lg) out)"
    by (rule bspec)
  from launch_event_spawn[OF this]
  have a: "args = run_cmd misc (client_config_of config id') id'" by simp
  show ?thesis
    by (subst (1 2) a) (simp add: run_cmd_def Let_def daemon_signal_def)
qed

theorem daemon_signal_variant_witness:
  "(\<exists>res tr'. launch_client (scripted_env (\<lambda>tr remote args. Returns ()) (\<lambda>tr procs timeout. Returns ()))
        example_misc [(''client.0'', Some [(''coverage'', PyBool True)])] (''0'', ''a'') [] []
        = Some (res, tr')
     \<and> Did (RemoteSpawn ''a''
               (run_cmd example_misc [(''coverage'', PyBool True)] ''0'') ''ceph-fuse.0'') (Proc 3)
         \<in> set (drop (length ([]::trace)) tr'))
   \<and> run_cmd example_misc [(''coverage'', PyBool True)] ''0'' ! 4 = Str ''term''
   \<and> (\<exists>res tr'. launch_client (scripted_env (\<lambda>tr remote args. Returns ()) (\<lambda>tr procs timeout. Returns ()))
        example_misc [(''client.0'', None)] (''0'', ''a'') [] []
        = Some (res, tr')
     \<and> Did (RemoteSpawn ''a'' (run_cmd example_misc [] ''0'') ''ceph-fuse.0'') (Proc 3)
         \<in> set (drop (length ([]::trace)) tr'))
   \<and> run_cmd example_misc [] ''0'' ! 4 = Str ''kill''"
proof -
  let ?env = "scripted_env (\<lambda>tr remote args. Returns ()) (\<lambda>tr procs timeout. Returns ())"
  let ?tl = "\<lambda>cc. [Logged INFO ''Mounting ceph-fuse client.{id} at {remote} {mnt}...''
                      [FStr ''0'', FStr ''a'', FStr (mnt ''0'')],
                    Logged INFO ''Client client.%s config is %s'' [FStr ''0'', FDict cc],
                    Did (RemoteRun ''a'' (mkdir_args (mnt ''0''))) Fine,
                    Did (RemoteSpawn ''a'' (run_cmd example_misc cc ''0'') ''ceph-fuse.0'') (Proc 3)]"
  have c1: "client_config_of [(''client.0'', Some [(''coverage'', PyBool True)])] ''0''
              = [(''coverage'', PyBool True)]"
    by (simp add: client_config_of_def)
  have c2: "client_config_of [(''client.0'', None)] ''0'' = []"
    by (simp add: client_config_of_def)
  have h1: "launch_client ?env example_misc [(''client.0'', Some [(''coverage'', PyBool True)])]
              (''0'', ''a'') [] [] = Some (Ok [(''0'', 3)], ?tl [(''coverage'', PyBool True)])"
    by (simp add: launch_client_def Let_def call_remote_run_def call_remote_spawn_def
          scripted_env_simps c1)
  have h2: "launch_client ?env example_misc [(''client.0'', None)]
              (''0'', ''a'') [] [] = Some (Ok [(''0'', 3)], ?tl [])"
    by (simp add: launch_client_def Let_def call_remote_run_def call_remote_spawn_def
          scripted_env_simps c2)
  have e1: "Did (RemoteSpawn ''a'' (run_cmd example_misc [(''coverage'', PyBool True)] ''0'')
                   ''ceph-fuse.0'') (Proc 3)
              \<in> set (drop (length ([]::trace)) (?tl [(''coverage'', PyBool True)]))"
    by simp
  have e2: "Did (RemoteSpawn ''a'' (run_cmd example_misc [] ''0'') ''ceph-fuse.0'') (Proc 3)
              \<in> set (drop (length ([]::trace)) (?tl []))"
    by simp
  have r1: "run_cmd example_misc [(''coverage'', PyBool True)] ''0'' ! 4 = Str ''term''"
    using daemon_signal_variant[OF h1 e1] by (simp add: c1 dict_get_def)
  have r2: "run_cmd example_misc [] ''0'' ! 4 = Str ''kill''"
    using daemon_signal_variant[OF h2 e2] by (simp add: c2 dict_get_def)
  from h1 e1 r1 h2 e2 r2 show ?thesis by blast
qed



text \<open>
  C1, as amended. When every client has \<^verbatim>\<open>cleanup_on_failure\<close> set and the teardown
  comes to an end, then either it returns, and every client had its unmount attempted,
  a wait on the daemons with its own timeout, and its mount point removed, whether or not
  graceful unmounts, waits or kills failed with \<^verbatim>\<open>CommandFailedError\<close> on the way; or it
  raises the exception of its last call, which is then an exception other than
  \<^verbatim>\<open>CommandFailedError\<close>, or a failure of a command of the forced abort, or of a removal.
\<close>

theorem teardown_reaches_every_client:
  assumes "\<forall>c\<in>set clients. truthy (cleanup_on_failure config (fst c))"
    and "teardown env config fuse_daemons clients tr = Some (res, tr')"
  shows "(res = Ok ()
          \<and> (\<forall>(id', remote)\<in>set clients.
                (\<exists>out. Did (RemoteRun remote (fusermount_args (mnt id'))) out
                          \<in> set (drop (length tr) tr'))
                \<and> (\<exists>out. Did (RunWait (map snd fuse_daemons) (fuse_timeout config id')) out
                          \<in> set (drop (length tr) tr'))
                \<and> Did (RemoteRun remote (rmdir_args (mnt id'))) Fine \<in> set (drop (length tr) tr')))
       \<or> (\<exists>e a. res = Exc e \<and> last tr' = Did a (Threw e)
              \<and> (e \<noteq> CommandFailedError \<or> (\<exists>r. a = RemoteRun r abort_args)
                  \<or> (\<exists>r m. a = RemoteRun r (umount_args m))
                  \<or> (\<exists>r m. a = RemoteRun r (rmdir_args m))))"
proof (cases res)
  case (Exc e)
  with assms(2) have "teardown env config fuse_daemons clients tr = Some (Exc e, tr')" by simp
  from teardown_fails[OF this] obtain a where
    a: "last tr' = Did a (Threw e)"
       "(\<forall>c\<in>set clients. truthy (cleanup_on_failure config (fst c))) \<longrightarrow>
                 e \<noteq> CommandFailedError \<or> (\<exists>r. a = RemoteRun r abort_args)
                 \<or> (\<exists>r m. a = RemoteRun r (umount_args m))
                 \<or> (\<exists>r m. a = RemoteRun r (rmdir_args m))"
    by (elim exE conjE)
  from a(2) assms(1) have "e \<noteq> CommandFailedError \<or> (\<exists>r. a = RemoteRun r abort_args)
                 \<or> (\<exists>r m. a = RemoteRun r (umount_args m))
                 \<or> (\<exists>r m. a = RemoteRun r (rmdir_args m))"
    by (rule mp)
  with a(1) Exc have "\<exists>e a. res = Exc e \<and> last tr' = Did a (Threw e)
              \<and> (e \<noteq> CommandFailedError \<or> (\<exists>r. a = RemoteRun r abort_args)
                  \<or> (\<exists>r m. a = RemoteRun r (umount_args m))
                  \<or> (\<exists>r m. a = RemoteRun r (rmdir_args m)))"
    by (intro exI[of _ e] exI[of _ a] conjI)
  then show ?thesis by (rule disjI2)
next
  case (Ok u)
  let ?F = "\<lambda>c. Did (RemoteRun (snd c) (rmdir_args (mnt (fst c)))) Fine"
  from teardown_shape[OF assms(2)] obtain segs R where
    tr': "tr' = tr @ Logged INFO ''Unmounting ceph-fuse clients...'' [] # concat segs @ R"
    and "length segs \<le> length clients"
    and each: "\<forall>i<length segs.
                 (\<exists>out seg. segs ! i = Did (RemoteRun (snd (clients ! i)) (fusermount_args (mnt (fst (clients ! i))))) out # seg)
                 \<and> (\<forall>ev\<in>set (segs ! i). teardown_event config fuse_daemons (clients ! i) ev)
                 \<and> ((R \<noteq> [] \<or> res = Ok () \<or> Suc i < length segs) \<longrightarrow>
                      (\<exists>out'. Did (RunWait (map snd fuse_daemons) (fuse_timeout config (fst (clients ! i)))) out'
                          \<in> set (segs ! i)))"
    and "length R \<le> length clients"
    and "\<forall>i<length R. rmdir_event (clients ! i) (R ! i)"
    and full: "R \<noteq> [] \<or> res = Ok () \<longrightarrow> length segs = length clients"
    and Rall: "res = Ok () \<longrightarrow> R = map ?F clients"
    by (elim exE conjE)
  from Ok have ok: "res = Ok ()" by simp
  with full have len: "length segs = length clients" by simp
  from ok Rall have R: "R = map ?F clients" by simp
  have new: "drop (length tr) tr' = Logged INFO ''Unmounting ceph-fuse clients...'' [] # concat segs @ R"
    using tr' by simp
  have "\<forall>(id', remote)\<in>set clients.
                (\<exists>out. Did (RemoteRun remote (fusermount_args (mnt id'))) out
                          \<in> set (drop (length tr) tr'))
                \<and> (\<exists>out. Did (RunWait (map snd fuse_daemons) (fuse_timeout config id')) out
                          \<in> set (drop (length tr) tr'))
                \<and> Did (RemoteRun remote (rmdir_args (mnt id'))) Fine \<in> set (drop (length tr) tr')"
  proof (rule ballI, rule case_prodI2)
    fix c id' remote assume c: "c \<in> set clients" and ceq: "c = (id', remote)"
    from c obtain i where i: "i < length clients" and ci: "clients ! i = c"
      by (auto simp: in_set_conv_nth)
    from i len have il: "i < length segs" by simp
    then have "segs ! i \<in> set segs" by (rule nth_mem)
    then have sin: "set (segs ! i) \<subseteq> set (concat segs)" by auto
    from each il ci ceq obtain out seg where
      hd: "segs ! i = Did (RemoteRun remote (fusermount_args (mnt id'))) out # seg"
      by auto
    from each il ci ceq ok obtain out' where
      w: "Did (RunWait (map snd fuse_daemons) (fuse_timeout config id')) out' \<in> set (segs ! i)"
      by auto
    from hd have "Did (RemoteRun remote (fusermount_args (mnt id'))) out \<in> set (segs ! i)" by simp
    with sin new have u: "Did (RemoteRun remote (fusermount_args (mnt id'))) out
                          \<in> set (drop (length tr) tr')" by auto
    from w sin new have w': "Did (RunWait (map snd fuse_daemons) (fuse_timeout config id')) out'
                          \<in> set (drop (length tr) tr')" by auto
    from c ceq have "(id', remote) \<in> set clients" by simp
    then have "?F (id', remote) \<in> ?F ` set clients" by (rule imageI)
    then have "Did (RemoteRun remote (rmdir_args (mnt id'))) Fine \<in> set (map ?F clients)" by simp
    with R new have r: "Did (RemoteRun remote (rmdir_args (mnt id'))) Fine \<in> set (drop (length tr) tr')"
      by simp
    show "(\<exists>out. Did (RemoteRun remote (fusermount_args (mnt id'))) out
                          \<in> set (drop (length tr) tr'))
                \<and> (\<exists>out. Did (RunWait (map snd fuse_daemons) (fuse_timeout config id')) out
                          \<in> set (drop (length tr) tr'))
                \<and> Did (RemoteRun remote (rmdir_args (mnt id'))) Fine \<in> set (drop (length tr) tr')"
      by (intro conjI exI[of _ out] exI[of _ out']) (rule u w' r)+
  qed
  with ok show ?thesis by (intro disjI1 conjI)
qed

text \<open>
  Two clients with \<^verbatim>\<open>cleanup_on_failure\<close>: the graceful unmount of the first fails and
  every wait fails, all with \<^verbatim>\<open>CommandFailedError\<close>; the forced abort and the removals
  return. The teardown returns and has reached both clients.
\<close>

theorem teardown_reaches_every_client_witness:
  "truthy (cleanup_on_failure
      [(''client.0'', Some [(''cleanup_on_failure'', PyBool True)]),
       (''client.1'', Some [(''cleanup_on_failure'', PyBool True)])] ''0'')
   \<and> truthy (cleanup_on_failure
      [(''client.0'', Some [(''cleanup_on_failure'', PyBool True)]),
       (''client.1'', Some [(''cleanup_on_failure'', PyBool True)])] ''1'')
   \<and> teardown
        (scripted_env
           (\<lambda>tr remote args. if args = [Str ''fusermount'', Str ''-u'', Str ''/tmp/cephtest/mnt.0''] then Raises CommandFailedError
                               else Returns ())
           (\<lambda>tr procs timeout. Raises CommandFailedError))
        [(''client.0'', Some [(''cleanup_on_failure'', PyBool True)]),
         (''client.1'', Some [(''cleanup_on_failure'', PyBool True)])]
        [(''0'', 10), (''1'', 11)] [(''0'', ''a''), (''1'', ''b'')] []
     = Some (Ok (),
         [Logged INFO ''Unmounting ceph-fuse clients...'' [],
          Did (RemoteRun ''a'' [Str ''fusermount'', Str ''-u'', Str ''/tmp/cephtest/mnt.0'']) (Threw CommandFailedError),
          Logged ERROR ''fuse failed to unmount, cleaning up anyway'' [],
          Did (RemoteRun ''a'' [Str ''echo'', Str ''1'', Raw ''>'', Raw ''/sys/fs/fuse/connections/*/abort'']) Fine,
          Did (RemoteRun ''a'' [Str ''sudo'', Str ''umount'', Str ''-l'', Str ''-f'', Str ''/tmp/cephtest/mnt.0'']) Fine,
          Did (RunWait [10, 11] PyNone) (Threw CommandFailedError),
          Logged INFO ''ceph-fuse process failed, cleaning up anyway'' [],
          Did (RemoteRun ''b'' [Str ''fusermount'', Str ''-u'', Str ''/tmp/cephtest/mnt.1'']) Fine,
          Did (RunWait [10, 11] PyNone) (Threw CommandFailedError),
          Logged INFO ''ceph-fuse process failed, cleaning up anyway'' [],
          Did (RemoteRun ''a'' [Str ''rmdir'', Str ''--'', Str ''/tmp/cephtest/mnt.0'']) Fine,
          Did (RemoteRun ''b'' [Str ''rmdir'', Str ''--'', Str ''/tmp/cephtest/mnt.1'']) Fine])"
proof -
  let ?env = "scripted_env
           (\<lambda>tr remote args. if args = [Str ''fusermount'', Str ''-u'', Str ''/tmp/cephtest/mnt.0''] then Raises CommandFailedError
                               else Returns ())
           (\<lambda>tr procs timeout. Raises CommandFailedError)"
  let ?config = "[(''client.0'', Some [(''cleanup_on_failure'', PyBool True)]),
         (''client.1'', Some [(''cleanup_on_failure'', PyBool True)])]"
  let ?tr' = "[Logged INFO ''Unmounting ceph-fuse clients...'' [],
          Did (RemoteRun ''a'' (fusermount_args (mnt ''0''))) (Threw CommandFailedError),
          Logged ERROR ''fuse failed to unmount, cleaning up anyway'' [],
          Did (RemoteRun ''a'' abort_args) Fine,
          Did (RemoteRun ''a'' (umount_args (mnt ''0''))) Fine,
          Did (RunWait [10, 11] PyNone) (Threw CommandFailedError),
          Logged INFO ''ceph-fuse process failed, cleaning up anyway'' [],
          Did (RemoteRun ''b'' (fusermount_args (mnt ''1''))) Fine,
          Did (RunWait [10, 11] PyNone) (Threw CommandFailedError),
          Logged INFO ''ceph-fuse process failed, cleaning up anyway'' [],
          Did (RemoteRun ''a'' (rmdir_args (mnt ''0''))) Fine,
          Did (RemoteRun ''b'' (rmdir_args (mnt ''1''))) Fine]"
  have c0: "client_config_of ?config ''0'' = [(''cleanup_on_failure'', PyBool True)]"
    and c1: "client_config_of ?config ''1'' = [(''cleanup_on_failure'', PyBool True)]"
    by (simp_all add: client_config_of_def)
  have t0: "truthy (cleanup_on_failure ?config ''0'')" and t1: "truthy (cleanup_on_failure ?config ''1'')"
    by (simp_all add: c0 c1 dict_get_def)
  have all: "\<forall>c\<in>set [(''0'', ''a''), (''1'', ''b'')]. truthy (cleanup_on_failure ?config (fst c))"
    using t0 t1 by simp
  have h: "teardown ?env ?config [(''0'', 10), (''1'', 11)] [(''0'', ''a''), (''1'', ''b'')] []
             = Some (Ok (), ?tr')"
    by (simp add: teardown_def teardown_client_def Let_def try_unmount_def fuse_unmount_def
          abort_fuse_mount_def call_remote_run_def try_wait_def wait_for_daemons_raises
          scripted_env_simps c0 c1 dict_get_def fusermount_args_def abort_args_def umount_args_def
          rmdir_args_def mnt_def)
  from teardown_reaches_every_client[OF all h] t0 t1 h show ?thesis
    by (simp add: fusermount_args_def rmdir_args_def umount_args_def abort_args_def mnt_def)
qed

text \<open>
  The claim as it stands fails even when every client has \<^verbatim>\<open>cleanup_on_failure\<close> set:
  here the graceful unmount of the first client fails and so does the first command of the
  forced abort. The teardown raises; no wait, no step for the second client, no removal.
\<close>

theorem failed_abort_skips_cleanup_counterexample:
  "teardown
     (scripted_env (\<lambda>tr remote args. Raises CommandFailedError) (\<lambda>tr procs timeout. Returns ()))
     [(''client.0'', Some [(''cleanup_on_failure'', PyBool True)]),
      (''client.1'', Some [(''cleanup_on_failure'', PyBool True)])]
     [(''0'', 10), (''1'', 11)] [(''0'', ''a''), (''1'', ''b'')] []
   = Some (Exc CommandFailedError,
       [Logged INFO ''Unmounting ceph-fuse clients...'' [],
        Did (RemoteRun ''a'' [Str ''fusermount'', Str ''-u'', Str ''/tmp/cephtest/mnt.0'']) (Threw CommandFailedError),
        Logged ERROR ''fuse failed to unmount, cleaning up anyway'' [],
        Did (RemoteRun ''a'' [Str ''echo'', Str ''1'', Raw ''>'', Raw ''/sys/fs/fuse/connections/*/abort'']) (Threw CommandFailedError)])"
proof -
  have c0: "client_config_of
      [(''client.0'', Some [(''cleanup_on_failure'', PyBool True)]),
       (''client.1'', Some [(''cleanup_on_failure'', PyBool True)])] ''0''
        = [(''cleanup_on_failure'', PyBool True)]"
    by (simp add: client_config_of_def)
  show ?thesis
    by (simp add: teardown_def teardown_client_def Let_def try_unmount_def fuse_unmount_def
          abort_fuse_mount_def call_remote_run_def scripted_env_simps c0 dict_get_def
          fusermount_args_def abort_args_def mnt_def)
qed

text \<open>
  C8. The trace of a run of the task that comes to an end is, after the first log record:
  launch events \<open>L\<close> (directory creations and daemon starts), then mount-wait events \<open>M\<close>,
  then the workload and the log record of the teardown \<open>Y\<close>, then one segment of steps 1
  and 2 per client \<open>segs\<close>, then removals \<open>R\<close>. If there is any mount-wait at all, every
  client's directory was made and every client's daemon was started in \<open>L\<close>, before it. The
  segments follow the order of the client list: the \<open>i\<close>-th starts with the graceful unmount of
  the \<open>i\<close>-th client and holds events of that client's steps only, and a segment that is
  followed by another segment or by removals holds a wait on the daemons. Removals follow the
  order of the client list too, and if there is any removal at all, every client has a segment
  before it.
\<close>

theorem phases_in_order:
  assumes "task env misc ctx config body tr = Some (res, tr')"
  shows "\<exists>fd L M Y segs R.
     tr' = tr @ Logged INFO ''Mounting ceph-fuse clients...'' [] # L @ M @ Y @ concat segs @ R
   \<and> (\<forall>ev\<in>set L. \<exists>c\<in>set (task_clients misc ctx config).
          launch_event misc (task_config misc ctx config) c ev)
   \<and> (\<forall>ev\<in>set M. \<exists>c\<in>set (task_clients misc ctx config). mount_wait_event fd c ev)
   \<and> (M \<noteq> [] \<longrightarrow>
        (\<forall>c\<in>set (task_clients misc ctx config).
            Did (RemoteRun (snd c) (mkdir_args (mnt (fst c)))) Fine \<in> set L
            \<and> (\<exists>proc. Did (RemoteSpawn (snd c)
                           (run_cmd misc (client_config_of (task_config misc ctx config) (fst c)) (fst c))
                           (''ceph-fuse.'' @ fst c)) (Proc proc) \<in> set L)))
   \<and> (Y = [] \<and> segs = [] \<and> R = []
        \<or> (\<exists>out. Y = [Did Yield out, Logged INFO ''Unmounting ceph-fuse clients...'' []]))
   \<and> length segs \<le> length (task_clients misc ctx config)
   \<and> (\<forall>i<length segs.
          (\<exists>out seg. segs ! i =
              Did (RemoteRun (snd (task_clients misc ctx config ! i))
                     (fusermount_args (mnt (fst (task_clients misc ctx config ! i))))) out # seg)
          \<and> (\<forall>ev\<in>set (segs ! i).
                 teardown_event (task_config misc ctx config) fd (task_clients misc ctx config ! i) ev)
          \<and> (R \<noteq> [] \<or> Suc i < length segs \<longrightarrow>
                (\<exists>out'. Did (RunWait (map snd fd)
                               (fuse_timeout (task_config misc ctx config)
                                  (fst (task_clients misc ctx config ! i)))) out'
                    \<in> set (segs ! i))))
   \<and> length R \<le> length (task_clients misc ctx config)
   \<and> (\<forall>i<length R. rmdir_event (task_clients misc ctx config ! i) (R ! i))
   \<and> (R \<noteq> [] \<longrightarrow> length segs = length (task_clients misc ctx config))"
proof -
  let ?cfg = "task_config misc ctx config" and ?cl = "task_clients misc ctx config"
  let ?tr0 = "tr @ [Logged INFO ''Mounting ceph-fuse clients...'' []]"
  define launched where "launched L \<longleftrightarrow>
        (\<forall>c\<in>set ?cl.
            Did (RemoteRun (snd c) (mkdir_args (mnt (fst c)))) Fine \<in> set L
            \<and> (\<exists>proc. Did (RemoteSpawn (snd c)
                           (run_cmd misc (client_config_of ?cfg (fst c)) (fst c))
                           (''ceph-fuse.'' @ fst c)) (Proc proc) \<in> set L))" for L
  define P where "P fd L M Y segs R \<longleftrightarrow>
     tr' = tr @ Logged INFO ''Mounting ceph-fuse clients...'' [] # L @ M @ Y @ concat segs @ R
   \<and> (\<forall>ev\<in>set L. \<exists>c\<in>set ?cl. launch_event misc ?cfg c ev)
   \<and> (\<forall>ev\<in>set M. \<exists>c\<in>set ?cl. mount_wait_event fd c ev)
   \<and> (M \<noteq> [] \<longrightarrow> launched L)
   \<and> (Y = [] \<and> segs = [] \<and> R = []
        \<or> (\<exists>out. Y = [Did Yield out, Logged INFO ''Unmounting ceph-fuse clients...'' []]))
   \<and> length segs \<le> length ?cl
   \<and> (\<forall>i<length segs.
          (\<exists>out seg. segs ! i =
              Did (RemoteRun (snd (?cl ! i)) (fusermount_args (mnt (fst (?cl ! i))))) out # seg)
          \<and> (\<forall>ev\<in>set (segs ! i). teardown_event ?cfg fd (?cl ! i) ev)
          \<and> (R \<noteq> [] \<or> Suc i < length segs \<longrightarrow>
                (\<exists>out'. Did (RunWait (map snd fd) (fuse_timeout ?cfg (fst (?cl ! i)))) out'
                    \<in> set (segs ! i))))
   \<and> length R \<le> length ?cl
   \<and> (\<forall>i<length R. rmdir_event (?cl ! i) (R ! i))
   \<and> (R \<noteq> [] \<longrightarrow> length segs = length ?cl)" for fd L M Y segs R
  have "\<exists>fd L M Y segs R. P fd L M Y segs R"
    using task_cases[OF assms]
  proof (elim disjE exE conjE)
    fix e
    assume l: "launch_loop env misc ?cfg ?cl [] ?tr0 = Some (Exc e, tr')"
    from launch_loop_events[OF l] obtain L where
      L: "tr' = ?tr0 @ L" "\<forall>ev\<in>set L. \<exists>c\<in>set ?cl. launch_event misc ?cfg c ev"
      by (elim exE conjE)
    have "P [] L [] [] [] []"
      unfolding P_def using L by simp
    then show ?thesis by (intro exI)
  next
    fix fd tr1 e
    assume l: "launch_loop env misc ?cfg ?cl [] ?tr0 = Some (Ok fd, tr1)"
      and m: "mount_wait_loop env fd ?cl tr1 = Some (Exc e, tr')"
    from launch_loop_events[OF l] obtain L where
      L: "tr1 = ?tr0 @ L" "\<forall>ev\<in>set L. \<exists>c\<in>set ?cl. launch_event misc ?cfg c ev"
      and ok: "\<forall>fd'. Ok fd = Ok fd' \<longrightarrow>
                 fst ` set fd' = fst ` set ([]::(string \<times> handle) list) \<union> fst ` set ?cl
                 \<and> (\<forall>c\<in>set ?cl.
                       Did (RemoteRun (snd c) (mkdir_args (mnt (fst c)))) Fine \<in> set L
                       \<and> (\<exists>proc. Did (RemoteSpawn (snd c) (run_cmd misc (client_config_of ?cfg (fst c)) (fst c))
                             (''ceph-fuse.'' @ fst c)) (Proc proc) \<in> set L))"
      by (elim exE conjE)
    from ok have la: "launched L" unfolding launched_def by simp
    from mount_wait_loop_events[OF m] obtain M where
      M: "tr' = tr1 @ M" "\<forall>ev\<in>set M. \<exists>c\<in>set ?cl. mount_wait_event fd c ev"
      by (elim exE conjE)
    have "P fd L M [] [] []"
      unfolding P_def using L M la by simp
    then show ?thesis by (intro exI)
  next
    fix fd tr1 tr2 y r
    assume l: "launch_loop env misc ?cfg ?cl [] ?tr0 = Some (Ok fd, tr1)"
      and m: "mount_wait_loop env fd ?cl tr1 = Some (Ok (), tr2)"
      and t: "teardown env ?cfg fd ?cl (tr2 @ [Did Yield y]) = Some (r, tr')"
    from launch_loop_events[OF l] obtain L where
      L: "tr1 = ?tr0 @ L" "\<forall>ev\<in>set L. \<exists>c\<in>set ?cl. launch_event misc ?cfg c ev"
      and ok: "\<forall>fd'. Ok fd = Ok fd' \<longrightarrow>
                 fst ` set fd' = fst ` set ([]::(string \<times> handle) list) \<union> fst ` set ?cl
                 \<and> (\<forall>c\<in>set ?cl.
                       Did (RemoteRun (snd c) (mkdir_args (mnt (fst c)))) Fine \<in> set L
                       \<and> (\<exists>proc. Did (RemoteSpawn (snd c) (run_cmd misc (client_config_of ?cfg (fst c)) (fst c))
                             (''ceph-fuse.'' @ fst c)) (Proc proc) \<in> set L))"
      by (elim exE conjE)
    from ok have la: "launched L" unfolding launched_def by simp
    from mount_wait_loop_events[OF m] obtain M where
      M: "tr2 = tr1 @ M" "\<forall>ev\<in>set M. \<exists>c\<in>set ?cl. mount_wait_event fd c ev"
      by (elim exE conjE)
    from teardown_shape[OF t] obtain segs R where
      tr': "tr' = (tr2 @ [Did Yield y]) @ Logged INFO ''Unmounting ceph-fuse clients...'' [] # concat segs @ R"
      and len: "length segs \<le> length ?cl"
      and each: "\<forall>i<length segs.
                 (\<exists>out seg. segs ! i = Did (RemoteRun (snd (?cl ! i)) (fusermount_args (mnt (fst (?cl ! i))))) out # seg)
                 \<and> (\<forall>ev\<in>set (segs ! i). teardown_event ?cfg fd (?cl ! i) ev)
                 \<and> ((R \<noteq> [] \<or> r = Ok () \<or> Suc i < length segs) \<longrightarrow>
                      (\<exists>out'. Did (RunWait (map snd fd) (fuse_timeout ?cfg (fst (?cl ! i)))) out'
                          \<in> set (segs ! i)))"
      and lenR: "length R \<le> length ?cl"
      and Rev: "\<forall>i<length R. rmdir_event (?cl ! i) (R ! i)"
      and full: "R \<noteq> [] \<or> r = Ok () \<longrightarrow> length segs = length ?cl"
      by (elim exE conjE)
    let ?Y = "[Did Yield y, Logged INFO ''Unmounting ceph-fuse clients...'' []]"
    have p1: "tr' = tr @ Logged INFO ''Mounting ceph-fuse clients...'' [] # L @ M @ ?Y @ concat segs @ R"
      using tr' M(1) L(1) by simp
    have p5: "?Y = [] \<and> segs = [] \<and> R = []
        \<or> (\<exists>out. ?Y = [Did Yield out, Logged INFO ''Unmounting ceph-fuse clients...'' []])"
      by (intro disjI2 exI[of _ y]) (rule refl)
    have p7: "\<forall>i<length segs.
          (\<exists>out seg. segs ! i =
              Did (RemoteRun (snd (?cl ! i)) (fusermount_args (mnt (fst (?cl ! i))))) out # seg)
          \<and> (\<forall>ev\<in>set (segs ! i). teardown_event ?cfg fd (?cl ! i) ev)
          \<and> (R \<noteq> [] \<or> Suc i < length segs \<longrightarrow>
                (\<exists>out'. Did (RunWait (map snd fd) (fuse_timeout ?cfg (fst (?cl ! i)))) out'
                    \<in> set (segs ! i)))"
    proof (intro allI impI)
      fix i assume "i < length segs"
      with each have e: "(\<exists>out seg. segs ! i = Did (RemoteRun (snd (?cl ! i)) (fusermount_args (mnt (fst (?cl ! i))))) out # seg)
                 \<and> (\<forall>ev\<in>set (segs ! i). teardown_event ?cfg fd (?cl ! i) ev)
                 \<and> ((R \<noteq> [] \<or> r = Ok () \<or> Suc i < length segs) \<longrightarrow>
                      (\<exists>out'. Did (RunWait (map snd fd) (fuse_timeout ?cfg (fst (?cl ! i)))) out'
                          \<in> set (segs ! i)))"
        by (elim allE impE)
      then show "(\<exists>out seg. segs ! i =
              Did (RemoteRun (snd (?cl ! i)) (fusermount_args (mnt (fst (?cl ! i))))) out # seg)
          \<and> (\<forall>ev\<in>set (segs ! i). teardown_event ?cfg fd (?cl ! i) ev)
          \<and> (R \<noteq> [] \<or> Suc i < length segs \<longrightarrow>
                (\<exists>out'. Did (RunWait (map snd fd) (fuse_timeout ?cfg (fst (?cl ! i)))) out'
                    \<in> set (segs ! i)))"
        by (elim conjE, intro conjI impI) (assumption, assumption, blast)
    qed
    have p4: "M \<noteq> [] \<longrightarrow> launched L" using la by simp
    have p10: "R \<noteq> [] \<longrightarrow> length segs = length ?cl" using full by simp
    have "P fd L M ?Y segs R"
      unfolding P_def
      by (intro conjI) (rule p1 L(2) M(2) p4 p5 len p7 lenR Rev p10)+
    then show ?thesis by (intro exI)
  qed
  then show ?thesis unfolding P_def launched_def .
qed

lemma wait_for_daemons_blocks:
  "run_wait env tr (map snd fuse_daemons) timeout = Blocks \<Longrightarrow>
     wait_for_daemons env remote fuse_daemons timeout tr = None"
  by (subst wait_for_daemons.simps) (simp add: call_run_wait_def)

lemma run_cmd_last:
  "run_cmd misc client_config id' \<noteq> []"
  "last (run_cmd misc client_config id') = Str (''/tmp/cephtest/mnt.'' @ id')"
  by (simp_all add: run_cmd_def Let_def mnt_def)

lemma daemon_env_simps:
  "remote_run daemon_env = (\<lambda>tr remote args. Returns ())"
  "remote_spawn daemon_env = (\<lambda>tr remote args lg. Returns (length tr))"
  "wait_until_fuse_mounted daemon_env = (\<lambda>tr remote fuse m. Returns ())"
  "run_wait daemon_env tr procs timeout =
     (if list_all (daemon_exited tr) procs then Returns ()
      else if timeout = PyNone then Blocks else Raises Timeout)"
  by (simp_all add: daemon_env_def scripted_env_simps)

lemma daemon_launch:
  "launch_loop daemon_env example_misc
     [(''client.0'', None), (''client.1'', None), (''client.2'', None)]
     [(''0'', ''a''), (''1'', ''b''), (''2'', ''c'')] []
     ([] @ [Logged INFO ''Mounting ceph-fuse clients...'' []])
   = Some (Ok [(''0'', 4), (''1'', 8), (''2'', 12)], example_launch_trace)"
  by (simp add: launch_client_def Let_def call_remote_run_def call_remote_spawn_def
        daemon_env_simps example_client_config example_launch_trace_def eval_nat_numeral)

lemma daemon_mount:
  "mount_wait_loop daemon_env [(''0'', 4), (''1'', 8), (''2'', 12)]
     [(''0'', ''a''), (''1'', ''b''), (''2'', ''c'')] example_launch_trace
   = Some (Ok (), example_mount_trace)"
  by (simp add: call_wait_until_fuse_mounted_def daemon_env_simps example_mount_trace_def)

lemma daemon_wait_blocks:
  "run_wait daemon_env
     (example_mount_trace
      @ [Did Yield (Threw (OtherError ''workload failed'')),
         Logged INFO ''Unmounting ceph-fuse clients...'' [],
         Did (RemoteRun ''a'' [Str ''fusermount'', Str ''-u'', Str ''/tmp/cephtest/mnt.0'']) Fine])
     [4, 8, 12] PyNone = Blocks"
  by (simp add: daemon_env_simps daemon_exited_def example_mount_trace_def
        example_launch_trace_def run_cmd_last mkdir_args_def)

lemma example_config_list:
  "task_config example_misc example_ctx (CfgList [''client.0'']) = [(''client.0'', None)]"
  by (simp add: merged_config_def example_misc_def example_ctx_def dict_of_def Let_def)

lemma example_clients_list:
  "task_clients example_misc example_ctx (CfgList [''client.0'']) = [(''0'', ''a'')]"
  by (simp add: example_config_list) (simp add: example_misc_def example_ctx_def)

text \<open>
  C2. The \<^verbatim>\<open>finally\<close> block does run when the workload raises, and with one live
  client the task does what is claimed: the client is unmounted, its daemon exits and is
  waited for, its mount point is removed and the caller gets the workload's exception. With
  three live clients and no timeout it does not: step 2 of the first client waits for the
  daemons of all three clients, of which two are still mounted, so the wait never returns
  and the task never ends. No mount point is removed and the workload's exception never
  reaches the caller.
\<close>

theorem live_clients_teardown_never_ends:
  "task daemon_env example_misc example_ctx (CfgList [''client.0''])
      (\<lambda>tr. Raises (OtherError ''workload failed'')) []
     = Some (Exc (OtherError ''workload failed''),
         [Logged INFO ''Mounting ceph-fuse clients...'' [],
          Logged INFO ''Mounting ceph-fuse client.{id} at {remote} {mnt}...''
            [FStr ''0'', FStr ''a'', FStr ''/tmp/cephtest/mnt.0''],
          Logged INFO ''Client client.%s config is %s'' [FStr ''0'', FDict []],
          Did (RemoteRun ''a'' [Str ''mkdir'', Str ''--'', Str ''/tmp/cephtest/mnt.0'']) Fine,
          Did (RemoteSpawn ''a''
                 [Str ''/tmp/cephtest/enable-coredump'',
                  Str ''/tmp/cephtest/binary/usr/local/bin/ceph-coverage'',
                  Str ''/tmp/cephtest/archive/coverage'',
                  Str ''/tmp/cephtest/daemon-helper'',
                  Str ''kill'',
                  Str ''/tmp/cephtest/binary/usr/local/bin/ceph-fuse'', Str ''-f'',
                  Str ''--name'', Str ''client.0'',
                  Str ''-c'', Str ''/tmp/cephtest/ceph.conf'',
                  Str ''/tmp/cephtest/mnt.0'']
                 ''ceph-fuse.0'') (Proc 4),
          Did (WaitUntilFuseMounted ''a'' 4 ''/tmp/cephtest/mnt.0'') Fine,
          Did Yield (Threw (OtherError ''workload failed'')),
          Logged INFO ''Unmounting ceph-fuse clients...'' [],
          Did (RemoteRun ''a'' [Str ''fusermount'', Str ''-u'', Str ''/tmp/cephtest/mnt.0'']) Fine,
          Did (RunWait [4] PyNone) Fine,
          Did (RemoteRun ''a'' [Str ''rmdir'', Str ''--'', Str ''/tmp/cephtest/mnt.0'']) Fine])
   \<and> run_wait daemon_env
        (example_mount_trace
         @ [Did Yield (Threw (OtherError ''workload failed'')),
            Logged INFO ''Unmounting ceph-fuse clients...'' [],
            Did (RemoteRun ''a'' [Str ''fusermount'', Str ''-u'', Str ''/tmp/cephtest/mnt.0'']) Fine])
        [4, 8, 12] PyNone = Blocks
   \<and> task daemon_env example_misc example_ctx CfgNone
        (\<lambda>tr. Raises (OtherError ''workload failed'')) [] = None"
proof (intro conjI)
  let ?L = "[Logged INFO ''Mounting ceph-fuse clients...'' [],
          Logged INFO ''Mounting ceph-fuse client.{id} at {remote} {mnt}...''
            [FStr ''0'', FStr ''a'', FStr ''/tmp/cephtest/mnt.0''],
          Logged INFO ''Client client.%s config is %s'' [FStr ''0'', FDict []],
          Did (RemoteRun ''a'' [Str ''mkdir'', Str ''--'', Str ''/tmp/cephtest/mnt.0'']) Fine,
          Did (RemoteSpawn ''a''
                 [Str ''/tmp/cephtest/enable-coredump'',
                  Str ''/tmp/cephtest/binary/usr/local/bin/ceph-coverage'',
                  Str ''/tmp/cephtest/archive/coverage'',
                  Str ''/tmp/cephtest/daemon-helper'',
                  Str ''kill'',
                  Str ''/tmp/cephtest/binary/usr/local/bin/ceph-fuse'', Str ''-f'',
                  Str ''--name'', Str ''client.0'',
                  Str ''-c'', Str ''/tmp/cephtest/ceph.conf'',
                  Str ''/tmp/cephtest/mnt.0'']
                 ''ceph-fuse.0'') (Proc 4)]"
  let ?M = "?L @ [Did (WaitUntilFuseMounted ''a'' 4 ''/tmp/cephtest/mnt.0'') Fine]"
  let ?U = "?M @ [Did Yield (Threw (OtherError ''workload failed'')),
                  Logged INFO ''Unmounting ceph-fuse clients...'' [],
                  Did (RemoteRun ''a'' [Str ''fusermount'', Str ''-u'', Str ''/tmp/cephtest/mnt.0'']) Fine]"
  have cc: "client_config_of [(''client.0'', None)] ''0'' = []"
    by (simp add: client_config_of_def)
  have l: "launch_loop daemon_env example_misc [(''client.0'', None)] [(''0'', ''a'')] []
             ([] @ [Logged INFO ''Mounting ceph-fuse clients...'' []]) = Some (Ok [(''0'', 4)], ?L)"
    by (simp add: launch_client_def Let_def call_remote_run_def call_remote_spawn_def
          daemon_env_simps cc run_cmd_def daemon_signal_def dict_get_def mkdir_args_def mnt_def
          eval_nat_numeral)
  have m: "mount_wait_loop daemon_env [(''0'', 4)] [(''0'', ''a'')] ?L = Some (Ok (), ?M)"
    by (simp add: call_wait_until_fuse_mounted_def daemon_env_simps mnt_def)
  have w: "run_wait daemon_env ?U (map snd [(''0'', 4::nat)]) PyNone = Returns ()"
    by (simp add: daemon_env_simps daemon_exited_def)
  have wd: "wait_for_daemons daemon_env ''a'' [(''0'', 4)] PyNone ?U
              = Some (Ok (), ?U @ [Did (RunWait (map snd [(''0'', 4::nat)]) PyNone) Fine])"
    by (rule wait_for_daemons_ok[OF w])
  have t: "teardown daemon_env [(''client.0'', None)] [(''0'', 4)] [(''0'', ''a'')]
             (?M @ [Did Yield (Threw (OtherError ''workload failed''))])
           = Some (Ok (), ?U @ [Did (RunWait [4] PyNone) Fine,
                 Did (RemoteRun ''a'' [Str ''rmdir'', Str ''--'', Str ''/tmp/cephtest/mnt.0'']) Fine])"
    using wd
    by (simp add: teardown_def teardown_client_def Let_def try_unmount_def fuse_unmount_def
          call_remote_run_def try_wait_def daemon_env_simps cc dict_get_def fusermount_args_def
          rmdir_args_def mnt_def)
  have l': "launch_loop daemon_env example_misc
              (task_config example_misc example_ctx (CfgList [''client.0'']))
              (task_clients example_misc example_ctx (CfgList [''client.0''])) []
              ([] @ [Logged INFO ''Mounting ceph-fuse clients...'' []]) = Some (Ok [(''0'', 4)], ?L)"
    by (subst example_clients_list, subst example_config_list, rule l)
  have m': "mount_wait_loop daemon_env [(''0'', 4)]
              (task_clients example_misc example_ctx (CfgList [''client.0''])) ?L = Some (Ok (), ?M)"
    by (subst example_clients_list, rule m)
  have "task daemon_env example_misc example_ctx (CfgList [''client.0''])
          (\<lambda>tr. Raises (OtherError ''workload failed'')) []
        = after_finally (Raises (OtherError ''workload failed''))
            (teardown daemon_env (task_config example_misc example_ctx (CfgList [''client.0'']))
               [(''0'', 4)] (task_clients example_misc example_ctx (CfgList [''client.0'']))
               (?M @ [Did Yield (Threw (OtherError ''workload failed''))]))"
    by (simp add: task_after_setup[OF l' m'])
  also have "\<dots> = after_finally (Raises (OtherError ''workload failed''))
            (teardown daemon_env [(''client.0'', None)] [(''0'', 4)] [(''0'', ''a'')]
               (?M @ [Did Yield (Threw (OtherError ''workload failed''))]))"
    by (subst example_clients_list, subst example_config_list, rule refl)
  finally have e: "task daemon_env example_misc example_ctx (CfgList [''client.0''])
          (\<lambda>tr. Raises (OtherError ''workload failed'')) []
        = after_finally (Raises (OtherError ''workload failed''))
            (teardown daemon_env [(''client.0'', None)] [(''0'', 4)] [(''0'', ''a'')]
               (?M @ [Did Yield (Threw (OtherError ''workload failed''))]))" .
  show "task daemon_env example_misc example_ctx (CfgList [''client.0''])
      (\<lambda>tr. Raises (OtherError ''workload failed'')) []
     = Some (Exc (OtherError ''workload failed''),
         [Logged INFO ''Mounting ceph-fuse clients...'' [],
          Logged INFO ''Mounting ceph-fuse client.{id} at {remote} {mnt}...''
            [FStr ''0'', FStr ''a'', FStr ''/tmp/cephtest/mnt.0''],
          Logged INFO ''Client client.%s config is %s'' [FStr ''0'', FDict []],
          Did (RemoteRun ''a'' [Str ''mkdir'', Str ''--'', Str ''/tmp/cephtest/mnt.0'']) Fine,
          Did (RemoteSpawn ''a''
                 [Str ''/tmp/cephtest/enable-coredump'',
                  Str ''/tmp/cephtest/binary/usr/local/bin/ceph-coverage'',
                  Str ''/tmp/cephtest/archive/coverage'',
                  Str ''/tmp/cephtest/daemon-helper'',
                  Str ''kill'',
                  Str ''/tmp/cephtest/binary/usr/local/bin/ceph-fuse'', Str ''-f'',
                  Str ''--name'', Str ''client.0'',
                  Str ''-c'', Str ''/tmp/cephtest/ceph.conf'',
                  Str ''/tmp/cephtest/mnt.0'']
                 ''ceph-fuse.0'') (Proc 4),
          Did (WaitUntilFuseMounted ''a'' 4 ''/tmp/cephtest/mnt.0'') Fine,
          Did Yield (Threw (OtherError ''workload failed'')),
          Logged INFO ''Unmounting ceph-fuse clients...'' [],
          Did (RemoteRun ''a'' [Str ''fusermount'', Str ''-u'', Str ''/tmp/cephtest/mnt.0'']) Fine,
          Did (RunWait [4] PyNone) Fine,
          Did (RemoteRun ''a'' [Str ''rmdir'', Str ''--'', Str ''/tmp/cephtest/mnt.0'']) Fine])"
    unfolding e t by (simp add: after_finally_def)
next
  show "run_wait daemon_env
        (example_mount_trace
         @ [Did Yield (Threw (OtherError ''workload failed'')),
            Logged INFO ''Unmounting ceph-fuse clients...'' [],
            Did (RemoteRun ''a'' [Str ''fusermount'', Str ''-u'', Str ''/tmp/cephtest/mnt.0'']) Fine])
        [4, 8, 12] PyNone = Blocks"
    by (rule daemon_wait_blocks)
next
  let ?cfg = "[(''client.0'', None), (''client.1'', None), (''client.2'', None)]"
  let ?fd = "[(''0'', 4::nat), (''1'', 8), (''2'', 12)]"
  let ?cl = "[(''0'', ''a''), (''1'', ''b''), (''2'', ''c'')]"
  let ?Y = "example_mount_trace @ [Did Yield (Threw (OtherError ''workload failed''))]"
  let ?U = "example_mount_trace
         @ [Did Yield (Threw (OtherError ''workload failed'')),
            Logged INFO ''Unmounting ceph-fuse clients...'' [],
            Did (RemoteRun ''a'' [Str ''fusermount'', Str ''-u'', Str ''/tmp/cephtest/mnt.0'']) Fine]"
  have b: "run_wait daemon_env ?U (map snd ?fd) PyNone = Blocks"
    using daemon_wait_blocks by simp
  have wd: "wait_for_daemons daemon_env ''a'' ?fd PyNone ?U = None"
    by (rule wait_for_daemons_blocks[OF b])
  have t: "teardown daemon_env ?cfg ?fd ?cl ?Y = None"
    using wd
    by (simp add: teardown_def teardown_client_def Let_def try_unmount_def fuse_unmount_def
          call_remote_run_def try_wait_def daemon_env_simps example_client_config dict_get_def
          fusermount_args_def mnt_def)
  have l': "launch_loop daemon_env example_misc (task_config example_misc example_ctx CfgNone)
              (task_clients example_misc example_ctx CfgNone) []
              ([] @ [Logged INFO ''Mounting ceph-fuse clients...'' []])
            = Some (Ok ?fd, example_launch_trace)"
    by (subst example_clients, subst example_config, rule daemon_launch)
  have m': "mount_wait_loop daemon_env ?fd (task_clients example_misc example_ctx CfgNone)
              example_launch_trace = Some (Ok (), example_mount_trace)"
    by (subst example_clients, rule daemon_mount)
  have "task daemon_env example_misc example_ctx CfgNone
          (\<lambda>tr. Raises (OtherError ''workload failed'')) []
        = after_finally (Raises (OtherError ''workload failed''))
            (teardown daemon_env (task_config example_misc example_ctx CfgNone) ?fd
               (task_clients example_misc example_ctx CfgNone) ?Y)"
    by (simp add: task_after_setup[OF l' m'])
  also have "\<dots> = after_finally (Raises (OtherError ''workload failed''))
            (teardown daemon_env ?cfg ?fd ?cl ?Y)"
    by (subst example_clients, subst example_config, rule refl)
  finally have e: "task daemon_env example_misc example_ctx CfgNone
          (\<lambda>tr. Raises (OtherError ''workload failed'')) []
        = after_finally (Raises (OtherError ''workload failed''))
            (teardown daemon_env ?cfg ?fd ?cl ?Y)" .
  show "task daemon_env example_misc example_ctx CfgNone
        (\<lambda>tr. Raises (OtherError ''workload failed'')) [] = None"
    unfolding e t by (simp add: after_finally_def)
qed

lemma example_task_returns:
  "task example_env example_misc example_ctx CfgNone (\<lambda>tr. Returns ()) []
     = Some (Ok (),
         example_mount_trace
         @ [Did Yield Fine,
            Logged INFO ''Unmounting ceph-fuse clients...'' [],
            Did (RemoteRun ''a'' [Str ''fusermount'', Str ''-u'', Str ''/tmp/cephtest/mnt.0'']) Fine,
            Did (RunWait [4, 8, 12] PyNone) Fine,
            Did (RemoteRun ''b'' [Str ''fusermount'', Str ''-u'', Str ''/tmp/cephtest/mnt.1'']) Fine,
            Did (RunWait [4, 8, 12] PyNone) Fine,
            Did (RemoteRun ''c'' [Str ''fusermount'', Str ''-u'', Str ''/tmp/cephtest/mnt.2'']) Fine,
            Did (RunWait [4, 8, 12] PyNone) Fine,
            Did (RemoteRun ''a'' [Str ''rmdir'', Str ''--'', Str ''/tmp/cephtest/mnt.0'']) Fine,
            Did (RemoteRun ''b'' [Str ''rmdir'', Str ''--'', Str ''/tmp/cephtest/mnt.1'']) Fine,
            Did (RemoteRun ''c'' [Str ''rmdir'', Str ''--'', Str ''/tmp/cephtest/mnt.2'']) Fine])"
proof -
  have h1: "launch_loop example_env example_misc (task_config example_misc example_ctx CfgNone)
      (task_clients example_misc example_ctx CfgNone) []
      ([] @ [Logged INFO ''Mounting ceph-fuse clients...'' []])
     = Some (Ok [(''0'', 4), (''1'', 8), (''2'', 12)], example_launch_trace)"
    by (subst example_clients, subst example_config, rule example_launch)
  have h2: "mount_wait_loop example_env [(''0'', 4), (''1'', 8), (''2'', 12)]
        (task_clients example_misc example_ctx CfgNone) example_launch_trace
     = Some (Ok (), example_mount_trace)"
    by (subst example_clients, rule example_mount)
  have "task example_env example_misc example_ctx CfgNone (\<lambda>tr. Returns ()) []
     = after_finally (Returns ())
         (teardown example_env (task_config example_misc example_ctx CfgNone)
            [(''0'', 4), (''1'', 8), (''2'', 12)] (task_clients example_misc example_ctx CfgNone)
            (example_mount_trace @ [Did Yield Fine]))"
    by (simp add: task_after_setup[OF h1 h2])
  also have "\<dots> = after_finally (Returns ())
         (teardown example_env [(''client.0'', None), (''client.1'', None), (''client.2'', None)]
            [(''0'', 4), (''1'', 8), (''2'', 12)] [(''0'', ''a''), (''1'', ''b''), (''2'', ''c'')]
            (example_mount_trace @ [Did Yield Fine]))"
    by (subst example_clients, subst example_config, rule refl)
  finally show ?thesis
    by (simp add: teardown_all_ok[OF example_env_all_ok] after_finally_def
          example_client_config dict_get_def fusermount_args_def rmdir_args_def mnt_def)
qed

text \<open>The same three clients, with a workload that returns: the five phases, in order.\<close>

theorem phases_in_order_witness:
  "task example_env example_misc example_ctx CfgNone (\<lambda>tr. Returns ()) []
     = Some (Ok (),
         example_mount_trace
         @ [Did Yield Fine,
            Logged INFO ''Unmounting ceph-fuse clients...'' [],
            Did (RemoteRun ''a'' [Str ''fusermount'', Str ''-u'', Str ''/tmp/cephtest/mnt.0'']) Fine,
            Did (RunWait [4, 8, 12] PyNone) Fine,
            Did (RemoteRun ''b'' [Str ''fusermount'', Str ''-u'', Str ''/tmp/cephtest/mnt.1'']) Fine,
            Did (RunWait [4, 8, 12] PyNone) Fine,
            Did (RemoteRun ''c'' [Str ''fusermount'', Str ''-u'', Str ''/tmp/cephtest/mnt.2'']) Fine,
            Did (RunWait [4, 8, 12] PyNone) Fine,
            Did (RemoteRun ''a'' [Str ''rmdir'', Str ''--'', Str ''/tmp/cephtest/mnt.0'']) Fine,
            Did (RemoteRun ''b'' [Str ''rmdir'', Str ''--'', Str ''/tmp/cephtest/mnt.1'']) Fine,
            Did (RemoteRun ''c'' [Str ''rmdir'', Str ''--'', Str ''/tmp/cephtest/mnt.2'']) Fine])
   \<and> (\<exists>L M Y segs R.
         example_mount_trace
         @ [Did Yield Fine,
            Logged INFO ''Unmounting ceph-fuse clients...'' [],
            Did (RemoteRun ''a'' [Str ''fusermount'', Str ''-u'', Str ''/tmp/cephtest/mnt.0'']) Fine,
            Did (RunWait [4, 8, 12] PyNone) Fine,
            Did (RemoteRun ''b'' [Str ''fusermount'', Str ''-u'', Str ''/tmp/cephtest/mnt.1'']) Fine,
            Did (RunWait [4, 8, 12] PyNone) Fine,
            Did (RemoteRun ''c'' [Str ''fusermount'', Str ''-u'', Str ''/tmp/cephtest/mnt.2'']) Fine,
            Did (RunWait [4, 8, 12] PyNone) Fine,
            Did (RemoteRun ''a'' [Str ''rmdir'', Str ''--'', Str ''/tmp/cephtest/mnt.0'']) Fine,
            Did (RemoteRun ''b'' [Str ''rmdir'', Str ''--'', Str ''/tmp/cephtest/mnt.1'']) Fine,
            Did (RemoteRun ''c'' [Str ''rmdir'', Str ''--'', Str ''/tmp/cephtest/mnt.2'']) Fine]
         = [] @ Logged INFO ''Mounting ceph-fuse clients...'' [] # L @ M @ Y @ concat segs @ R
       \<and> length segs \<le> length (task_clients example_misc example_ctx CfgNone)
       \<and> length R \<le> length (task_clients example_misc example_ctx CfgNone))"
  using phases_in_order[OF example_task_returns]
  by (elim exE conjE, intro conjI exI) (rule example_task_returns, assumption+)

end
